theory Spec2Isabelle
  imports Complex_Main
begin

chapter \<open>The simulation core of the asteroids game\<close>

text \<open>
  A shallow embedding of the JavaScript sources: \<^verbatim>\<open>lib/Vector2D.js\<close>,
  \<^verbatim>\<open>models/Ship.js\<close> (Ship and Projectile), \<^verbatim>\<open>models/Asteroid.js\<close>,
  \<^verbatim>\<open>models/Particle.js\<close>, \<^verbatim>\<open>services/PhysicsEngine.js\<close> (PhysicsEngine and
  EntityManager), the GameState class and \<^verbatim>\<open>Game.js\<close>.

  Conventions of the embedding.
  \<^item> A JavaScript number is a \<^typ>\<open>real\<close>: rounding, infinities and NaN of IEEE doubles
    are not modelled. Counters that the code only ever increments by one are \<^typ>\<open>nat\<close>.
  \<^item> A method that mutates \<^verbatim>\<open>this\<close> takes the object and returns the updated object.
  \<^item> \<^verbatim>\<open>Math.random()\<close> reads the next element of a stream that is part of the state.
  \<^item> Functions are named \<^verbatim>\<open>Class_method\<close>.
\<close>

section \<open>Vector2D\<close>

text \<open>The fields \<^verbatim>\<open>x\<close> and \<^verbatim>\<open>y\<close> of the class are \<open>vx\<close> and \<open>vy\<close> here.\<close>

record Vector2D =
  vx :: real
  vy :: real

definition Vector2D_new :: "real \<Rightarrow> real \<Rightarrow> Vector2D" where
  "Vector2D_new a b = \<lparr>vx = a, vy = b\<rparr>"

definition Vector2D_add :: "Vector2D \<Rightarrow> Vector2D \<Rightarrow> Vector2D" where
  "Vector2D_add v w = \<lparr>vx = vx v + vx w, vy = vy v + vy w\<rparr>"

definition Vector2D_subtract :: "Vector2D \<Rightarrow> Vector2D \<Rightarrow> Vector2D" where
  "Vector2D_subtract v w = \<lparr>vx = vx v - vx w, vy = vy v - vy w\<rparr>"

definition Vector2D_multiply :: "Vector2D \<Rightarrow> real \<Rightarrow> Vector2D" where
  "Vector2D_multiply v scalar = \<lparr>vx = vx v * scalar, vy = vy v * scalar\<rparr>"

definition Vector2D_divide :: "Vector2D \<Rightarrow> real \<Rightarrow> Vector2D" where
  "Vector2D_divide v scalar =
     (if scalar \<noteq> 0 then \<lparr>vx = vx v / scalar, vy = vy v / scalar\<rparr> else v)"

definition Vector2D_magnitude :: "Vector2D \<Rightarrow> real" where
  "Vector2D_magnitude v = sqrt (vx v * vx v + vy v * vy v)"

definition Vector2D_magnitudeSquared :: "Vector2D \<Rightarrow> real" where
  "Vector2D_magnitudeSquared v = vx v * vx v + vy v * vy v"

definition Vector2D_normalize :: "Vector2D \<Rightarrow> Vector2D" where
  "Vector2D_normalize v =
     (let mag = Vector2D_magnitude v in if mag > 0 then Vector2D_divide v mag else v)"

definition Vector2D_distanceTo :: "Vector2D \<Rightarrow> Vector2D \<Rightarrow> real" where
  "Vector2D_distanceTo v w =
     (let dx = vx w - vx v; dy = vy w - vy v in sqrt (dx * dx + dy * dy))"

definition Vector2D_limit :: "Vector2D \<Rightarrow> real \<Rightarrow> Vector2D" where
  "Vector2D_limit v mx =
     (let magSq = Vector2D_magnitudeSquared v in
      if magSq > mx * mx then Vector2D_multiply (Vector2D_normalize v) mx else v)"

definition Vector2D_zero :: "Vector2D" where
  "Vector2D_zero = \<lparr>vx = 0, vy = 0\<rparr>"

definition Vector2D_fromAngle :: "real \<Rightarrow> real \<Rightarrow> Vector2D" where
  "Vector2D_fromAngle angle magnitude = \<lparr>vx = cos angle * magnitude, vy = sin angle * magnitude\<rparr>"

text \<open>
  \<^verbatim>\<open>Math.atan2(y, x)\<close>, the angle of the point \<open>(x, y)\<close> in \<open>(-\<pi>, \<pi>]\<close>, with
  \<^verbatim>\<open>atan2(0, 0) = 0\<close>; signed zeros are not modelled.
\<close>

definition Math_atan2 :: "real \<Rightarrow> real \<Rightarrow> real" where
  "Math_atan2 b a =
     (if a > 0 then arctan (b / a)
      else if a < 0 \<and> b \<ge> 0 then arctan (b / a) + pi
      else if a < 0 then arctan (b / a) - pi
      else if b > 0 then pi / 2
      else if b < 0 then - pi / 2
      else 0)"

definition Vector2D_angle :: "Vector2D \<Rightarrow> real" where
  "Vector2D_angle v = Math_atan2 (vy v) (vx v)"

section \<open>PhysicsEngine: collision detection\<close>

text \<open>
  The physics engine sees an entity through four properties: which object it is (the
  identity that \<^verbatim>\<open>===\<close> compares), its \<^verbatim>\<open>id\<close>, its \<^verbatim>\<open>isActive\<close> flag and the
  result of \<^verbatim>\<open>getBounds()\<close>. The ship has neither an \<^verbatim>\<open>id\<close> nor an \<^verbatim>\<open>isActive\<close>
  property: both read as \<^verbatim>\<open>undefined\<close>, which is \<open>None\<close> here. The \<^verbatim>\<open>type\<close> property
  is the constructor of the reference: asteroids carry \<^verbatim>\<open>'asteroid'\<close>, projectiles
  \<^verbatim>\<open>'projectile'\<close>, the ship has none.
\<close>

datatype entityRef = ShipRef | AsteroidRef nat | ProjectileRef nat

record Bounds =
  bounds_x :: real
  bounds_y :: real
  bounds_radius :: real

record Entity =
  e_ref :: entityRef
  e_id :: "nat option"
  e_isActive :: "bool option"
  e_bounds :: Bounds

record Collision =
  entityA :: Entity
  entityB :: Entity
  point :: Vector2D
  normal :: Vector2D

definition checkCircleCollision :: "Entity \<Rightarrow> Entity \<Rightarrow> bool" where
  "checkCircleCollision a b =
     (let boundsA = e_bounds a; boundsB = e_bounds b;
          dx = bounds_x boundsB - bounds_x boundsA;
          dy = bounds_y boundsB - bounds_y boundsA;
          distanceSquared = dx * dx + dy * dy;
          radiusSum = bounds_radius boundsA + bounds_radius boundsB
      in distanceSquared < radiusSum * radiusSum)"

definition getCollisionPoint :: "Entity \<Rightarrow> Entity \<Rightarrow> Vector2D" where
  "getCollisionPoint a b =
     (let boundsA = e_bounds a; boundsB = e_bounds b
      in Vector2D_new ((bounds_x boundsA + bounds_x boundsB) / 2)
                      ((bounds_y boundsA + bounds_y boundsB) / 2))"

definition getCollisionNormal :: "Entity \<Rightarrow> Entity \<Rightarrow> Vector2D" where
  "getCollisionNormal a b =
     (let boundsA = e_bounds a; boundsB = e_bounds b
      in Vector2D_normalize (Vector2D_new (bounds_x boundsB - bounds_x boundsA)
                                          (bounds_y boundsB - bounds_y boundsA)))"

text \<open>The record pushed onto \<^verbatim>\<open>collisions\<close> by both detection strategies.\<close>

definition collisionRecord :: "Entity \<Rightarrow> Entity \<Rightarrow> Collision" where
  "collisionRecord a b =
     \<lparr>entityA = a, entityB = b, point = getCollisionPoint a b, normal = getCollisionNormal a b\<rparr>"

text \<open>
  \<^verbatim>\<open>detectCollisionsBruteForce\<close>: the two index loops, \<open>i\<close> over all positions and
  \<open>j\<close> over the positions after \<open>i\<close>. The counters \<^verbatim>\<open>collisionChecks\<close> and
  \<^verbatim>\<open>actualCollisions\<close> are statistics that nothing reads; they are left out.
\<close>

definition detectCollisionsBruteForce :: "Entity list \<Rightarrow> Collision list" where
  "detectCollisionsBruteForce entities =
     concat (map (\<lambda>i. concat (map (\<lambda>j.
        if checkCircleCollision (entities ! i) (entities ! j)
        then [collisionRecord (entities ! i) (entities ! j)] else [])
       [i + 1 ..< length entities]))
     [0 ..< length entities])"

text \<open>
  The spatial grid is a \<^verbatim>\<open>Map\<close> from the string \<^verbatim>\<open>"gridX,gridY"\<close> to an array of
  entities. Two such strings are equal exactly when the two integers are, so the key is
  the pair of integers.
\<close>

definition gridCellSize :: real where
  "gridCellSize = 100"

definition gridKey :: "Entity \<Rightarrow> int \<times> int" where
  "gridKey e = (\<lfloor>bounds_x (e_bounds e) / gridCellSize\<rfloor>, \<lfloor>bounds_y (e_bounds e) / gridCellSize\<rfloor>)"

definition gridInsert :: "(int \<times> int \<rightharpoonup> Entity list) \<Rightarrow> Entity \<Rightarrow> (int \<times> int \<rightharpoonup> Entity list)" where
  "gridInsert grid e =
     (case grid (gridKey e) of
        None \<Rightarrow> grid(gridKey e \<mapsto> [e])
      | Some cell \<Rightarrow> grid(gridKey e \<mapsto> cell @ [e]))"

definition populateSpatialGrid :: "Entity list \<Rightarrow> (int \<times> int \<rightharpoonup> Entity list)" where
  "populateSpatialGrid entities = foldl gridInsert Map.empty entities"

definition getNearbyEntities :: "(int \<times> int \<rightharpoonup> Entity list) \<Rightarrow> Entity \<Rightarrow> Entity list" where
  "getNearbyEntities grid e =
     concat (map (\<lambda>dx. concat (map (\<lambda>dy.
        case grid (fst (gridKey e) + dx, snd (gridKey e) + dy) of
          None \<Rightarrow> []
        | Some cellEntities \<Rightarrow> cellEntities)
       [-1, 0, 1]))
     [-1, 0, 1])"

text \<open>
  \<^verbatim>\<open>entity.id < candidate.id\<close>: a comparison with \<^verbatim>\<open>undefined\<close> is false. The pair
  identifier is the string \<^verbatim>\<open>`${a}-${b}`\<close> of the two ids in the chosen order; for ids that
  are natural numbers or \<^verbatim>\<open>undefined\<close> the string determines the ordered pair, which stands
  for it here.
\<close>

definition idLess :: "nat option \<Rightarrow> nat option \<Rightarrow> bool" where
  "idLess a b = (case (a, b) of (Some m, Some n) \<Rightarrow> m < n | _ \<Rightarrow> False)"

definition pairId :: "Entity \<Rightarrow> Entity \<Rightarrow> nat option \<times> nat option" where
  "pairId entity candidate =
     (if idLess (e_id entity) (e_id candidate) then (e_id entity, e_id candidate)
      else (e_id candidate, e_id entity))"

text \<open>The body of the inner loop over the candidates of one entity.\<close>

definition checkCandidate ::
  "Entity \<Rightarrow> (nat option \<times> nat option) set \<times> Collision list \<Rightarrow> Entity
     \<Rightarrow> (nat option \<times> nat option) set \<times> Collision list" where
  "checkCandidate entity st candidate =
     (if e_ref entity = e_ref candidate then st
      else if pairId entity candidate \<in> fst st then st
      else (insert (pairId entity candidate) (fst st),
            if checkCircleCollision entity candidate
            then snd st @ [collisionRecord entity candidate] else snd st))"

definition detectCollisionsSpatial :: "Entity list \<Rightarrow> Collision list" where
  "detectCollisionsSpatial entities =
     (let grid = populateSpatialGrid entities in
      snd (foldl (\<lambda>st entity. foldl (checkCandidate entity) st (getNearbyEntities grid entity))
             ({}, []) entities))"

text \<open>\<^verbatim>\<open>useSpacialGrid\<close> is set to true by the constructor and never changed.\<close>

definition detectCollisions :: "Entity list \<Rightarrow> Collision list" where
  "detectCollisions entities =
     (let activeEntities = filter (\<lambda>entity. e_isActive entity \<noteq> Some False) entities in
      if length activeEntities > 10 then detectCollisionsSpatial activeEntities
      else detectCollisionsBruteForce activeEntities)"

text \<open>The unordered pairs of objects that a list of collision records reports.\<close>

definition collidingPairs :: "Collision list \<Rightarrow> entityRef set set" where
  "collidingPairs cs = (\<lambda>c. {e_ref (entityA c), e_ref (entityB c)}) ` set cs"


text \<open>Two entities for the examples: an asteroid at the origin and a projectile at \<open>(3, 4)\<close>.\<close>

definition exampleA :: Entity where
  "exampleA = \<lparr>e_ref = AsteroidRef 1, e_id = Some 1, e_isActive = Some True,
     e_bounds = \<lparr>bounds_x = 0, bounds_y = 0, bounds_radius = 10\<rparr>\<rparr>"

definition exampleB :: Entity where
  "exampleB = \<lparr>e_ref = ProjectileRef 2, e_id = Some 2, e_isActive = Some True,
     e_bounds = \<lparr>bounds_x = 3, bounds_y = 4, bounds_radius = 5\<rparr>\<rparr>"

section \<open>GameState\<close>

text \<open>
  The difficulty is one of the three keys of \<^verbatim>\<open>difficultySettings\<close> and the game phase one
  of the four strings the class assigns. (A difficulty string outside the table is not
  modelled: \<^verbatim>\<open>addScore\<close> would throw a TypeError on it.)
\<close>

datatype Difficulty = Easy | Medium | Hard

datatype GamePhase = Menu | Playing | Paused | GameOver

record DifficultySettings =
  initialLives :: int
  baseAsteroidCount :: int
  asteroidSpeedMultiplier :: real
  extraLifeThreshold :: real

fun difficultySettings :: "Difficulty \<Rightarrow> DifficultySettings" where
  "difficultySettings Easy =
     \<lparr>initialLives = 5, baseAsteroidCount = 3, asteroidSpeedMultiplier = 0.8, extraLifeThreshold = 8000\<rparr>"
| "difficultySettings Medium =
     \<lparr>initialLives = 3, baseAsteroidCount = 5, asteroidSpeedMultiplier = 1.0, extraLifeThreshold = 10000\<rparr>"
| "difficultySettings Hard =
     \<lparr>initialLives = 1, baseAsteroidCount = 8, asteroidSpeedMultiplier = 1.3, extraLifeThreshold = 15000\<rparr>"

text \<open>The table \<^verbatim>\<open>pointValues\<close>.\<close>

definition asteroidLarge :: real where "asteroidLarge = 20"
definition asteroidMedium :: real where "asteroidMedium = 50"
definition asteroidSmall :: real where "asteroidSmall = 100"
definition levelBonus :: real where "levelBonus = 500"

record GameState =
  score :: real
  lives :: int
  level :: int
  difficulty :: Difficulty
  gamePhase :: GamePhase
  isPaused :: bool
  isGameOver :: bool
  levelStartTime :: real
  levelDuration :: real
  asteroidsDestroyed :: nat
  totalAsteroidsThisLevel :: nat
  lastExtraLifeScore :: real
  gameStartTime :: real
  totalGameTime :: real
  shotsFired :: nat
  shotsHit :: nat

text \<open>\<^verbatim>\<open>Date.now()\<close> is the argument \<open>now\<close> of every function that reads the clock.\<close>

definition GameState_applyDifficultySettings :: "GameState \<Rightarrow> GameState" where
  "GameState_applyDifficultySettings s = s\<lparr>lives := initialLives (difficultySettings (difficulty s))\<rparr>"

text \<open>The constructor with no options, as \<^verbatim>\<open>Game\<close> calls it.\<close>

definition GameState_new :: GameState where
  "GameState_new = GameState_applyDifficultySettings
     \<lparr>score = 0, lives = 3, level = 1, difficulty = Medium, gamePhase = Menu,
      isPaused = False, isGameOver = False, levelStartTime = 0, levelDuration = 60000,
      asteroidsDestroyed = 0, totalAsteroidsThisLevel = 0, lastExtraLifeScore = 0,
      gameStartTime = 0, totalGameTime = 0, shotsFired = 0, shotsHit = 0\<rparr>"

definition GameState_startNewGame :: "real \<Rightarrow> Difficulty \<Rightarrow> GameState \<Rightarrow> GameState" where
  "GameState_startNewGame now d s =
     (GameState_applyDifficultySettings (s\<lparr>difficulty := d, score := 0, level := 1\<rparr>))
       \<lparr>gamePhase := Playing, isPaused := False, isGameOver := False,
        levelStartTime := now, gameStartTime := now, asteroidsDestroyed := 0,
        lastExtraLifeScore := 0, shotsFired := 0, shotsHit := 0\<rparr>"

definition GameState_update :: "real \<Rightarrow> GameState \<Rightarrow> GameState" where
  "GameState_update deltaTime s =
     (if gamePhase s \<noteq> Playing then s else s\<lparr>totalGameTime := totalGameTime s + deltaTime\<rparr>)"

text \<open>\<^verbatim>\<open>source.includes(sub)\<close> on strings.\<close>

fun startsWith :: "string \<Rightarrow> string \<Rightarrow> bool" where
  "startsWith s [] = True"
| "startsWith [] (c # sub) = False"
| "startsWith (d # s) (c # sub) = (d = c \<and> startsWith s sub)"

fun String_includes :: "string \<Rightarrow> string \<Rightarrow> bool" where
  "String_includes [] sub = startsWith [] sub"
| "String_includes (d # s) sub = (startsWith (d # s) sub \<or> String_includes s sub)"

record ScoreResult =
  newScore :: real
  pointsAdded :: real
  extraLifeEarned :: bool

definition GameState_addScore :: "real \<Rightarrow> string \<Rightarrow> GameState \<Rightarrow> ScoreResult \<times> GameState" where
  "GameState_addScore points source s =
     (let s1 = s\<lparr>score := score s + points\<rparr>;
          settings = difficultySettings (difficulty s1);
          threshold = extraLifeThreshold settings;
          earned = (\<lfloor>score s1 / threshold\<rfloor> > \<lfloor>lastExtraLifeScore s1 / threshold\<rfloor>);
          s2 = (if earned then s1\<lparr>lives := lives s1 + 1, lastExtraLifeScore := score s1\<rparr> else s1);
          s3 = (if String_includes source ''asteroid'' then s2\<lparr>shotsHit := shotsHit s2 + 1\<rparr> else s2)
      in (\<lparr>newScore = score s3, pointsAdded = points, extraLifeEarned = earned\<rparr>, s3))"

definition GameState_endGame :: "real \<Rightarrow> GameState \<Rightarrow> GameState" where
  "GameState_endGame now s =
     s\<lparr>isGameOver := True, gamePhase := GameOver, totalGameTime := now - gameStartTime s\<rparr>"

text \<open>\<^verbatim>\<open>loseLife\<close> returns \<^verbatim>\<open>{livesRemaining, gameOver}\<close>; the first is \<open>lives\<close> of the new state.\<close>

definition GameState_loseLife :: "real \<Rightarrow> GameState \<Rightarrow> bool \<times> GameState" where
  "GameState_loseLife now s =
     (let s1 = s\<lparr>lives := lives s - 1\<rparr>;
          gameOver = (lives s1 \<le> 0)
      in (gameOver, if gameOver then GameState_endGame now s1 else s1))"

definition GameState_awardLevelBonus :: "GameState \<Rightarrow> GameState" where
  "GameState_awardLevelBonus s = snd (GameState_addScore levelBonus ''level-bonus'' s)"

definition GameState_advanceLevel :: "real \<Rightarrow> GameState \<Rightarrow> GameState" where
  "GameState_advanceLevel now s =
     s\<lparr>level := level s + 1, levelStartTime := now, asteroidsDestroyed := 0\<rparr>"

definition GameState_completeLevel :: "real \<Rightarrow> GameState \<Rightarrow> GameState" where
  "GameState_completeLevel now s = GameState_advanceLevel now (GameState_awardLevelBonus s)"

definition GameState_getAsteroidCountForLevel :: "GameState \<Rightarrow> int" where
  "GameState_getAsteroidCountForLevel s =
     (let settings = difficultySettings (difficulty s);
          baseCount = baseAsteroidCount settings;
          levelBns = \<lfloor>(of_int (level s) - 1) / (3 :: real)\<rfloor>
      in baseCount + levelBns)"

definition GameState_getAsteroidSpeedMultiplier :: "GameState \<Rightarrow> real" where
  "GameState_getAsteroidSpeedMultiplier s =
     (let settings = difficultySettings (difficulty s);
          baseMultiplier = asteroidSpeedMultiplier settings;
          levelMultiplier = 1 + min 0.5 ((of_int (level s) - 1) * 0.05)
      in baseMultiplier * levelMultiplier)"

definition GameState_pause :: "GameState \<Rightarrow> bool \<times> GameState" where
  "GameState_pause s =
     (if gamePhase s = Playing \<and> \<not> isPaused s then (True, s\<lparr>isPaused := True\<rparr>) else (False, s))"

definition GameState_resume :: "GameState \<Rightarrow> bool \<times> GameState" where
  "GameState_resume s =
     (if gamePhase s = Playing \<and> isPaused s then (True, s\<lparr>isPaused := False\<rparr>) else (False, s))"

definition GameState_returnToMenu :: "GameState \<Rightarrow> GameState" where
  "GameState_returnToMenu s = s\<lparr>gamePhase := Menu, isPaused := False, isGameOver := False\<rparr>"

definition GameState_recordShotFired :: "GameState \<Rightarrow> GameState" where
  "GameState_recordShotFired s = s\<lparr>shotsFired := shotsFired s + 1\<rparr>"

section \<open>Ship\<close>

text \<open>\<^verbatim>\<open>a || b\<close> on numbers: \<open>b\<close> when \<open>a\<close> is zero (or missing).\<close>

definition orElse :: "real \<Rightarrow> real \<Rightarrow> real" where
  "orElse a b = (if a \<noteq> 0 then a else b)"

record Ship =
  ship_position :: Vector2D
  ship_velocity :: Vector2D
  ship_rotation :: real
  ship_radius :: real
  ship_thrustPower :: real
  ship_rotationSpeed :: real
  ship_maxVelocity :: real
  ship_drag :: real
  ship_color :: string
  ship_size :: real
  ship_isThrusting :: bool
  ship_isInvulnerable :: bool
  ship_invulnerabilityTimer :: real
  ship_invulnerabilityDuration :: real
  ship_lastFireTime :: real
  ship_fireRate :: real
  ship_projectileSpeed :: real
  ship_screenWidth :: real
  ship_screenHeight :: real

text \<open>
  The constructor, for the options \<^verbatim>\<open>Game.startNewGame\<close> passes: a position given as a plain
  \<^verbatim>\<open>{x, y}\<close> object, the colour and the screen size.
\<close>

definition Ship_new :: "real \<Rightarrow> real \<Rightarrow> string \<Rightarrow> real \<Rightarrow> real \<Rightarrow> Ship" where
  "Ship_new px py color w h =
     \<lparr>ship_position = Vector2D_new (orElse px 400) (orElse py 300),
      ship_velocity = Vector2D_new 0 0,
      ship_rotation = 0,
      ship_radius = 12,
      ship_thrustPower = 200,
      ship_rotationSpeed = pi,
      ship_maxVelocity = 300,
      ship_drag = 0.98,
      ship_color = color,
      ship_size = 15,
      ship_isThrusting = False,
      ship_isInvulnerable = False,
      ship_invulnerabilityTimer = 0,
      ship_invulnerabilityDuration = 2000,
      ship_lastFireTime = 0,
      ship_fireRate = 250,
      ship_projectileSpeed = 400,
      ship_screenWidth = orElse w 800,
      ship_screenHeight = orElse h 600\<rparr>"

definition Ship_wrapScreenEdges :: "Ship \<Rightarrow> Ship" where
  "Ship_wrapScreenEdges s =
     (let p = ship_position s;
          p1 = (if vx p < 0 then p\<lparr>vx := ship_screenWidth s\<rparr>
                else if vx p > ship_screenWidth s then p\<lparr>vx := 0\<rparr> else p);
          p2 = (if vy p1 < 0 then p1\<lparr>vy := ship_screenHeight s\<rparr>
                else if vy p1 > ship_screenHeight s then p1\<lparr>vy := 0\<rparr> else p1)
      in s\<lparr>ship_position := p2\<rparr>)"

definition Ship_update :: "real \<Rightarrow> Ship \<Rightarrow> Ship" where
  "Ship_update deltaTime s =
     (let deltaSeconds = deltaTime / 1000;
          s1 = (if ship_isThrusting s
                then s\<lparr>ship_velocity := Vector2D_add (ship_velocity s)
                         (Vector2D_fromAngle (ship_rotation s) (ship_thrustPower s * deltaSeconds))\<rparr>
                else s);
          movement = Vector2D_multiply (ship_velocity s1) deltaSeconds;
          s2 = s1\<lparr>ship_position := Vector2D_add (ship_position s1) movement\<rparr>;
          s3 = s2\<lparr>ship_velocity := Vector2D_multiply (ship_velocity s2) (ship_drag s2)\<rparr>;
          s4 = s3\<lparr>ship_velocity := Vector2D_limit (ship_velocity s3) (ship_maxVelocity s3)\<rparr>;
          s5 = Ship_wrapScreenEdges s4
      in if ship_isInvulnerable s5
         then (let s6 = s5\<lparr>ship_invulnerabilityTimer := ship_invulnerabilityTimer s5 - deltaTime\<rparr>
               in if ship_invulnerabilityTimer s6 \<le> 0
                  then s6\<lparr>ship_isInvulnerable := False, ship_invulnerabilityTimer := 0\<rparr>
                  else s6)
         else s5)"

definition Ship_thrust :: "Ship \<Rightarrow> Ship" where
  "Ship_thrust s = s\<lparr>ship_isThrusting := True\<rparr>"

definition Ship_stopThrust :: "Ship \<Rightarrow> Ship" where
  "Ship_stopThrust s = s\<lparr>ship_isThrusting := False\<rparr>"

definition Ship_rotateLeft :: "real \<Rightarrow> Ship \<Rightarrow> Ship" where
  "Ship_rotateLeft deltaTime s =
     s\<lparr>ship_rotation := ship_rotation s - ship_rotationSpeed s * (deltaTime / 1000)\<rparr>"

definition Ship_rotateRight :: "real \<Rightarrow> Ship \<Rightarrow> Ship" where
  "Ship_rotateRight deltaTime s =
     s\<lparr>ship_rotation := ship_rotation s + ship_rotationSpeed s * (deltaTime / 1000)\<rparr>"

definition Ship_canFire :: "real \<Rightarrow> Ship \<Rightarrow> bool" where
  "Ship_canFire currentTime s = (currentTime - ship_lastFireTime s \<ge> ship_fireRate s)"

text \<open>
  The object \<^verbatim>\<open>{position, velocity, rotation}\<close> that \<^verbatim>\<open>Ship.createProjectile\<close> returns and
  \<^verbatim>\<open>EntityManager.createProjectile\<close> takes as its options; \<^verbatim>\<open>null\<close> is \<open>None\<close>.
\<close>

record ProjectileData =
  pd_position :: Vector2D
  pd_velocity :: Vector2D
  pd_rotation :: real

definition Ship_createProjectile :: "real \<Rightarrow> Ship \<Rightarrow> ProjectileData option \<times> Ship" where
  "Ship_createProjectile currentTime s =
     (if \<not> Ship_canFire currentTime s then (None, s)
      else
        (let s1 = s\<lparr>ship_lastFireTime := currentTime\<rparr>;
             offset = Vector2D_fromAngle (ship_rotation s1) (ship_radius s1 + 5);
             projectilePosition = Vector2D_add (ship_position s1) offset;
             projectileDirection = Vector2D_fromAngle (ship_rotation s1) (ship_projectileSpeed s1);
             projectileVelocity = Vector2D_add (ship_velocity s1) projectileDirection
         in (Some \<lparr>pd_position = projectilePosition, pd_velocity = projectileVelocity,
                    pd_rotation = ship_rotation s1\<rparr>, s1)))"

definition Ship_respawn :: "Ship \<Rightarrow> Ship" where
  "Ship_respawn s =
     s\<lparr>ship_position := Vector2D_new (ship_screenWidth s / 2) (ship_screenHeight s / 2),
       ship_velocity := Vector2D_zero,
       ship_rotation := - pi / 2,
       ship_isThrusting := False,
       ship_isInvulnerable := True,
       ship_invulnerabilityTimer := ship_invulnerabilityDuration s\<rparr>"

definition Ship_destroy :: "Ship \<Rightarrow> Ship" where
  "Ship_destroy s = Ship_respawn s"

text \<open>
  \<^verbatim>\<open>onCollision(other)\<close>: \<^verbatim>\<open>other.type === 'asteroid'\<close> holds exactly for a reference to an
  asteroid.
\<close>

fun isAsteroid :: "entityRef \<Rightarrow> bool" where
  "isAsteroid (AsteroidRef r) = True"
| "isAsteroid other = False"

fun isProjectile :: "entityRef \<Rightarrow> bool" where
  "isProjectile (ProjectileRef r) = True"
| "isProjectile other = False"

definition Ship_onCollision :: "entityRef \<Rightarrow> Ship \<Rightarrow> bool \<times> Ship" where
  "Ship_onCollision other s =
     (if ship_isInvulnerable s then (False, s)
      else if isAsteroid other then (True, Ship_destroy s)
      else (False, s))"

definition Ship_getBounds :: "Ship \<Rightarrow> Bounds" where
  "Ship_getBounds s =
     \<lparr>bounds_x = vx (ship_position s), bounds_y = vy (ship_position s), bounds_radius = ship_radius s\<rparr>"

section \<open>Random numbers\<close>

text \<open>
  The source of \<^verbatim>\<open>Math.random()\<close>: a stream of numbers and the position of the next one.
  \<^verbatim>\<open>Math.random()\<close> returns a number in \<open>[0, 1)\<close>; \<open>validRandom\<close> says that every element
  of the stream is one.
\<close>

record Random =
  rnd_stream :: "nat \<Rightarrow> real"
  rnd_index :: nat

definition Math_random :: "Random \<Rightarrow> real \<times> Random" where
  "Math_random g = (rnd_stream g (rnd_index g), g\<lparr>rnd_index := rnd_index g + 1\<rparr>)"

definition validRandom :: "Random \<Rightarrow> bool" where
  "validRandom g = (\<forall>n. 0 \<le> rnd_stream g n \<and> rnd_stream g n < 1)"

section \<open>Projectile\<close>

record Projectile =
  proj_position :: Vector2D
  proj_velocity :: Vector2D
  proj_speed :: real
  proj_radius :: real
  proj_size :: real
  proj_lifespan :: real
  proj_age :: real
  proj_maxDistance :: real
  proj_isActive :: bool
  proj_color :: string
  proj_screenWidth :: real
  proj_screenHeight :: real
  proj_startPosition :: Vector2D
  proj_id :: "nat option"

text \<open>
  The constructor, for the options \<^verbatim>\<open>{screenWidth, screenHeight, ...options}\<close> that
  \<^verbatim>\<open>EntityManager.createProjectile\<close> builds from the data of \<^verbatim>\<open>Ship.createProjectile\<close>.
  The \<^verbatim>\<open>id\<close> is assigned by the entity manager afterwards.
\<close>

definition Projectile_new :: "real \<Rightarrow> real \<Rightarrow> ProjectileData \<Rightarrow> Projectile" where
  "Projectile_new w h options =
     \<lparr>proj_position = pd_position options,
      proj_velocity = pd_velocity options,
      proj_speed = 400,
      proj_radius = 3,
      proj_size = 2,
      proj_lifespan = 2000,
      proj_age = 0,
      proj_maxDistance = 1000,
      proj_isActive = True,
      proj_color = ''#FFFFFF'',
      proj_screenWidth = orElse w 800,
      proj_screenHeight = orElse h 600,
      proj_startPosition = pd_position options,
      proj_id = None\<rparr>"

definition Projectile_deactivate :: "Projectile \<Rightarrow> Projectile" where
  "Projectile_deactivate p = p\<lparr>proj_isActive := False\<rparr>"

definition Projectile_destroy :: "Projectile \<Rightarrow> Projectile" where
  "Projectile_destroy p = Projectile_deactivate p"

definition Projectile_update :: "real \<Rightarrow> Projectile \<Rightarrow> Projectile" where
  "Projectile_update deltaTime p =
     (if \<not> proj_isActive p then p
      else
        (let deltaSeconds = deltaTime / 1000;
             movement = Vector2D_multiply (proj_velocity p) deltaSeconds;
             p1 = p\<lparr>proj_position := Vector2D_add (proj_position p) movement\<rparr>;
             p2 = p1\<lparr>proj_age := proj_age p1 + deltaTime\<rparr>
         in if proj_age p2 \<ge> proj_lifespan p2 then Projectile_deactivate p2
            else
              (let distanceTraveled = Vector2D_distanceTo (proj_position p2) (proj_startPosition p2)
               in if distanceTraveled \<ge> proj_maxDistance p2 then Projectile_deactivate p2
                  else
                    (let buffer = 50
                     in if vx (proj_position p2) < - buffer
                           \<or> vx (proj_position p2) > proj_screenWidth p2 + buffer
                           \<or> vy (proj_position p2) < - buffer
                           \<or> vy (proj_position p2) > proj_screenHeight p2 + buffer
                        then Projectile_deactivate p2
                        else p2))))"

definition Projectile_onCollision :: "entityRef \<Rightarrow> Projectile \<Rightarrow> bool \<times> Projectile" where
  "Projectile_onCollision other p =
     (if \<not> proj_isActive p then (False, p)
      else if isAsteroid other then (True, Projectile_destroy p)
      else (False, p))"

definition Projectile_getBounds :: "Projectile \<Rightarrow> Bounds" where
  "Projectile_getBounds p =
     \<lparr>bounds_x = vx (proj_position p), bounds_y = vy (proj_position p), bounds_radius = proj_radius p\<rparr>"

section \<open>Asteroid\<close>

datatype AsteroidSize = Large | Medium_size | Small

text \<open>
  A colour is a CSS string; \<^verbatim>\<open>generateColor\<close> builds the string
  \<^verbatim>\<open>hsl(hue, saturation%, lightness%)\<close>, kept here as its three numbers.
\<close>

datatype Color = Css string | Hsl int real real

record Asteroid =
  ast_position :: Vector2D
  ast_velocity :: Vector2D
  ast_angularVelocity :: real
  ast_rotation :: real
  ast_size :: AsteroidSize
  ast_radius :: real
  ast_pointValue :: real
  ast_splitCount :: int
  ast_vertices :: "Vector2D list"
  ast_color :: Color
  ast_isActive :: bool
  ast_screenWidth :: real
  ast_screenHeight :: real
  ast_id :: "nat option"

text \<open>
  The options of the constructor that \<^verbatim>\<open>split\<close> and \<^verbatim>\<open>createRandom\<close> pass. Neither passes
  \<^verbatim>\<open>rotation\<close>, \<^verbatim>\<open>vertices\<close> or \<^verbatim>\<open>color\<close>; \<^verbatim>\<open>angularVelocity\<close> is passed by \<^verbatim>\<open>split\<close> only.
\<close>

record AsteroidOptions =
  ao_position :: Vector2D
  ao_velocity :: Vector2D
  ao_angularVelocity :: "real option"
  ao_size :: AsteroidSize
  ao_screenWidth :: real
  ao_screenHeight :: real

text \<open>\<^verbatim>\<open>setupSizeProperties\<close>: the radius, the point value and the split count of a size.\<close>

definition Asteroid_setupSizeProperties :: "AsteroidSize \<Rightarrow> Random \<Rightarrow> (real \<times> real \<times> int) \<times> Random" where
  "Asteroid_setupSizeProperties sz g =
     (case sz of
        Large \<Rightarrow>
          (let (r1, g1) = Math_random g; (r2, g2) = Math_random g1
           in ((40 + r1 * 10, 20, 2 + \<lfloor>r2 * 2\<rfloor>), g2))
      | Medium_size \<Rightarrow>
          (let (r1, g1) = Math_random g; (r2, g2) = Math_random g1
           in ((25 + r1 * 8, 50, 2 + \<lfloor>r2 * 2\<rfloor>), g2))
      | Small \<Rightarrow>
          (let (r1, g1) = Math_random g
           in ((12 + r1 * 5, 100, 0), g1)))"

definition Asteroid_generateShape :: "real \<Rightarrow> Random \<Rightarrow> Vector2D list \<times> Random" where
  "Asteroid_generateShape radius g =
     (let (r0, g0) = Math_random g;
          vertexCount = 8 + \<lfloor>r0 * 5\<rfloor>
      in foldl (\<lambda>(vertices, gi) i.
                 (let angle = (real i / of_int vertexCount) * pi * 2;
                      (r, gj) = Math_random gi;
                      radiusVariation = 0.6 + r * 0.8;
                      vertexRadius = radius * radiusVariation
                  in (vertices @ [Vector2D_new (cos angle * vertexRadius) (sin angle * vertexRadius)], gj)))
           ([], g0) [0 ..< nat vertexCount])"

definition Asteroid_generateColor :: "Random \<Rightarrow> Color \<times> Random" where
  "Asteroid_generateColor g =
     (let (r1, g1) = Math_random g; (r2, g2) = Math_random g1; (r3, g3) = Math_random g2
      in (Hsl \<lfloor>r1 * 360\<rfloor> (60 + r2 * 20) (50 + r3 * 20), g3))"

definition Asteroid_new :: "AsteroidOptions \<Rightarrow> Random \<Rightarrow> Asteroid \<times> Random" where
  "Asteroid_new options g =
     (let (angularVelocity, g1) =
            (case ao_angularVelocity options of
               Some v \<Rightarrow> if v \<noteq> 0 then (v, g)
                         else (let (r, g') = Math_random g in ((r - 0.5) * 2, g'))
             | None \<Rightarrow> (let (r, g') = Math_random g in ((r - 0.5) * 2, g')));
          ((radius, pointValue, splitCount), g2) = Asteroid_setupSizeProperties (ao_size options) g1;
          (vertices, g3) = Asteroid_generateShape radius g2;
          (color, g4) = Asteroid_generateColor g3
      in (\<lparr>ast_position = ao_position options,
           ast_velocity = ao_velocity options,
           ast_angularVelocity = angularVelocity,
           ast_rotation = 0,
           ast_size = ao_size options,
           ast_radius = radius,
           ast_pointValue = pointValue,
           ast_splitCount = splitCount,
           ast_vertices = vertices,
           ast_color = color,
           ast_isActive = True,
           ast_screenWidth = orElse (ao_screenWidth options) 800,
           ast_screenHeight = orElse (ao_screenHeight options) 600,
           ast_id = None\<rparr>, g4))"

definition Asteroid_wrapScreenEdges :: "Asteroid \<Rightarrow> Asteroid" where
  "Asteroid_wrapScreenEdges a =
     (let buffer = ast_radius a;
          p = ast_position a;
          p1 = (if vx p < - buffer then p\<lparr>vx := ast_screenWidth a + buffer\<rparr>
                else if vx p > ast_screenWidth a + buffer then p\<lparr>vx := - buffer\<rparr> else p);
          p2 = (if vy p1 < - buffer then p1\<lparr>vy := ast_screenHeight a + buffer\<rparr>
                else if vy p1 > ast_screenHeight a + buffer then p1\<lparr>vy := - buffer\<rparr> else p1)
      in a\<lparr>ast_position := p2\<rparr>)"

definition Asteroid_update :: "real \<Rightarrow> Asteroid \<Rightarrow> Asteroid" where
  "Asteroid_update deltaTime a =
     (if \<not> ast_isActive a then a
      else
        (let deltaSeconds = deltaTime / 1000;
             movement = Vector2D_multiply (ast_velocity a) deltaSeconds;
             a1 = a\<lparr>ast_position := Vector2D_add (ast_position a) movement\<rparr>;
             a2 = a1\<lparr>ast_rotation := ast_rotation a1 + ast_angularVelocity a1 * deltaSeconds\<rparr>
         in Asteroid_wrapScreenEdges a2))"

text \<open>
  One round of the loop of \<^verbatim>\<open>split\<close>: fragment \<open>i\<close> of the parent \<open>a\<close>. The draws are, in
  this order, the angle, the speed and the angular velocity, followed by the draws of the
  constructor.
\<close>

definition Asteroid_fragment :: "Asteroid \<Rightarrow> AsteroidSize \<Rightarrow> nat \<Rightarrow> Random \<Rightarrow> Asteroid \<times> Random" where
  "Asteroid_fragment a nextSize i g =
     (let (r1, g1) = Math_random g;
          angle = (real i / of_int (ast_splitCount a)) * pi * 2 + r1 * 0.5;
          (r2, g2) = Math_random g1;
          speed = 50 + r2 * 100;
          fragmentVelocity = Vector2D_add (Vector2D_fromAngle angle speed)
                               (Vector2D_multiply (ast_velocity a) 0.3);
          offsetDistance = ast_radius a * 0.3;
          offset = Vector2D_fromAngle angle offsetDistance;
          fragmentPosition = Vector2D_add (ast_position a) offset;
          (r3, g3) = Math_random g2
      in Asteroid_new
           \<lparr>ao_position = fragmentPosition, ao_velocity = fragmentVelocity,
            ao_angularVelocity = Some ((r3 - 0.5) * 4), ao_size = nextSize,
            ao_screenWidth = ast_screenWidth a, ao_screenHeight = ast_screenHeight a\<rparr> g3)"

text \<open>\<^verbatim>\<open>split\<close> returns the fragments; the parent and the random source are returned with them.\<close>

definition Asteroid_split :: "Asteroid \<Rightarrow> Random \<Rightarrow> Asteroid list \<times> Asteroid \<times> Random" where
  "Asteroid_split a g =
     (if ast_splitCount a = 0 then ([], a, g)
      else
        (let nextSize = (if ast_size a = Large then Medium_size else Small);
             (fragments, g') =
               foldl (\<lambda>(fragments, gi) i.
                        (let (fragment, gj) = Asteroid_fragment a nextSize i gi
                         in (fragments @ [fragment], gj)))
                 ([], g) [0 ..< nat (ast_splitCount a)]
         in (fragments, a\<lparr>ast_isActive := False\<rparr>, g')))"

definition Asteroid_destroy :: "Asteroid \<Rightarrow> Asteroid" where
  "Asteroid_destroy a = a\<lparr>ast_isActive := False\<rparr>"

definition Asteroid_onCollision :: "entityRef \<Rightarrow> Asteroid \<Rightarrow> bool \<times> Asteroid" where
  "Asteroid_onCollision other a =
     (if \<not> ast_isActive a then (False, a)
      else if isProjectile other then (True, Asteroid_destroy a)
      else (True, a))"

definition Asteroid_getBounds :: "Asteroid \<Rightarrow> Bounds" where
  "Asteroid_getBounds a =
     \<lparr>bounds_x = vx (ast_position a), bounds_y = vy (ast_position a), bounds_radius = ast_radius a\<rparr>"

text \<open>
  \<^verbatim>\<open>createRandom\<close>: the do-while loop draws a position and counts the attempt, and repeats
  while the position is closer to the player than \<open>safeDistance\<close> and fewer than
  \<^verbatim>\<open>maxAttempts = 50\<close> attempts were made. \<open>spawnPosition\<close> returns the last position drawn.
\<close>

function spawnPosition ::
  "Vector2D \<Rightarrow> real \<Rightarrow> real \<Rightarrow> real \<Rightarrow> nat \<Rightarrow> Random \<Rightarrow> Vector2D \<times> Random" where
  "spawnPosition playerPosition w h safeDistance attempts g =
     (let position = Vector2D_new (fst (Math_random g) * w)
                                  (fst (Math_random (snd (Math_random g))) * h);
          g2 = snd (Math_random (snd (Math_random g)));
          attempts1 = attempts + 1
      in if Vector2D_distanceTo position playerPosition < safeDistance \<and> attempts1 < 50
         then spawnPosition playerPosition w h safeDistance attempts1 g2
         else (position, g2))"
  by pat_completeness auto
termination
  by (relation "measure (\<lambda>(playerPosition, w, h, safeDistance, attempts, g). 50 - attempts)") auto

definition Asteroid_createRandom ::
  "Vector2D \<Rightarrow> AsteroidSize \<Rightarrow> real \<Rightarrow> real \<Rightarrow> real \<Rightarrow> Random \<Rightarrow> Asteroid \<times> Random" where
  "Asteroid_createRandom playerPosition sz w h safeDistance g =
     (let (position, g1) = spawnPosition playerPosition w h safeDistance 0 g;
          (r1, g2) = Math_random g1;
          angle = r1 * pi * 2;
          (r2, g3) = Math_random g2;
          speed = 20 + r2 * 40;
          velocity = Vector2D_fromAngle angle speed
      in Asteroid_new
           \<lparr>ao_position = position, ao_velocity = velocity, ao_angularVelocity = None,
            ao_size = sz, ao_screenWidth = w, ao_screenHeight = h\<rparr> g3)"

fun sizeDistribution :: "Difficulty \<Rightarrow> AsteroidSize list" where
  "sizeDistribution Easy = [Large, Large, Large, Medium_size]"
| "sizeDistribution Medium = [Large, Large, Medium_size, Medium_size, Small]"
| "sizeDistribution Hard = [Large, Medium_size, Medium_size, Small, Small, Small]"

definition Asteroid_createField ::
  "int \<Rightarrow> Vector2D \<Rightarrow> Difficulty \<Rightarrow> real \<Rightarrow> real \<Rightarrow> Random \<Rightarrow> Asteroid list \<times> Random" where
  "Asteroid_createField count playerPosition d w h g =
     (let sizes = sizeDistribution d
      in foldl (\<lambda>(asteroids, gi) i.
                 (let sz = sizes ! (i mod length sizes);
                      (asteroid, gj) = Asteroid_createRandom playerPosition sz w h 120 gi
                  in (asteroids @ [asteroid], gj)))
           ([], g) [0 ..< nat count])"

section \<open>Particle\<close>

record Particle =
  part_position :: Vector2D
  part_velocity :: Vector2D
  part_color :: Color
  part_size :: real
  part_initialSize :: real
  part_alpha :: real
  part_initialAlpha :: real
  part_lifespan :: real
  part_age :: real
  part_drag :: real
  part_gravity :: Vector2D
  part_isActive :: bool
  part_fadeOut :: bool
  part_shrink :: bool
  part_id :: "nat option"

text \<open>
  The constructor, for the options the three effect generators pass: position, velocity,
  colour, size, lifespan, drag and, for debris, \<^verbatim>\<open>shrink: false\<close>.
\<close>

definition Particle_new ::
  "Vector2D \<Rightarrow> Vector2D \<Rightarrow> Color \<Rightarrow> real \<Rightarrow> real \<Rightarrow> real \<Rightarrow> bool \<Rightarrow> Particle" where
  "Particle_new position velocity color sz lifespan drag shrink =
     \<lparr>part_position = position,
      part_velocity = velocity,
      part_color = color,
      part_size = orElse sz 3,
      part_initialSize = orElse sz 3,
      part_alpha = 1,
      part_initialAlpha = 1,
      part_lifespan = orElse lifespan 1000,
      part_age = 0,
      part_drag = orElse drag 0.95,
      part_gravity = Vector2D_new 0 0,
      part_isActive = True,
      part_fadeOut = True,
      part_shrink = shrink,
      part_id = None\<rparr>"

definition Particle_deactivate :: "Particle \<Rightarrow> Particle" where
  "Particle_deactivate p = p\<lparr>part_isActive := False\<rparr>"

definition Particle_update :: "real \<Rightarrow> Particle \<Rightarrow> Particle" where
  "Particle_update deltaTime p =
     (if \<not> part_isActive p then p
      else
        (let deltaSeconds = deltaTime / 1000;
             p1 = p\<lparr>part_age := part_age p + deltaTime\<rparr>
         in if part_age p1 \<ge> part_lifespan p1 then Particle_deactivate p1
            else
              (let lifeProgress = part_age p1 / part_lifespan p1;
                   movement = Vector2D_multiply (part_velocity p1) deltaSeconds;
                   p2 = p1\<lparr>part_position := Vector2D_add (part_position p1) movement\<rparr>;
                   p3 = (if Vector2D_magnitude (part_gravity p2) > 0
                         then p2\<lparr>part_velocity := Vector2D_add (part_velocity p2)
                                  (Vector2D_multiply (part_gravity p2) deltaSeconds)\<rparr>
                         else p2);
                   p4 = p3\<lparr>part_velocity := Vector2D_multiply (part_velocity p3) (part_drag p3)\<rparr>;
                   p5 = (if part_fadeOut p4
                         then p4\<lparr>part_alpha := part_initialAlpha p4 * (1 - lifeProgress)\<rparr> else p4);
                   p6 = (if part_shrink p5
                         then p5\<lparr>part_size := part_initialSize p5 * (1 - lifeProgress * 0.5)\<rparr> else p5)
               in p6)))"

text \<open>
  \<^verbatim>\<open>createExplosion(position, color, count, {speed})\<close>, one particle: the draws are the angle,
  the speed, the offset, the size, the lifespan and the drag.
\<close>

definition explosionParticle :: "Vector2D \<Rightarrow> Color \<Rightarrow> real \<Rightarrow> real \<Rightarrow> nat \<Rightarrow> Random \<Rightarrow> Particle \<times> Random" where
  "explosionParticle position color count speed i g =
     (let baseSpeed = orElse speed 100;
          speedVariation = 50;
          lifespan = 1000;
          sz = 3;
          (r1, g1) = Math_random g;
          angle = (real i / count) * pi * 2 + (r1 - 0.5) * 0.5;
          (r2, g2) = Math_random g1;
          spd = baseSpeed + (r2 - 0.5) * speedVariation;
          velocity = Vector2D_fromAngle angle spd;
          (r3, g3) = Math_random g2;
          offset = Vector2D_fromAngle angle (r3 * 5);
          particlePosition = Vector2D_add position offset;
          (r4, g4) = Math_random g3;
          (r5, g5) = Math_random g4;
          (r6, g6) = Math_random g5
      in (Particle_new particlePosition velocity color (sz + r4 * 2)
            (lifespan + (r5 - 0.5) * 500) (0.92 + r6 * 0.05) True, g6))"

text \<open>
  The loops \<^verbatim>\<open>for (let i = 0; i < count; i++)\<close> of the generators run over the naturals
  below \<open>count\<close>, that is \<open>[0 ..< nat \<lceil>count\<rceil>]\<close>.
\<close>

definition Particle_createExplosion :: "Vector2D \<Rightarrow> Color \<Rightarrow> real \<Rightarrow> real \<Rightarrow> Random \<Rightarrow> Particle list \<times> Random" where
  "Particle_createExplosion position color count speed g =
     foldl (\<lambda>(particles, gi) i.
              (let (particle, gj) = explosionParticle position color count speed i gi
               in (particles @ [particle], gj)))
       ([], g) [0 ..< nat \<lceil>count\<rceil>]"

definition debrisParticle :: "Vector2D \<Rightarrow> Vector2D \<Rightarrow> Color \<Rightarrow> Random \<Rightarrow> Particle \<times> Random" where
  "debrisParticle position velocity color g =
     (let (r1, g1) = Math_random g;
          angle = r1 * pi * 2;
          (r2, g2) = Math_random g1;
          speed = 30 + r2 * 70;
          debrisVelocity = Vector2D_add (Vector2D_fromAngle angle speed) (Vector2D_multiply velocity 0.3);
          (r3, g3) = Math_random g2;
          (r4, g4) = Math_random g3
      in (Particle_new position debrisVelocity color (2 + r3 * 3) (800 + r4 * 600) 0.90 False, g4))"

definition Particle_createDebris :: "Vector2D \<Rightarrow> Vector2D \<Rightarrow> Color \<Rightarrow> real \<Rightarrow> Random \<Rightarrow> Particle list \<times> Random" where
  "Particle_createDebris position velocity color count g =
     foldl (\<lambda>(particles, gi) i.
              (let (particle, gj) = debrisParticle position velocity color gi
               in (particles @ [particle], gj)))
       ([], g) [0 ..< nat \<lceil>count\<rceil>]"

definition sparkParticle :: "Vector2D \<Rightarrow> real \<Rightarrow> Color \<Rightarrow> Random \<Rightarrow> Particle \<times> Random" where
  "sparkParticle position baseAngle color g =
     (let spreadAngle = pi / 3;
          (r1, g1) = Math_random g;
          angleOffset = (r1 - 0.5) * spreadAngle;
          sparkAngle = baseAngle + pi + angleOffset;
          (r2, g2) = Math_random g1;
          speed = 80 + r2 * 40;
          velocity = Vector2D_fromAngle sparkAngle speed;
          (r3, g3) = Math_random g2;
          (r4, g4) = Math_random g3
      in (Particle_new position velocity color (1 + r3 * 2) (400 + r4 * 300) 0.85 True, g4))"

definition Particle_createSparks :: "Vector2D \<Rightarrow> Vector2D \<Rightarrow> Color \<Rightarrow> real \<Rightarrow> Random \<Rightarrow> Particle list \<times> Random" where
  "Particle_createSparks position direction color count g =
     (let baseAngle = Vector2D_angle direction
      in foldl (\<lambda>(particles, gi) i.
                  (let (particle, gj) = sparkParticle position baseAngle color gi
                   in (particles @ [particle], gj)))
           ([], g) [0 ..< nat \<lceil>count\<rceil>])"

section \<open>EntityManager\<close>

text \<open>
  The arrays of the manager hold references to objects, and the same object is reachable
  from an array, from the pool, from a collision record and from the caller. The objects
  therefore live in a store, one map per class from a reference to the object's current
  fields; an array is a list of references. \<open>nextRef\<close> is the first reference not yet in use:
  \<^verbatim>\<open>new\<close> takes it. The store and the random source are part of the record.
\<close>

record EntityManager =
  em_screenWidth :: real
  em_screenHeight :: real
  asteroids :: "nat list"
  projectiles :: "nat list"
  particles :: "nat list"
  projectilePool :: "nat list"
  particlePool :: "nat list"
  maxPoolSize :: nat
  nextEntityId :: nat
  entitiesCreated :: nat
  entitiesDestroyed :: nat
  poolHits :: nat
  poolMisses :: nat
  asteroidObj :: "nat \<Rightarrow> Asteroid"
  projectileObj :: "nat \<Rightarrow> Projectile"
  particleObj :: "nat \<Rightarrow> Particle"
  nextRef :: nat
  random :: Random

text \<open>
  The constructor. The store of a new manager holds no object that any array refers to;
  \<open>store\<close> gives the contents of the unused references.
\<close>

definition EntityManager_new ::
  "real \<Rightarrow> real \<Rightarrow> (nat \<Rightarrow> Asteroid) \<Rightarrow> (nat \<Rightarrow> Projectile) \<Rightarrow> (nat \<Rightarrow> Particle) \<Rightarrow> Random
     \<Rightarrow> EntityManager" where
  "EntityManager_new w h aStore pStore ptStore g =
     \<lparr>em_screenWidth = w, em_screenHeight = h,
      asteroids = [], projectiles = [], particles = [],
      projectilePool = [], particlePool = [], maxPoolSize = 50,
      nextEntityId = 1,
      entitiesCreated = 0, entitiesDestroyed = 0, poolHits = 0, poolMisses = 0,
      asteroidObj = aStore, projectileObj = pStore, particleObj = ptStore,
      nextRef = 0, random = g\<rparr>"

text \<open>
  The filter callbacks of \<^verbatim>\<open>cleanupInactiveEntities\<close> for projectiles and particles: an
  inactive entry is dropped from the array and pushed onto the pool while the pool is below
  \<open>maxPoolSize\<close>. The state of the walk is the pair of the entries kept and the pool.
\<close>

definition reclaim :: "(nat \<Rightarrow> bool) \<Rightarrow> nat \<Rightarrow> nat list \<times> nat list \<Rightarrow> nat \<Rightarrow> nat list \<times> nat list" where
  "reclaim active mx st r =
     (if \<not> active r
      then (fst st, if length (snd st) < mx then snd st @ [r] else snd st)
      else (fst st @ [r], snd st))"

definition EntityManager_cleanupInactiveEntities :: "EntityManager \<Rightarrow> EntityManager" where
  "EntityManager_cleanupInactiveEntities em =
     (let em1 = em\<lparr>asteroids := filter (\<lambda>r. ast_isActive (asteroidObj em r)) (asteroids em)\<rparr>;
          (keptProjectiles, pool) =
             foldl (reclaim (\<lambda>r. proj_isActive (projectileObj em1 r)) (maxPoolSize em1))
               ([], projectilePool em1) (projectiles em1);
          em2 = em1\<lparr>projectiles := keptProjectiles, projectilePool := pool\<rparr>;
          (keptParticles, ppool) =
             foldl (reclaim (\<lambda>r. part_isActive (particleObj em2 r)) (maxPoolSize em2))
               ([], particlePool em2) (particles em2)
      in em2\<lparr>particles := keptParticles, particlePool := ppool\<rparr>)"

definition EntityManager_update :: "real \<Rightarrow> EntityManager \<Rightarrow> EntityManager" where
  "EntityManager_update deltaTime em =
     (let em1 = em\<lparr>asteroidObj :=
                  foldl (\<lambda>obj r. if ast_isActive (obj r)
                                  then obj(r := Asteroid_update deltaTime (obj r)) else obj)
                    (asteroidObj em) (asteroids em)\<rparr>;
          em2 = em1\<lparr>projectileObj :=
                  foldl (\<lambda>obj r. if proj_isActive (obj r)
                                  then obj(r := Projectile_update deltaTime (obj r)) else obj)
                    (projectileObj em1) (projectiles em1)\<rparr>;
          em3 = em2\<lparr>particleObj :=
                  foldl (\<lambda>obj r. if part_isActive (obj r)
                                  then obj(r := Particle_update deltaTime (obj r)) else obj)
                    (particleObj em2) (particles em2)\<rparr>
      in EntityManager_cleanupInactiveEntities em3)"

text \<open>Registering a new asteroid: the loop body shared by \<^verbatim>\<open>createAsteroidField\<close> and \<^verbatim>\<open>destroyAsteroid\<close>.\<close>

definition registerAsteroid :: "EntityManager \<Rightarrow> Asteroid \<Rightarrow> EntityManager" where
  "registerAsteroid em a =
     em\<lparr>asteroidObj := (asteroidObj em)(nextRef em := a\<lparr>ast_id := Some (nextEntityId em)\<rparr>),
        nextRef := nextRef em + 1,
        nextEntityId := nextEntityId em + 1,
        asteroids := asteroids em @ [nextRef em],
        entitiesCreated := entitiesCreated em + 1\<rparr>"

definition EntityManager_createAsteroidField ::
  "int \<Rightarrow> Vector2D \<Rightarrow> Difficulty \<Rightarrow> EntityManager \<Rightarrow> EntityManager" where
  "EntityManager_createAsteroidField count playerPosition d em =
     (let (field, g) = Asteroid_createField count playerPosition d
                         (em_screenWidth em) (em_screenHeight em) (random em)
      in foldl registerAsteroid (em\<lparr>random := g\<rparr>) field)"

text \<open>\<^verbatim>\<open>createProjectile\<close> returns the projectile; here the reference to it and the manager.\<close>

definition EntityManager_createProjectile :: "ProjectileData \<Rightarrow> EntityManager \<Rightarrow> nat \<times> EntityManager" where
  "EntityManager_createProjectile options em =
     (if length (projectilePool em) > 0
      then
        (let r = last (projectilePool em);
             em1 = em\<lparr>projectilePool := butlast (projectilePool em)\<rparr>;
             p = projectileObj em1 r;
             p1 = p\<lparr>proj_position := Vector2D_new (vx (pd_position options)) (vy (pd_position options))\<rparr>;
             p2 = p1\<lparr>proj_velocity := Vector2D_new (vx (pd_velocity options)) (vy (pd_velocity options))\<rparr>;
             p3 = p2\<lparr>proj_age := 0\<rparr>;
             p4 = p3\<lparr>proj_isActive := True\<rparr>;
             em2 = em1\<lparr>projectileObj := (projectileObj em1)(r := p4), poolHits := poolHits em1 + 1\<rparr>
         in (r, em2\<lparr>projectiles := projectiles em2 @ [r]\<rparr>))
      else
        (let r = nextRef em;
             p = Projectile_new (em_screenWidth em) (em_screenHeight em) options;
             p1 = p\<lparr>proj_id := Some (nextEntityId em)\<rparr>;
             em1 = em\<lparr>projectileObj := (projectileObj em)(r := p1),
                     nextRef := nextRef em + 1,
                     nextEntityId := nextEntityId em + 1,
                     entitiesCreated := entitiesCreated em + 1,
                     poolMisses := poolMisses em + 1\<rparr>
         in (r, em1\<lparr>projectiles := projectiles em1 @ [r]\<rparr>)))"

text \<open>Registering a new particle: the loop body shared by the three particle generators.\<close>

definition registerParticle :: "EntityManager \<Rightarrow> Particle \<Rightarrow> EntityManager" where
  "registerParticle em p =
     em\<lparr>particleObj := (particleObj em)(nextRef em := p\<lparr>part_id := Some (nextEntityId em)\<rparr>),
        nextRef := nextRef em + 1,
        nextEntityId := nextEntityId em + 1,
        particles := particles em @ [nextRef em],
        entitiesCreated := entitiesCreated em + 1\<rparr>"

text \<open>
  The requests to \<^verbatim>\<open>createParticleEffect(type, options)\<close>: the three known types with the
  options their generators read (the callers pass colour and count for explosions and
  debris, and the count for sparks), and any other type string.
\<close>

datatype ParticleEffect =
    Explosion Vector2D Color real
  | Debris Vector2D Vector2D Color real
  | Sparks Vector2D Vector2D real
  | UnknownEffect string

definition EntityManager_createExplosionParticles ::
  "Vector2D \<Rightarrow> Color \<Rightarrow> real \<Rightarrow> EntityManager \<Rightarrow> EntityManager" where
  "EntityManager_createExplosionParticles position color count em =
     (let (ps, g) = Particle_createExplosion position color count 100 (random em)
      in foldl registerParticle (em\<lparr>random := g\<rparr>) ps)"

definition EntityManager_createDebrisParticles ::
  "Vector2D \<Rightarrow> Vector2D \<Rightarrow> Color \<Rightarrow> real \<Rightarrow> EntityManager \<Rightarrow> EntityManager" where
  "EntityManager_createDebrisParticles position velocity color count em =
     (let (ps, g) = Particle_createDebris position velocity color count (random em)
      in foldl registerParticle (em\<lparr>random := g\<rparr>) ps)"

definition EntityManager_createSparkParticles ::
  "Vector2D \<Rightarrow> Vector2D \<Rightarrow> real \<Rightarrow> EntityManager \<Rightarrow> EntityManager" where
  "EntityManager_createSparkParticles position direction count em =
     (let (ps, g) = Particle_createSparks position direction (Css ''#FFFF00'') count (random em)
      in foldl registerParticle (em\<lparr>random := g\<rparr>) ps)"

fun EntityManager_createParticleEffect :: "ParticleEffect \<Rightarrow> EntityManager \<Rightarrow> EntityManager" where
  "EntityManager_createParticleEffect (Explosion position color count) em =
     EntityManager_createExplosionParticles position color count em"
| "EntityManager_createParticleEffect (Debris position velocity color count) em =
     EntityManager_createDebrisParticles position velocity color count em"
| "EntityManager_createParticleEffect (Sparks position direction count) em =
     EntityManager_createSparkParticles position direction count em"
| "EntityManager_createParticleEffect (UnknownEffect t) em = em"

text \<open>\<^verbatim>\<open>destroyAsteroid\<close> returns the fragments; here the references to them and the manager.\<close>

definition EntityManager_destroyAsteroid :: "nat \<Rightarrow> EntityManager \<Rightarrow> nat list \<times> EntityManager" where
  "EntityManager_destroyAsteroid r em =
     (let asteroid = asteroidObj em r;
          em1 = EntityManager_createParticleEffect
                  (Explosion (ast_position asteroid) (ast_color asteroid)
                     (6 + of_int \<lfloor>ast_radius asteroid / 10\<rfloor>)) em;
          (fragments, parent, g) = Asteroid_split (asteroidObj em1 r) (random em1);
          em2 = em1\<lparr>asteroidObj := (asteroidObj em1)(r := parent), random := g\<rparr>;
          em3 = foldl registerAsteroid em2 fragments;
          fragmentRefs = [nextRef em2 ..< nextRef em2 + length fragments];
          em4 = em3\<lparr>asteroidObj := (asteroidObj em3)(r := (asteroidObj em3 r)\<lparr>ast_isActive := False\<rparr>),
                   entitiesDestroyed := entitiesDestroyed em3 + 1\<rparr>
      in (fragmentRefs, em4))"

definition EntityManager_destroyProjectile :: "nat \<Rightarrow> EntityManager \<Rightarrow> EntityManager" where
  "EntityManager_destroyProjectile r em =
     (if \<not> proj_isActive (projectileObj em r) then em
      else
        (let projectile = projectileObj em r;
             em1 = EntityManager_createParticleEffect
                     (Sparks (proj_position projectile)
                        (Vector2D_normalize (proj_velocity projectile)) 3) em
         in em1\<lparr>projectileObj := (projectileObj em1)(r := (projectileObj em1 r)\<lparr>proj_isActive := False\<rparr>),
                entitiesDestroyed := entitiesDestroyed em1 + 1\<rparr>))"

definition EntityManager_getAllActiveEntities :: "EntityManager \<Rightarrow> entityRef list" where
  "EntityManager_getAllActiveEntities em =
     map AsteroidRef (filter (\<lambda>r. ast_isActive (asteroidObj em r)) (asteroids em))
     @ map ProjectileRef (filter (\<lambda>r. proj_isActive (projectileObj em r)) (projectiles em))"

record EntityCounts =
  count_asteroids :: nat
  count_projectiles :: nat
  count_particles :: nat
  count_total :: nat
  pooled_projectiles :: nat
  pooled_particles :: nat

definition EntityManager_getEntityCounts :: "EntityManager \<Rightarrow> EntityCounts" where
  "EntityManager_getEntityCounts em =
     \<lparr>count_asteroids = length (filter (\<lambda>r. ast_isActive (asteroidObj em r)) (asteroids em)),
      count_projectiles = length (filter (\<lambda>r. proj_isActive (projectileObj em r)) (projectiles em)),
      count_particles = length (filter (\<lambda>r. part_isActive (particleObj em r)) (particles em)),
      count_total = length (EntityManager_getAllActiveEntities em),
      pooled_projectiles = length (projectilePool em),
      pooled_particles = length (particlePool em)\<rparr>"

definition EntityManager_clearAllEntities :: "EntityManager \<Rightarrow> EntityManager" where
  "EntityManager_clearAllEntities em =
     em\<lparr>asteroidObj := foldl (\<lambda>obj r. obj(r := (obj r)\<lparr>ast_isActive := False\<rparr>))
                         (asteroidObj em) (asteroids em),
        projectileObj := foldl (\<lambda>obj r. obj(r := (obj r)\<lparr>proj_isActive := False\<rparr>))
                           (projectileObj em) (projectiles em),
        particleObj := foldl (\<lambda>obj r. obj(r := (obj r)\<lparr>part_isActive := False\<rparr>))
                         (particleObj em) (particles em),
        asteroids := [], projectiles := [], particles := [],
        projectilePool := [], particlePool := []\<rparr>"

text \<open>\<^verbatim>\<open>recordAsteroidDestroyed(asteroidSize)\<close>; the source string is \<^verbatim>\<open>`asteroid-${asteroidSize}`\<close>.\<close>

fun sizeName :: "AsteroidSize \<Rightarrow> string" where
  "sizeName Large = ''large''"
| "sizeName Medium_size = ''medium''"
| "sizeName Small = ''small''"

definition GameState_recordAsteroidDestroyed :: "AsteroidSize \<Rightarrow> GameState \<Rightarrow> ScoreResult \<times> GameState" where
  "GameState_recordAsteroidDestroyed asteroidSize s =
     (let s1 = s\<lparr>asteroidsDestroyed := asteroidsDestroyed s + 1\<rparr>;
          points = (case asteroidSize of
                      Large \<Rightarrow> asteroidLarge
                    | Medium_size \<Rightarrow> asteroidMedium
                    | Small \<Rightarrow> asteroidSmall)
      in if points > 0 then GameState_addScore points (''asteroid-'' @ sizeName asteroidSize) s1
         else (\<lparr>newScore = score s1, pointsAdded = 0, extraLifeEarned = False\<rparr>, s1))"

section \<open>Game\<close>

text \<open>
  The orchestrator: the ship (\<^verbatim>\<open>null\<close> until a game is started), the game state, the entity
  manager and the selected options. The physics engine keeps no state between calls, and
  the renderer and the input manager are outside the simulation.
\<close>

record Game =
  game_width :: real
  game_height :: real
  game_ship :: "Ship option"
  gameState :: GameState
  entityManager :: EntityManager
  selectedShipColor :: string
  selectedDifficulty :: Difficulty

datatype jsError = TypeError

definition Game_new :: "EntityManager \<Rightarrow> Game" where
  "Game_new em =
     \<lparr>game_width = 800, game_height = 600, game_ship = None,
      gameState = GameState_returnToMenu GameState_new,
      entityManager = em,
      selectedShipColor = ''#00FF88'', selectedDifficulty = Medium\<rparr>"

definition Game_startNewGame :: "real \<Rightarrow> Difficulty \<Rightarrow> string \<Rightarrow> Game \<Rightarrow> Game" where
  "Game_startNewGame now d shipColor game =
     (let game1 = game\<lparr>selectedDifficulty := d, selectedShipColor := shipColor\<rparr>;
          game2 = game1\<lparr>gameState := GameState_startNewGame now d (gameState game1)\<rparr>;
          ship = Ship_new (game_width game2 / 2) (game_height game2 / 2) shipColor
                   (game_width game2) (game_height game2);
          game3 = game2\<lparr>game_ship := Some ship\<rparr>;
          game4 = game3\<lparr>entityManager := EntityManager_clearAllEntities (entityManager game3)\<rparr>;
          asteroidCount = GameState_getAsteroidCountForLevel (gameState game4)
      in game4\<lparr>entityManager :=
           EntityManager_createAsteroidField asteroidCount (ship_position ship) d (entityManager game4)\<rparr>)"

text \<open>
  The body of the loop of \<^verbatim>\<open>handleCollisions\<close>. \<^verbatim>\<open>entityA === this.ship\<close> holds for the
  reference \<open>ShipRef\<close> when there is a ship.
\<close>

definition Game_handleCollision :: "real \<Rightarrow> Game \<Rightarrow> Collision \<Rightarrow> Game" where
  "Game_handleCollision now game collision =
     (let a = e_ref (entityA collision); b = e_ref (entityB collision)
      in if (a = ShipRef \<and> isAsteroid b) \<or> (b = ShipRef \<and> isAsteroid a)
         then
           (case game_ship game of
              None \<Rightarrow> game
            | Some ship \<Rightarrow>
                (let asteroid = (if a = ShipRef then b else a);
                     (destroyed, ship1) = Ship_onCollision asteroid ship;
                     game1 = game\<lparr>game_ship := Some ship1\<rparr>
                 in if destroyed
                    then
                      (let (gameOver, gs) = GameState_loseLife now (gameState game1);
                           game2 = game1\<lparr>gameState := gs\<rparr>
                       in game2\<lparr>entityManager :=
                            EntityManager_createParticleEffect
                              (Explosion (ship_position ship1) (Css (ship_color ship1)) 10)
                              (entityManager game2)\<rparr>)
                    else game1))
         else if (isProjectile a \<and> isAsteroid b) \<or> (isProjectile b \<and> isAsteroid a)
         then
           (case (if isProjectile a then (a, b) else (b, a)) of
              (ProjectileRef p, AsteroidRef r) \<Rightarrow>
                (let em = entityManager game;
                     (pHit, pObj) = Projectile_onCollision (AsteroidRef r) (projectileObj em p);
                     em1 = em\<lparr>projectileObj := (projectileObj em)(p := pObj)\<rparr>
                 in if \<not> pHit then game\<lparr>entityManager := em1\<rparr>
                    else
                      (let (aHit, aObj) = Asteroid_onCollision (ProjectileRef p) (asteroidObj em1 r);
                           em2 = em1\<lparr>asteroidObj := (asteroidObj em1)(r := aObj)\<rparr>
                       in if \<not> aHit then game\<lparr>entityManager := em2\<rparr>
                          else
                            (let em3 = EntityManager_destroyProjectile p em2;
                                 (fragments, em4) = EntityManager_destroyAsteroid r em3;
                                 game1 = game\<lparr>entityManager := em4\<rparr>
                             in game1\<lparr>gameState :=
                                  snd (GameState_recordAsteroidDestroyed
                                         (ast_size (asteroidObj em4 r)) (gameState game1))\<rparr>)))
            | other \<Rightarrow> game)
         else game)"

definition Game_handleCollisions :: "real \<Rightarrow> Collision list \<Rightarrow> Game \<Rightarrow> Game" where
  "Game_handleCollisions now collisions game = foldl (Game_handleCollision now) game collisions"

text \<open>
  \<^verbatim>\<open>handleLevelComplete\<close> reads \<^verbatim>\<open>this.ship.position\<close>, a TypeError when there is no ship.
\<close>

definition Game_handleLevelComplete :: "real \<Rightarrow> Game \<Rightarrow> jsError + Game" where
  "Game_handleLevelComplete now game =
     (let game1 = game\<lparr>gameState := GameState_completeLevel now (gameState game)\<rparr>;
          asteroidCount = GameState_getAsteroidCountForLevel (gameState game1)
      in case game_ship game1 of
           None \<Rightarrow> Inl TypeError
         | Some ship \<Rightarrow>
             Inr (game1\<lparr>entityManager :=
                    EntityManager_createAsteroidField asteroidCount (ship_position ship)
                      (selectedDifficulty game1) (entityManager game1)\<rparr>))"

section \<open>Example objects\<close>

text \<open>Concrete objects and a concrete manager, used to instantiate the theorems below.\<close>

definition exampleRandom :: Random where
  "exampleRandom = \<lparr>rnd_stream = (\<lambda>n. 1 / 2), rnd_index = 0\<rparr>"

definition exampleProjectile :: Projectile where
  "exampleProjectile =
     Projectile_new 800 600
       \<lparr>pd_position = Vector2D_new 0 0, pd_velocity = Vector2D_new 400 0, pd_rotation = 0\<rparr>"

definition exampleAsteroid :: Asteroid where
  "exampleAsteroid =
     \<lparr>ast_position = Vector2D_new 100 100, ast_velocity = Vector2D_new 10 20,
      ast_angularVelocity = 1, ast_rotation = 0, ast_size = Small, ast_radius = 14,
      ast_pointValue = 100, ast_splitCount = 0, ast_vertices = [],
      ast_color = Hsl 180 70 60, ast_isActive = True,
      ast_screenWidth = 800, ast_screenHeight = 600, ast_id = Some 1\<rparr>"

definition exampleParticle :: Particle where
  "exampleParticle =
     Particle_new (Vector2D_new 0 0) (Vector2D_new 0 0) (Css ''#FFFF00'') 2 500 0.85 True"

definition exampleManager :: EntityManager where
  "exampleManager =
     EntityManager_new 800 600 (\<lambda>r. exampleAsteroid) (\<lambda>r. exampleProjectile)
       (\<lambda>r. exampleParticle) exampleRandom"

definition exampleShip :: Ship where
  "exampleShip = Ship_new 400 300 ''#00FF88'' 800 600"

text \<open>
  The operations of the manager that create, destroy and reclaim projectiles, and a run of
  a sequence of them.
\<close>

datatype ManagerOp =
    CreateProjectile ProjectileData
  | DestroyProjectile nat
  | Update real
  | Cleanup

fun applyOp :: "EntityManager \<Rightarrow> ManagerOp \<Rightarrow> EntityManager" where
  "applyOp em (CreateProjectile options) = snd (EntityManager_createProjectile options em)"
| "applyOp em (DestroyProjectile r) = EntityManager_destroyProjectile r em"
| "applyOp em (Update deltaTime) = EntityManager_update deltaTime em"
| "applyOp em Cleanup = EntityManager_cleanupInactiveEntities em"

definition runOps :: "EntityManager \<Rightarrow> ManagerOp list \<Rightarrow> EntityManager" where
  "runOps em ops = foldl applyOp em ops"

text \<open>Two shots: one fired at the origin, one fired near the opposite corner of the screen.\<close>

definition firstShot :: ProjectileData where
  "firstShot = \<lparr>pd_position = Vector2D_new 0 0, pd_velocity = Vector2D_new 400 0, pd_rotation = 0\<rparr>"

definition secondShot :: ProjectileData where
  "secondShot = \<lparr>pd_position = Vector2D_new 810 600, pd_velocity = Vector2D_new 400 0, pd_rotation = 0\<rparr>"

definition smallOptions :: AsteroidOptions where
  "smallOptions =
     \<lparr>ao_position = Vector2D_new 100 100, ao_velocity = Vector2D_new 10 20,
      ao_angularVelocity = None, ao_size = Small, ao_screenWidth = 800, ao_screenHeight = 600\<rparr>"

text \<open>What one fragment of the parent \<open>a\<close> is, in the words of the description of \<^verbatim>\<open>split\<close>.\<close>

definition fragmentOf :: "Asteroid \<Rightarrow> Asteroid \<Rightarrow> bool" where
  "fragmentOf a f =
     (ast_size f = (if ast_size a = Large then Medium_size else Small)
      \<and> ast_isActive f
      \<and> (\<exists>angle speed. 50 \<le> speed \<and> speed < 150
            \<and> ast_velocity f = Vector2D_add (Vector2D_fromAngle angle speed)
                                  (Vector2D_multiply (ast_velocity a) 0.3)
            \<and> ast_position f = Vector2D_add (ast_position a)
                                  (Vector2D_fromAngle angle (ast_radius a * 0.3))))"

text \<open>
  A game in progress: the example ship at the centre of the screen, three lives, and the
  record of a collision of the ship with an asteroid next to it.
\<close>

definition exampleGame :: Game where
  "exampleGame =
     (Game_new exampleManager)
       \<lparr>game_ship := Some exampleShip,
        gameState := GameState_startNewGame 0 Medium GameState_new\<rparr>"

definition exampleShipEntity :: Entity where
  "exampleShipEntity =
     \<lparr>e_ref = ShipRef, e_id = None, e_isActive = None, e_bounds = Ship_getBounds exampleShip\<rparr>"

definition exampleNearAsteroid :: Entity where
  "exampleNearAsteroid =
     \<lparr>e_ref = AsteroidRef 0, e_id = Some 1, e_isActive = Some True,
      e_bounds = \<lparr>bounds_x = 395, bounds_y = 300, bounds_radius = 14\<rparr>\<rparr>"

text \<open>
  Two asteroids of radius 60 whose centres are 102 apart, in the grid cells \<open>(0, 0)\<close> and
  \<open>(2, 0)\<close>.
\<close>

definition wideA :: Entity where
  "wideA = \<lparr>e_ref = AsteroidRef 1, e_id = Some 1, e_isActive = Some True,
     e_bounds = \<lparr>bounds_x = 99, bounds_y = 50, bounds_radius = 60\<rparr>\<rparr>"

definition wideB :: Entity where
  "wideB = \<lparr>e_ref = AsteroidRef 2, e_id = Some 2, e_isActive = Some True,
     e_bounds = \<lparr>bounds_x = 201, bounds_y = 50, bounds_radius = 60\<rparr>\<rparr>"

text \<open>
  The state of the scan of \<^verbatim>\<open>detectCollisionsSpatial\<close> after the pairs \<open>S\<close> of an entity
  and a candidate have been visited: the identifiers in \<^verbatim>\<open>checkedPairs\<close> are those of the
  visited pairs of two different objects, and the pairs reported are the colliding ones
  among them.
\<close>

definition keysOf :: "(Entity \<times> Entity) set \<Rightarrow> (nat option \<times> nat option) set" where
  "keysOf S = {pairId a b | a b. (a, b) \<in> S \<and> e_ref a \<noteq> e_ref b}"

definition pairsOf :: "(Entity \<times> Entity) set \<Rightarrow> entityRef set set" where
  "pairsOf S = {{e_ref a, e_ref b} | a b. (a, b) \<in> S \<and> e_ref a \<noteq> e_ref b \<and> checkCircleCollision a b}"

definition scanned ::
  "Entity set \<Rightarrow> (Entity \<times> Entity) set \<Rightarrow> (nat option \<times> nat option) set \<times> Collision list \<Rightarrow> bool" where
  "scanned U S st = (S \<subseteq> U \<times> U \<and> fst st = keysOf S \<and> collidingPairs (snd st) = pairsOf S)"

section \<open>InputManager and the frame update\<close>

text \<open>
  The keyboard is outside the model. \<open>Input\<close> holds what the key queries of
  \<^verbatim>\<open>processInput\<close> answer in one frame: \<open>in_pause\<close> is
  \<^verbatim>\<open>isPressed('pause') && wasJustPressed('pause')\<close>, \<open>in_escape\<close> the same for
  \<^verbatim>\<open>'escape'\<close>, the next three are \<^verbatim>\<open>isPressed\<close> of the action, and the last is the
  flag \<^verbatim>\<open>autoFireEnabled\<close>.
\<close>

record Input =
  in_pause :: bool
  in_escape :: bool
  in_rotateLeft :: bool
  in_rotateRight :: bool
  in_thrust :: bool
  in_autoFireEnabled :: bool

text \<open>The action strings \<^verbatim>\<open>'toggle-pause'\<close>, \<^verbatim>\<open>'escape'\<close>, \<^verbatim>\<open>'rotate-left'\<close>, \<^verbatim>\<open>'rotate-right'\<close>, \<^verbatim>\<open>'thrust'\<close>, \<^verbatim>\<open>'auto-fire'\<close>.\<close>

datatype Action = TogglePause | Escape | RotateLeft | RotateRight | Thrust | AutoFire

definition InputManager_processInput ::
  "Input \<Rightarrow> Ship option \<Rightarrow> GameState \<Rightarrow> real \<Rightarrow> real
     \<Rightarrow> Action list \<times> ProjectileData option \<times> Ship option" where
  "InputManager_processInput input ship gs deltaTime currentTime =
     (let actions0 = (if in_pause input then [TogglePause] else [])
                     @ (if in_escape input then [Escape] else [])
      in if isPaused gs then (actions0, None, ship)
         else
           (case ship of
              None \<Rightarrow> (actions0, None, None)
            | Some s \<Rightarrow>
                (let (a1, s1) = (if in_rotateLeft input
                                 then ([RotateLeft], Ship_rotateLeft deltaTime s) else ([], s));
                     (a2, s2) = (if in_rotateRight input
                                 then ([RotateRight], Ship_rotateRight deltaTime s1) else ([], s1));
                     (a3, s3) = (if in_thrust input
                                 then ([Thrust], Ship_thrust s2) else ([], Ship_stopThrust s2));
                     (newProjectile, s4) =
                        (if in_autoFireEnabled input \<and> Ship_canFire currentTime s3
                         then Ship_createProjectile currentTime s3 else (None, s3));
                     a4 = (if newProjectile \<noteq> None then [AutoFire] else [])
                 in (actions0 @ a1 @ a2 @ a3 @ a4, newProjectile, Some s4))))"

fun Game_handleInputAction :: "GameState \<Rightarrow> Action \<Rightarrow> GameState" where
  "Game_handleInputAction gs TogglePause =
     (if isPaused gs then snd (GameState_resume gs) else snd (GameState_pause gs))"
| "Game_handleInputAction gs Escape = GameState_returnToMenu gs"
| "Game_handleInputAction gs other = gs"

definition Game_handleInputActions :: "Action list \<Rightarrow> GameState \<Rightarrow> GameState" where
  "Game_handleInputActions actions gs = foldl Game_handleInputAction gs actions"

text \<open>
  \<^verbatim>\<open>PhysicsEngine.updateEntities\<close> calls \<^verbatim>\<open>update\<close> on every entity whose \<^verbatim>\<open>isActive\<close> is
  not \<^verbatim>\<open>false\<close>; the counts it returns are not used by the game.
\<close>

fun PhysicsEngine_updateEntity :: "real \<Rightarrow> Game \<Rightarrow> entityRef \<Rightarrow> Game" where
  "PhysicsEngine_updateEntity deltaTime game ShipRef =
     (case game_ship game of
        None \<Rightarrow> game
      | Some s \<Rightarrow> game\<lparr>game_ship := Some (Ship_update deltaTime s)\<rparr>)"
| "PhysicsEngine_updateEntity deltaTime game (AsteroidRef r) =
     (let em = entityManager game
      in if \<not> ast_isActive (asteroidObj em r) then game
         else game\<lparr>entityManager :=
                em\<lparr>asteroidObj := (asteroidObj em)(r := Asteroid_update deltaTime (asteroidObj em r))\<rparr>\<rparr>)"
| "PhysicsEngine_updateEntity deltaTime game (ProjectileRef r) =
     (let em = entityManager game
      in if \<not> proj_isActive (projectileObj em r) then game
         else game\<lparr>entityManager :=
                em\<lparr>projectileObj := (projectileObj em)(r := Projectile_update deltaTime (projectileObj em r))\<rparr>\<rparr>)"

definition PhysicsEngine_updateEntities :: "entityRef list \<Rightarrow> real \<Rightarrow> Game \<Rightarrow> Game" where
  "PhysicsEngine_updateEntities entities deltaTime game =
     foldl (PhysicsEngine_updateEntity deltaTime) game entities"

text \<open>
  What the physics engine reads from the object behind a reference. There is nothing to
  read behind the reference to the ship when there is no ship; the list \<^verbatim>\<open>allEntities\<close> of
  \<^verbatim>\<open>Game.update\<close> holds the ship only when there is one.
\<close>

fun entityOf :: "Game \<Rightarrow> entityRef \<Rightarrow> Entity option" where
  "entityOf game ShipRef =
     (case game_ship game of
        None \<Rightarrow> None
      | Some s \<Rightarrow> Some \<lparr>e_ref = ShipRef, e_id = None, e_isActive = None, e_bounds = Ship_getBounds s\<rparr>)"
| "entityOf game (AsteroidRef r) =
     Some \<lparr>e_ref = AsteroidRef r, e_id = ast_id (asteroidObj (entityManager game) r),
           e_isActive = Some (ast_isActive (asteroidObj (entityManager game) r)),
           e_bounds = Asteroid_getBounds (asteroidObj (entityManager game) r)\<rparr>"
| "entityOf game (ProjectileRef r) =
     Some \<lparr>e_ref = ProjectileRef r, e_id = proj_id (projectileObj (entityManager game) r),
           e_isActive = Some (proj_isActive (projectileObj (entityManager game) r)),
           e_bounds = Projectile_getBounds (projectileObj (entityManager game) r)\<rparr>"

text \<open>\<^verbatim>\<open>Game.update(deltaTime, currentTime)\<close>.\<close>

definition Game_update :: "real \<Rightarrow> real \<Rightarrow> real \<Rightarrow> Input \<Rightarrow> Game \<Rightarrow> jsError + Game" where
  "Game_update deltaTime currentTime now input game =
     (let entityCounts = EntityManager_getEntityCounts (entityManager game);
          game1 = game\<lparr>gameState := GameState_update deltaTime (gameState game)\<rparr>;
          (actions, newProjectile, ship1) =
             InputManager_processInput input (game_ship game1) (gameState game1) deltaTime currentTime;
          game2 = game1\<lparr>game_ship := ship1\<rparr>;
          game3 = game2\<lparr>gameState := Game_handleInputActions actions (gameState game2)\<rparr>
      in if isPaused (gameState game3) \<or> isGameOver (gameState game3) \<or> gamePhase (gameState game3) = Menu
         then Inr game3
         else
           (let game4 = (case newProjectile of
                           None \<Rightarrow> game3
                         | Some options \<Rightarrow>
                             game3\<lparr>entityManager :=
                                      snd (EntityManager_createProjectile options (entityManager game3)),
                                    gameState := GameState_recordShotFired (gameState game3)\<rparr>);
                game5 = (case game_ship game4 of
                           None \<Rightarrow> game4
                         | Some s \<Rightarrow> game4\<lparr>game_ship := Some (Ship_update deltaTime s)\<rparr>);
                game6 = game5\<lparr>entityManager := EntityManager_update deltaTime (entityManager game5)\<rparr>;
                allEntities = EntityManager_getAllActiveEntities (entityManager game6)
                              @ (case game_ship game6 of None \<Rightarrow> [] | Some s \<Rightarrow> [ShipRef]);
                game7 = PhysicsEngine_updateEntities allEntities deltaTime game6;
                collisions = detectCollisions (List.map_filter (entityOf game7) allEntities);
                game8 = Game_handleCollisions now collisions game7
            in if count_asteroids entityCounts = 0 then Game_handleLevelComplete now game8
               else Inr game8))"

section \<open>Spawn positions\<close>

text \<open>
  Candidate \<open>k\<close> of the positions that \<^verbatim>\<open>createRandom\<close> draws from position \<open>n\<close> of the random
  stream on: two numbers of the stream, scaled to the screen.
\<close>

definition candidate :: "(nat \<Rightarrow> real) \<Rightarrow> nat \<Rightarrow> real \<Rightarrow> real \<Rightarrow> nat \<Rightarrow> Vector2D" where
  "candidate stream n w h k = Vector2D_new (stream (n + 2 * k) * w) (stream (n + 2 * k + 1) * h)"

text \<open>
  Where a new asteroid may be. Its position is one of fifty consecutive candidates. It is
  at the safe distance from the player or farther, or it is the fiftieth candidate and all
  fifty are closer to the player than the safe distance: the fallback of
  \<^verbatim>\<open>createRandom\<close> to the last position it tried.
\<close>

definition safelyPlaced :: "(nat \<Rightarrow> real) \<Rightarrow> Vector2D \<Rightarrow> real \<Rightarrow> real \<Rightarrow> real \<Rightarrow> Asteroid \<Rightarrow> bool" where
  "safelyPlaced stream playerPosition w h safeDistance a =
     (\<exists>n k. k < 50
         \<and> ast_position a = candidate stream n w h k
         \<and> (safeDistance \<le> Vector2D_distanceTo (ast_position a) playerPosition
            \<or> (k = 49
               \<and> (\<forall>j < 50. Vector2D_distanceTo (candidate stream n w h j) playerPosition
                               < safeDistance))))"

text \<open>A frame in which no key is pressed and automatic firing is switched off.\<close>

definition quietInput :: Input where
  "quietInput = \<lparr>in_pause = False, in_escape = False, in_rotateLeft = False,
     in_rotateRight = False, in_thrust = False, in_autoFireEnabled = False\<rparr>"

section \<open>A ship resting on an asteroid\<close>

text \<open>
  \<open>n\<close> successive frames: \<^verbatim>\<open>gameLoop\<close> calls \<^verbatim>\<open>update(deltaTime, currentTime)\<close> once per
  animation frame. Here every frame takes \<open>deltaTime\<close> and sees the same keys, and frame \<open>k\<close>
  runs at the time \<open>k * deltaTime\<close>. An exception ends the run.
\<close>

fun Game_frames :: "nat \<Rightarrow> real \<Rightarrow> Input \<Rightarrow> Game \<Rightarrow> jsError + Game" where
  "Game_frames 0 deltaTime input game = Inr game"
| "Game_frames (Suc n) deltaTime input game =
     (case Game_frames n deltaTime input game of
        Inl e \<Rightarrow> Inl e
      | Inr g \<Rightarrow> Game_update deltaTime (deltaTime * real (Suc n)) (deltaTime * real (Suc n)) input g)"

text \<open>
  A small asteroid at rest on the centre of the screen, and the game in progress with this
  asteroid as its only one: the ship, at rest on the centre as well, overlaps it.
\<close>

definition restingAsteroid :: Asteroid where
  "restingAsteroid =
     exampleAsteroid\<lparr>ast_position := Vector2D_new 400 300, ast_velocity := Vector2D_new 0 0\<rparr>"

definition collisionGame :: Game where
  "collisionGame = exampleGame\<lparr>entityManager := registerAsteroid exampleManager restingAsteroid\<rparr>"

text \<open>
  The states of the run from \<^term>\<open>collisionGame\<close>: the game is in progress with \<open>n\<close> lives, the
  ship rests on the centre of the screen with the given invulnerability flag and timer, the
  only asteroid is active and rests there too, and there is no projectile.
\<close>

definition restingShip :: "bool \<Rightarrow> real \<Rightarrow> Ship \<Rightarrow> bool" where
  "restingShip iv t s \<longleftrightarrow>
     ship_position s = \<lparr>vx = 400, vy = 300\<rparr> \<and> ship_velocity s = \<lparr>vx = 0, vy = 0\<rparr>
     \<and> ship_isInvulnerable s = iv \<and> ship_invulnerabilityTimer s = t
     \<and> ship_radius s = 12 \<and> ship_screenWidth s = 800 \<and> ship_screenHeight s = 600
     \<and> ship_invulnerabilityDuration s = 2000"

definition restingRock :: "Asteroid \<Rightarrow> bool" where
  "restingRock a \<longleftrightarrow>
     ast_position a = \<lparr>vx = 400, vy = 300\<rparr> \<and> ast_velocity a = \<lparr>vx = 0, vy = 0\<rparr>
     \<and> ast_isActive a \<and> ast_radius a = 14
     \<and> ast_screenWidth a = 800 \<and> ast_screenHeight a = 600"

definition shipOnAsteroid :: "int \<Rightarrow> bool \<Rightarrow> real \<Rightarrow> Game \<Rightarrow> bool" where
  "shipOnAsteroid n iv t game \<longleftrightarrow>
     gamePhase (gameState game) = Playing \<and> \<not> isPaused (gameState game)
     \<and> \<not> isGameOver (gameState game) \<and> lives (gameState game) = n
     \<and> (case game_ship game of None \<Rightarrow> False | Some s \<Rightarrow> restingShip iv t s)
     \<and> (case asteroids (entityManager game) of
           [r] \<Rightarrow> restingRock (asteroidObj (entityManager game) r)
         | other \<Rightarrow> False)
     \<and> projectiles (entityManager game) = []"

text \<open>One call of \<^verbatim>\<open>Ship.update\<close> on the invulnerability flag and timer.\<close>

definition tick :: "real \<Rightarrow> bool \<times> real \<Rightarrow> bool \<times> real" where
  "tick deltaTime st =
     (if fst st then (if snd st - deltaTime \<le> 0 then (False, 0) else (True, snd st - deltaTime))
      else st)"

chapter \<open>Properties\<close>

section \<open>Vector2D\<close>








section \<open>Collision records\<close>












subsection \<open>An instance\<close>


section \<open>GameState: scoring\<close>

lemma addScore_fields:
  "score (snd (GameState_addScore points source s)) = score s + points"
  "level (snd (GameState_addScore points source s)) = level s"
  "difficulty (snd (GameState_addScore points source s)) = difficulty s"
  "gamePhase (snd (GameState_addScore points source s)) = gamePhase s"
  "isPaused (snd (GameState_addScore points source s)) = isPaused s"
  "isGameOver (snd (GameState_addScore points source s)) = isGameOver s"
  by (simp_all add: GameState_addScore_def Let_def)

lemma addScore_lives:
  "lives (snd (GameState_addScore points source s)) =
     (if \<lfloor>(score s + points) / extraLifeThreshold (difficultySettings (difficulty s))\<rfloor>
          > \<lfloor>lastExtraLifeScore s / extraLifeThreshold (difficultySettings (difficulty s))\<rfloor>
      then lives s + 1 else lives s)"
  by (simp add: GameState_addScore_def Let_def)

lemma addScore_lastExtraLifeScore:
  "lastExtraLifeScore (snd (GameState_addScore points source s)) =
     (if \<lfloor>(score s + points) / extraLifeThreshold (difficultySettings (difficulty s))\<rfloor>
          > \<lfloor>lastExtraLifeScore s / extraLifeThreshold (difficultySettings (difficulty s))\<rfloor>
      then score s + points else lastExtraLifeScore s)"
  by (simp add: GameState_addScore_def Let_def)

lemma extraLifeThreshold_pos: "0 < extraLifeThreshold (difficultySettings d)"
  by (cases d) simp_all

text \<open>
  With non-negative points the bucket of \<^verbatim>\<open>lastExtraLifeScore\<close> stays the bucket of the
  score, so a crossing measured from \<^verbatim>\<open>lastExtraLifeScore\<close> is a crossing measured from the
  score before the call.
\<close>

lemma addScore_bucket_invariant:
  assumes "0 \<le> points"
    and "\<lfloor>lastExtraLifeScore s / extraLifeThreshold (difficultySettings (difficulty s))\<rfloor>
           = \<lfloor>score s / extraLifeThreshold (difficultySettings (difficulty s))\<rfloor>"
  shows "\<lfloor>lastExtraLifeScore (snd (GameState_addScore points source s))
            / extraLifeThreshold (difficultySettings (difficulty s))\<rfloor>
           = \<lfloor>score (snd (GameState_addScore points source s))
            / extraLifeThreshold (difficultySettings (difficulty s))\<rfloor>"
proof -
  let ?t = "extraLifeThreshold (difficultySettings (difficulty s))"
  have "score s / ?t \<le> (score s + points) / ?t"
    using assms(1) extraLifeThreshold_pos [of "difficulty s"] by (simp add: divide_right_mono)
  then have "\<lfloor>score s / ?t\<rfloor> \<le> \<lfloor>(score s + points) / ?t\<rfloor>"
    by (rule floor_mono)
  then show ?thesis
    using assms(2) by (simp add: addScore_lastExtraLifeScore addScore_fields)
qed

text \<open>
  C4. Let \<open>t\<close> be the extra-life threshold of the difficulty. A call of \<^verbatim>\<open>addScore\<close> with
  non-negative points grants exactly one life when the bucket \<open>\<lfloor>score / t\<rfloor>\<close> of the new
  score exceeds the bucket of \<^verbatim>\<open>lastExtraLifeScore\<close> by one, grants none when the bucket of
  the new score does not exceed it, never decreases \<^verbatim>\<open>lives\<close> and leaves \<^verbatim>\<open>level\<close> unchanged.
\<close>

theorem addScore_extra_life:
  assumes "0 \<le> points"
  shows "(\<lfloor>score (snd (GameState_addScore points source s))
              / extraLifeThreshold (difficultySettings (difficulty s))\<rfloor>
            = \<lfloor>lastExtraLifeScore s / extraLifeThreshold (difficultySettings (difficulty s))\<rfloor> + 1
          \<longrightarrow> lives (snd (GameState_addScore points source s)) = lives s + 1)
       \<and> (\<lfloor>score (snd (GameState_addScore points source s))
              / extraLifeThreshold (difficultySettings (difficulty s))\<rfloor>
            \<le> \<lfloor>lastExtraLifeScore s / extraLifeThreshold (difficultySettings (difficulty s))\<rfloor>
          \<longrightarrow> lives (snd (GameState_addScore points source s)) = lives s)
       \<and> lives s \<le> lives (snd (GameState_addScore points source s))
       \<and> level (snd (GameState_addScore points source s)) = level s
       \<and> score (snd (GameState_addScore points source s)) = score s + points"
  by (simp add: addScore_fields addScore_lives)

theorem addScore_extra_life_witness:
  "(0::real) \<le> 20
   \<and> lives (snd (GameState_addScore 20 ''asteroid-large'' (GameState_new\<lparr>score := 9990\<rparr>)))
       = lives (GameState_new\<lparr>score := 9990\<rparr>) + 1
   \<and> lives (snd (GameState_addScore 20 ''asteroid-large'' (GameState_new\<lparr>score := 100\<rparr>)))
       = lives (GameState_new\<lparr>score := 100\<rparr>)
   \<and> level (snd (GameState_addScore 20 ''asteroid-large'' (GameState_new\<lparr>score := 9990\<rparr>))) = 1"
proof -
  have p: "(0::real) \<le> 20" by simp
  show ?thesis
    using addScore_extra_life [OF p, of "''asteroid-large''" "GameState_new\<lparr>score := 9990\<rparr>"]
      addScore_extra_life [OF p, of "''asteroid-large''" "GameState_new\<lparr>score := 100\<rparr>"]
    by (simp add: GameState_new_def GameState_applyDifficultySettings_def)
qed

section \<open>Ship: the velocity limit\<close>


lemma Ship_wrapScreenEdges_fields:
  "ship_velocity (Ship_wrapScreenEdges s) = ship_velocity s"
  "ship_maxVelocity (Ship_wrapScreenEdges s) = ship_maxVelocity s"
  "ship_isInvulnerable (Ship_wrapScreenEdges s) = ship_isInvulnerable s"
  "ship_invulnerabilityTimer (Ship_wrapScreenEdges s) = ship_invulnerabilityTimer s"
  by (simp_all add: Ship_wrapScreenEdges_def Let_def)


lemma Ship_update_maxVelocity:
  "ship_maxVelocity (Ship_update deltaTime s) = ship_maxVelocity s"
  by (simp add: Ship_update_def Let_def Ship_wrapScreenEdges_fields)



section \<open>Calls in a state that does not admit them\<close>

text \<open>
  C9. \<^verbatim>\<open>GameState.pause()\<close> returns false and changes nothing unless the phase is
  \<^verbatim>\<open>playing\<close> and the game is not paused; \<^verbatim>\<open>GameState.resume()\<close> returns false and changes
  nothing when the game is not paused; \<^verbatim>\<open>EntityManager.destroyProjectile\<close> changes nothing for
  a projectile that is not active; \<^verbatim>\<open>Ship.createProjectile\<close> returns \<^verbatim>\<open>null\<close> and changes
  nothing while less than \<^verbatim>\<open>fireRate\<close> (250 ms) has passed since the last shot.
\<close>

theorem invalid_state_calls_are_noops:
  "(gamePhase s \<noteq> Playing \<or> isPaused s \<longrightarrow> GameState_pause s = (False, s))
   \<and> (\<not> isPaused s \<longrightarrow> GameState_resume s = (False, s))
   \<and> (\<not> proj_isActive (projectileObj em r) \<longrightarrow> EntityManager_destroyProjectile r em = em)
   \<and> (currentTime - ship_lastFireTime ship < ship_fireRate ship
        \<longrightarrow> Ship_createProjectile currentTime ship = (None, ship))"
  by (auto simp: GameState_pause_def GameState_resume_def EntityManager_destroyProjectile_def
      Ship_createProjectile_def Ship_canFire_def)

theorem invalid_state_calls_are_noops_witness:
  "isPaused (GameState_new\<lparr>gamePhase := Playing, isPaused := True\<rparr>)
   \<and> GameState_pause (GameState_new\<lparr>gamePhase := Playing, isPaused := True\<rparr>)
       = (False, GameState_new\<lparr>gamePhase := Playing, isPaused := True\<rparr>)
   \<and> gamePhase GameState_new \<noteq> Playing
   \<and> GameState_pause GameState_new = (False, GameState_new)
   \<and> \<not> isPaused GameState_new
   \<and> GameState_resume GameState_new = (False, GameState_new)
   \<and> \<not> proj_isActive (projectileObj
          (exampleManager\<lparr>projectileObj := (\<lambda>r. Projectile_deactivate exampleProjectile)\<rparr>) 0)
   \<and> EntityManager_destroyProjectile 0
          (exampleManager\<lparr>projectileObj := (\<lambda>r. Projectile_deactivate exampleProjectile)\<rparr>)
       = exampleManager\<lparr>projectileObj := (\<lambda>r. Projectile_deactivate exampleProjectile)\<rparr>
   \<and> ship_fireRate (exampleShip\<lparr>ship_lastFireTime := 1000\<rparr>) = 250
   \<and> (1100 :: real) - ship_lastFireTime (exampleShip\<lparr>ship_lastFireTime := 1000\<rparr>)
       < ship_fireRate (exampleShip\<lparr>ship_lastFireTime := 1000\<rparr>)
   \<and> Ship_createProjectile 1100 (exampleShip\<lparr>ship_lastFireTime := 1000\<rparr>)
       = (None, exampleShip\<lparr>ship_lastFireTime := 1000\<rparr>)"
proof -
  have a: "isPaused (GameState_new\<lparr>gamePhase := Playing, isPaused := True\<rparr>)"
    by simp
  have b: "gamePhase GameState_new \<noteq> Playing" "\<not> isPaused GameState_new"
    by (simp_all add: GameState_new_def GameState_applyDifficultySettings_def)
  have c: "\<not> proj_isActive (projectileObj
          (exampleManager\<lparr>projectileObj := (\<lambda>r. Projectile_deactivate exampleProjectile)\<rparr>) 0)"
    by (simp add: Projectile_deactivate_def)
  have d: "ship_fireRate (exampleShip\<lparr>ship_lastFireTime := 1000\<rparr>) = 250"
    "(1100 :: real) - ship_lastFireTime (exampleShip\<lparr>ship_lastFireTime := 1000\<rparr>)
       < ship_fireRate (exampleShip\<lparr>ship_lastFireTime := 1000\<rparr>)"
    by (simp_all add: exampleShip_def Ship_new_def)
  show ?thesis
    using a b c d
      invalid_state_calls_are_noops [of "GameState_new\<lparr>gamePhase := Playing, isPaused := True\<rparr>"
        "exampleManager\<lparr>projectileObj := (\<lambda>r. Projectile_deactivate exampleProjectile)\<rparr>" 0
        1100 "exampleShip\<lparr>ship_lastFireTime := 1000\<rparr>"]
      invalid_state_calls_are_noops [of GameState_new
        "exampleManager\<lparr>projectileObj := (\<lambda>r. Projectile_deactivate exampleProjectile)\<rparr>" 0
        1100 "exampleShip\<lparr>ship_lastFireTime := 1000\<rparr>"]
    by simp
qed

section \<open>EntityManager: the projectile pool\<close>

lemma registerParticle_pool:
  "projectilePool (registerParticle em p) = projectilePool em"
  "maxPoolSize (registerParticle em p) = maxPoolSize em"
  "projectileObj (registerParticle em p) = projectileObj em"
  "projectiles (registerParticle em p) = projectiles em"
  by (simp_all add: registerParticle_def)

lemma foldl_registerParticle_pool:
  "projectilePool (foldl registerParticle em ps) = projectilePool em"
  "maxPoolSize (foldl registerParticle em ps) = maxPoolSize em"
  "projectileObj (foldl registerParticle em ps) = projectileObj em"
  "projectiles (foldl registerParticle em ps) = projectiles em"
  by (induction ps arbitrary: em) (simp_all add: registerParticle_pool)

lemma createExplosionParticles_pool:
  "projectilePool (EntityManager_createExplosionParticles position color count em) = projectilePool em"
  "maxPoolSize (EntityManager_createExplosionParticles position color count em) = maxPoolSize em"
  "projectileObj (EntityManager_createExplosionParticles position color count em) = projectileObj em"
  "projectiles (EntityManager_createExplosionParticles position color count em) = projectiles em"
  by (simp_all add: EntityManager_createExplosionParticles_def foldl_registerParticle_pool
      split: prod.splits)

lemma createDebrisParticles_pool:
  "projectilePool (EntityManager_createDebrisParticles position velocity color count em) = projectilePool em"
  "maxPoolSize (EntityManager_createDebrisParticles position velocity color count em) = maxPoolSize em"
  "projectileObj (EntityManager_createDebrisParticles position velocity color count em) = projectileObj em"
  "projectiles (EntityManager_createDebrisParticles position velocity color count em) = projectiles em"
  by (simp_all add: EntityManager_createDebrisParticles_def foldl_registerParticle_pool
      split: prod.splits)

lemma createSparkParticles_pool:
  "projectilePool (EntityManager_createSparkParticles position direction count em) = projectilePool em"
  "maxPoolSize (EntityManager_createSparkParticles position direction count em) = maxPoolSize em"
  "projectileObj (EntityManager_createSparkParticles position direction count em) = projectileObj em"
  "projectiles (EntityManager_createSparkParticles position direction count em) = projectiles em"
  by (simp_all add: EntityManager_createSparkParticles_def foldl_registerParticle_pool
      split: prod.splits)

lemmas particleGenerators_pool =
  createExplosionParticles_pool createDebrisParticles_pool createSparkParticles_pool

lemma createParticleEffect_pool:
  "projectilePool (EntityManager_createParticleEffect eff em) = projectilePool em"
  "maxPoolSize (EntityManager_createParticleEffect eff em) = maxPoolSize em"
  "projectileObj (EntityManager_createParticleEffect eff em) = projectileObj em"
  "projectiles (EntityManager_createParticleEffect eff em) = projectiles em"
  by (cases eff; simp add: particleGenerators_pool)+

lemma destroyProjectile_pool:
  "projectilePool (EntityManager_destroyProjectile r em) = projectilePool em"
  "maxPoolSize (EntityManager_destroyProjectile r em) = maxPoolSize em"
  by (simp_all add: EntityManager_destroyProjectile_def Let_def particleGenerators_pool)

lemma createProjectile_pool:
  "projectilePool (snd (EntityManager_createProjectile options em)) = butlast (projectilePool em)"
  "maxPoolSize (snd (EntityManager_createProjectile options em)) = maxPoolSize em"
  by (simp_all add: EntityManager_createProjectile_def Let_def)

lemma reclaim_bound:
  "length (snd st) \<le> mx \<Longrightarrow> length (snd (reclaim active mx st r)) \<le> mx"
  by (simp add: reclaim_def)

lemma foldl_reclaim_bound:
  "length (snd st) \<le> mx \<Longrightarrow> length (snd (foldl (reclaim active mx) st rs)) \<le> mx"
  by (induction rs arbitrary: st) (simp_all add: reclaim_bound)

lemma cleanup_maxPoolSize:
  "maxPoolSize (EntityManager_cleanupInactiveEntities em) = maxPoolSize em"
  by (simp add: EntityManager_cleanupInactiveEntities_def Let_def split: prod.splits)

lemma cleanup_projectilePool:
  "projectilePool (EntityManager_cleanupInactiveEntities em) =
     snd (foldl (reclaim (\<lambda>r. proj_isActive (projectileObj em r)) (maxPoolSize em))
            ([], projectilePool em) (projectiles em))"
  by (simp add: EntityManager_cleanupInactiveEntities_def Let_def split: prod.splits)

lemma cleanup_pool_bound:
  assumes "length (projectilePool em) \<le> maxPoolSize em"
  shows "length (projectilePool (EntityManager_cleanupInactiveEntities em)) \<le> maxPoolSize em"
  unfolding cleanup_projectilePool
  by (rule foldl_reclaim_bound) (use assms in simp)

lemma update_pool_bound:
  assumes "length (projectilePool em) \<le> maxPoolSize em"
  shows "length (projectilePool (EntityManager_update deltaTime em)) \<le> maxPoolSize em"
    and "maxPoolSize (EntityManager_update deltaTime em) = maxPoolSize em"
  unfolding EntityManager_update_def Let_def
  using assms by (simp_all add: cleanup_maxPoolSize cleanup_pool_bound [THEN order_trans])

lemma applyOp_pool_bound:
  assumes "length (projectilePool em) \<le> maxPoolSize em"
  shows "length (projectilePool (applyOp em op)) \<le> maxPoolSize (applyOp em op)
         \<and> maxPoolSize (applyOp em op) = maxPoolSize em"
proof (cases op)
  case (CreateProjectile options)
  then show ?thesis
    using assms by (simp add: createProjectile_pool)
next
  case (DestroyProjectile r)
  then show ?thesis
    using assms by (simp add: destroyProjectile_pool)
next
  case (Update deltaTime)
  then show ?thesis
    using update_pool_bound [OF assms] by simp
next
  case Cleanup
  then show ?thesis
    using cleanup_pool_bound [OF assms] by (simp add: cleanup_maxPoolSize)
qed

lemma runOps_pool_bound:
  assumes "length (projectilePool em) \<le> maxPoolSize em"
  shows "length (projectilePool (runOps em ops)) \<le> maxPoolSize (runOps em ops)
         \<and> maxPoolSize (runOps em ops) = maxPoolSize em"
  using assms unfolding runOps_def
proof (induction ops arbitrary: em)
  case Nil
  then show ?case by simp
next
  case (Cons op ops)
  from applyOp_pool_bound [OF Cons.prems, of op]
  have step: "length (projectilePool (applyOp em op)) \<le> maxPoolSize (applyOp em op)"
    and mx: "maxPoolSize (applyOp em op) = maxPoolSize em"
    by simp_all
  from Cons.IH [OF step] mx show ?case
    by simp
qed

lemma createProjectile_recycled:
  assumes "projectilePool em \<noteq> []"
  shows "fst (EntityManager_createProjectile options em) = last (projectilePool em)"
    and "proj_age (projectileObj (snd (EntityManager_createProjectile options em))
                     (last (projectilePool em))) = 0"
    and "proj_isActive (projectileObj (snd (EntityManager_createProjectile options em))
                     (last (projectilePool em)))"
    and "projectiles (snd (EntityManager_createProjectile options em))
           = projectiles em @ [last (projectilePool em)]"
  using assms by (simp_all add: EntityManager_createProjectile_def Let_def)

text \<open>
  C5. A new manager has an empty pool and \<^verbatim>\<open>maxPoolSize = 50\<close>. Starting from a manager
  whose projectile pool holds at most \<^verbatim>\<open>maxPoolSize\<close> entries, after any sequence of
  \<^verbatim>\<open>createProjectile\<close>, \<^verbatim>\<open>destroyProjectile\<close>, \<^verbatim>\<open>update\<close> and \<^verbatim>\<open>cleanupInactiveEntities\<close> the
  pool still holds at most \<^verbatim>\<open>maxPoolSize\<close> entries, and \<^verbatim>\<open>maxPoolSize\<close> is unchanged. When
  the pool is not empty, \<^verbatim>\<open>createProjectile\<close> returns the last pooled projectile, with
  \<^verbatim>\<open>age = 0\<close> and \<^verbatim>\<open>isActive = true\<close>, and appends it to the active projectiles.
\<close>

theorem projectile_pool_bounded:
  "maxPoolSize (EntityManager_new w h aStore pStore ptStore g) = 50
   \<and> projectilePool (EntityManager_new w h aStore pStore ptStore g) = []
   \<and> (length (projectilePool em) \<le> maxPoolSize em \<longrightarrow>
        length (projectilePool (runOps em ops)) \<le> maxPoolSize em
        \<and> maxPoolSize (runOps em ops) = maxPoolSize em)
   \<and> (projectilePool em \<noteq> [] \<longrightarrow>
        fst (EntityManager_createProjectile options em) = last (projectilePool em)
        \<and> proj_age (projectileObj (snd (EntityManager_createProjectile options em))
                      (fst (EntityManager_createProjectile options em))) = 0
        \<and> proj_isActive (projectileObj (snd (EntityManager_createProjectile options em))
                      (fst (EntityManager_createProjectile options em)))
        \<and> projectiles (snd (EntityManager_createProjectile options em))
            = projectiles em @ [fst (EntityManager_createProjectile options em)])"
proof (intro conjI impI)
  show "maxPoolSize (EntityManager_new w h aStore pStore ptStore g) = 50"
    and "projectilePool (EntityManager_new w h aStore pStore ptStore g) = []"
    by (simp_all add: EntityManager_new_def)
next
  assume b: "length (projectilePool em) \<le> maxPoolSize em"
  from runOps_pool_bound [OF b, of ops]
  show "length (projectilePool (runOps em ops)) \<le> maxPoolSize em"
    and "maxPoolSize (runOps em ops) = maxPoolSize em"
    by simp_all
next
  assume ne: "projectilePool em \<noteq> []"
  note r = createProjectile_recycled [OF ne, of options]
  show "fst (EntityManager_createProjectile options em) = last (projectilePool em)"
    by (rule r(1))
  show "proj_age (projectileObj (snd (EntityManager_createProjectile options em))
                      (fst (EntityManager_createProjectile options em))) = 0"
    by (simp add: r)
  show "proj_isActive (projectileObj (snd (EntityManager_createProjectile options em))
                      (fst (EntityManager_createProjectile options em)))"
    by (simp add: r)
  show "projectiles (snd (EntityManager_createProjectile options em))
            = projectiles em @ [fst (EntityManager_createProjectile options em)]"
    by (simp add: r)
qed

theorem projectile_pool_bounded_witness:
  "length (projectilePool exampleManager) \<le> maxPoolSize exampleManager
   \<and> maxPoolSize exampleManager = 50
   \<and> length (projectilePool (runOps exampleManager
        [CreateProjectile \<lparr>pd_position = Vector2D_new 10 10, pd_velocity = Vector2D_new 400 0, pd_rotation = 0\<rparr>,
         DestroyProjectile 0, Update 16, Cleanup,
         CreateProjectile \<lparr>pd_position = Vector2D_new 20 20, pd_velocity = Vector2D_new 0 400, pd_rotation = 0\<rparr>]))
       \<le> 50
   \<and> projectilePool (exampleManager\<lparr>projectilePool := [7]\<rparr>) \<noteq> []
   \<and> fst (EntityManager_createProjectile
        \<lparr>pd_position = Vector2D_new 20 20, pd_velocity = Vector2D_new 0 400, pd_rotation = 0\<rparr>
        (exampleManager\<lparr>projectilePool := [7]\<rparr>)) = 7
   \<and> proj_age (projectileObj (snd (EntityManager_createProjectile
        \<lparr>pd_position = Vector2D_new 20 20, pd_velocity = Vector2D_new 0 400, pd_rotation = 0\<rparr>
        (exampleManager\<lparr>projectilePool := [7]\<rparr>))) 7) = 0
   \<and> proj_isActive (projectileObj (snd (EntityManager_createProjectile
        \<lparr>pd_position = Vector2D_new 20 20, pd_velocity = Vector2D_new 0 400, pd_rotation = 0\<rparr>
        (exampleManager\<lparr>projectilePool := [7]\<rparr>))) 7)"
proof -
  have a: "length (projectilePool exampleManager) \<le> maxPoolSize exampleManager"
    "maxPoolSize exampleManager = 50"
    by (simp_all add: exampleManager_def EntityManager_new_def)
  have b: "projectilePool (exampleManager\<lparr>projectilePool := [7]\<rparr>) \<noteq> []"
    "last (projectilePool (exampleManager\<lparr>projectilePool := [7]\<rparr>)) = 7"
    by simp_all
  have c: "length (projectilePool (runOps exampleManager
        [CreateProjectile \<lparr>pd_position = Vector2D_new 10 10, pd_velocity = Vector2D_new 400 0, pd_rotation = 0\<rparr>,
         DestroyProjectile 0, Update 16, Cleanup,
         CreateProjectile \<lparr>pd_position = Vector2D_new 20 20, pd_velocity = Vector2D_new 0 400, pd_rotation = 0\<rparr>]))
       \<le> 50"
    using a
      projectile_pool_bounded [of 800 600 "\<lambda>r. exampleAsteroid" "\<lambda>r. exampleProjectile"
        "\<lambda>r. exampleParticle" exampleRandom exampleManager
        "[CreateProjectile \<lparr>pd_position = Vector2D_new 10 10, pd_velocity = Vector2D_new 400 0, pd_rotation = 0\<rparr>,
         DestroyProjectile 0, Update 16, Cleanup,
         CreateProjectile \<lparr>pd_position = Vector2D_new 20 20, pd_velocity = Vector2D_new 0 400, pd_rotation = 0\<rparr>]"
        "\<lparr>pd_position = Vector2D_new 20 20, pd_velocity = Vector2D_new 0 400, pd_rotation = 0\<rparr>"]
    by simp
  have d: "fst (EntityManager_createProjectile
        \<lparr>pd_position = Vector2D_new 20 20, pd_velocity = Vector2D_new 0 400, pd_rotation = 0\<rparr>
        (exampleManager\<lparr>projectilePool := [7]\<rparr>)) = 7
   \<and> proj_age (projectileObj (snd (EntityManager_createProjectile
        \<lparr>pd_position = Vector2D_new 20 20, pd_velocity = Vector2D_new 0 400, pd_rotation = 0\<rparr>
        (exampleManager\<lparr>projectilePool := [7]\<rparr>))) 7) = 0
   \<and> proj_isActive (projectileObj (snd (EntityManager_createProjectile
        \<lparr>pd_position = Vector2D_new 20 20, pd_velocity = Vector2D_new 0 400, pd_rotation = 0\<rparr>
        (exampleManager\<lparr>projectilePool := [7]\<rparr>))) 7)"
    using b
      projectile_pool_bounded [of 800 600 "\<lambda>r. exampleAsteroid" "\<lambda>r. exampleProjectile"
        "\<lambda>r. exampleParticle" exampleRandom "exampleManager\<lparr>projectilePool := [7]\<rparr>" "[]"
        "\<lparr>pd_position = Vector2D_new 20 20, pd_velocity = Vector2D_new 0 400, pd_rotation = 0\<rparr>"]
    by (metis (no_types, lifting))
  show ?thesis
    using a b(1) c d by blast
qed

section \<open>EntityManager: a recycled projectile\<close>

lemma destroyProjectile_active:
  assumes "proj_isActive (projectileObj em r)"
  shows "projectileObj (EntityManager_destroyProjectile r em)
           = (projectileObj em)(r := (projectileObj em r)\<lparr>proj_isActive := False\<rparr>)"
    and "projectiles (EntityManager_destroyProjectile r em) = projectiles em"
  using assms
  by (simp_all add: EntityManager_destroyProjectile_def Let_def particleGenerators_pool)

lemma cleanup_projectiles:
  "projectiles (EntityManager_cleanupInactiveEntities em) =
     fst (foldl (reclaim (\<lambda>r. proj_isActive (projectileObj em r)) (maxPoolSize em))
            ([], projectilePool em) (projectiles em))"
  "projectileObj (EntityManager_cleanupInactiveEntities em) = projectileObj em"
  by (simp_all add: EntityManager_cleanupInactiveEntities_def Let_def split: prod.splits)

lemma afterFirstShot:
  "projectilePool (runOps exampleManager [CreateProjectile firstShot, DestroyProjectile 0, Cleanup]) = [0]"
  "projectiles (runOps exampleManager [CreateProjectile firstShot, DestroyProjectile 0, Cleanup]) = []"
  "projectileObj (runOps exampleManager [CreateProjectile firstShot, DestroyProjectile 0, Cleanup]) 0
     = (Projectile_new 800 600 firstShot)\<lparr>proj_id := Some 1, proj_isActive := False\<rparr>"
proof -
  let ?em1 = "snd (EntityManager_createProjectile firstShot exampleManager)"
  have p1: "projectileObj ?em1 0 = (Projectile_new 800 600 firstShot)\<lparr>proj_id := Some 1\<rparr>"
    and l1: "projectiles ?em1 = [0]" and pool1: "projectilePool ?em1 = []"
    and mx1: "maxPoolSize ?em1 = 50"
    by (simp_all add: EntityManager_createProjectile_def exampleManager_def EntityManager_new_def Let_def)
  have act: "proj_isActive (projectileObj ?em1 0)"
    by (simp add: p1 Projectile_new_def)
  let ?em2 = "EntityManager_destroyProjectile 0 ?em1"
  have p2: "projectileObj ?em2 0 = (Projectile_new 800 600 firstShot)\<lparr>proj_id := Some 1, proj_isActive := False\<rparr>"
    and l2: "projectiles ?em2 = [0]" and pool2: "projectilePool ?em2 = []"
    and mx2: "maxPoolSize ?em2 = 50"
    using destroyProjectile_active [OF act] p1 l1 pool1 mx1
    by (simp_all add: destroyProjectile_pool)
  let ?em3 = "EntityManager_cleanupInactiveEntities ?em2"
  have run: "runOps exampleManager [CreateProjectile firstShot, DestroyProjectile 0, Cleanup] = ?em3"
    by (simp add: runOps_def)
  show "projectilePool (runOps exampleManager [CreateProjectile firstShot, DestroyProjectile 0, Cleanup]) = [0]"
    unfolding run by (simp add: cleanup_projectilePool l2 pool2 mx2 p2 reclaim_def)
  show "projectiles (runOps exampleManager [CreateProjectile firstShot, DestroyProjectile 0, Cleanup]) = []"
    unfolding run by (simp add: cleanup_projectiles l2 pool2 mx2 p2 reclaim_def)
  show "projectileObj (runOps exampleManager [CreateProjectile firstShot, DestroyProjectile 0, Cleanup]) 0
     = (Projectile_new 800 600 firstShot)\<lparr>proj_id := Some 1, proj_isActive := False\<rparr>"
    unfolding run by (simp add: cleanup_projectiles p2)
qed

text \<open>
  C6. A projectile is fired at \<open>(0, 0)\<close>, destroyed and reclaimed into the pool, and a
  second shot at \<open>(810, 600)\<close> with velocity \<open>(400, 0)\<close> recycles it. The recycled projectile
  still has \<^verbatim>\<open>startPosition = (0, 0)\<close>, and its first update by 10 ms deactivates it for
  having travelled \<^verbatim>\<open>maxDistance\<close>, while a newly constructed projectile for the same shot
  stays active.
\<close>

theorem recycled_projectile_keeps_startPosition:
  "fst (EntityManager_createProjectile secondShot
         (runOps exampleManager [CreateProjectile firstShot, DestroyProjectile 0, Cleanup])) = 0
   \<and> proj_startPosition (projectileObj (snd (EntityManager_createProjectile secondShot
         (runOps exampleManager [CreateProjectile firstShot, DestroyProjectile 0, Cleanup]))) 0)
       = Vector2D_new 0 0
   \<and> proj_position (projectileObj (snd (EntityManager_createProjectile secondShot
         (runOps exampleManager [CreateProjectile firstShot, DestroyProjectile 0, Cleanup]))) 0)
       = Vector2D_new 810 600
   \<and> \<not> proj_isActive (Projectile_update 10 (projectileObj (snd (EntityManager_createProjectile secondShot
         (runOps exampleManager [CreateProjectile firstShot, DestroyProjectile 0, Cleanup]))) 0))
   \<and> proj_startPosition (Projectile_new 800 600 secondShot) = Vector2D_new 810 600
   \<and> proj_isActive (Projectile_update 10 (Projectile_new 800 600 secondShot))"
proof -
  let ?em = "runOps exampleManager [CreateProjectile firstShot, DestroyProjectile 0, Cleanup]"
  let ?p = "projectileObj (snd (EntityManager_createProjectile secondShot ?em)) 0"
  have r: "fst (EntityManager_createProjectile secondShot ?em) = 0"
    by (simp add: EntityManager_createProjectile_def afterFirstShot Let_def)
  have p: "?p = (Projectile_new 800 600 firstShot)
                  \<lparr>proj_id := Some 1, proj_position := Vector2D_new 810 600,
                    proj_velocity := Vector2D_new 400 0, proj_age := 0, proj_isActive := True\<rparr>"
    by (simp add: EntityManager_createProjectile_def afterFirstShot Let_def secondShot_def
        Vector2D_new_def Projectile_new_def)
  have far: "(1000::real) \<le> sqrt (814 * 814 + 600 * 600)"
    by (rule real_le_rsqrt) simp
  have dead: "\<not> proj_isActive (Projectile_update 10 ?p)"
    unfolding p using far
    by (simp add: Projectile_update_def Projectile_new_def firstShot_def Vector2D_new_def
        Vector2D_add_def Vector2D_multiply_def Vector2D_distanceTo_def Projectile_deactivate_def
        orElse_def Let_def)
  have alive: "proj_isActive (Projectile_update 10 (Projectile_new 800 600 secondShot))"
    by (simp add: Projectile_update_def Projectile_new_def secondShot_def Vector2D_new_def
        Vector2D_add_def Vector2D_multiply_def Vector2D_distanceTo_def Projectile_deactivate_def
        orElse_def Let_def)
  have start: "proj_startPosition ?p = Vector2D_new 0 0"
    unfolding p by (simp add: Projectile_new_def firstShot_def)
  have pos: "proj_position ?p = Vector2D_new 810 600"
    unfolding p by simp
  have fresh: "proj_startPosition (Projectile_new 800 600 secondShot) = Vector2D_new 810 600"
    by (simp add: Projectile_new_def secondShot_def)
  from r start pos dead fresh alive show ?thesis
    by (intro conjI)
qed

section \<open>Asteroid: construction and splitting\<close>

lemma Math_random_stream [simp]: "rnd_stream (snd (Math_random g)) = rnd_stream g"
  by (simp add: Math_random_def)

lemma Math_random_range:
  "validRandom g \<Longrightarrow> 0 \<le> fst (Math_random g) \<and> fst (Math_random g) < 1"
  by (simp add: Math_random_def validRandom_def)

lemma validRandom_stream: "validRandom g \<Longrightarrow> rnd_stream g' = rnd_stream g \<Longrightarrow> validRandom g'"
  by (simp add: validRandom_def)

lemma foldl_stream:
  assumes "\<And>acc gi i. rnd_stream (snd (f (acc, gi) i)) = rnd_stream gi"
  shows "rnd_stream (snd (foldl f (acc, g) xs)) = rnd_stream g"
proof (induction xs arbitrary: acc g)
  case Nil
  show ?case by simp
next
  case (Cons i xs)
  obtain acc' g' where step: "f (acc, g) i = (acc', g')"
    by (cases "f (acc, g) i")
  then have "rnd_stream g' = rnd_stream g"
    using assms [of acc g i] by simp
  then show ?case
    using Cons.IH [of acc' g'] step by simp
qed

lemma setupSizeProperties_stream [simp]:
  "rnd_stream (snd (Asteroid_setupSizeProperties sz g)) = rnd_stream g"
  by (cases sz) (simp_all add: Asteroid_setupSizeProperties_def case_prod_unfold Let_def)

lemma generateShape_stream [simp]:
  "rnd_stream (snd (Asteroid_generateShape radius g)) = rnd_stream g"
  unfolding Asteroid_generateShape_def Let_def case_prod_unfold
  by (subst surjective_pairing [of "Math_random g"], subst foldl_stream) (simp_all add: case_prod_unfold)

lemma generateColor_stream [simp]:
  "rnd_stream (snd (Asteroid_generateColor g)) = rnd_stream g"
  by (simp add: Asteroid_generateColor_def case_prod_unfold Let_def)

lemma Asteroid_new_stream [simp]:
  "rnd_stream (snd (Asteroid_new options g)) = rnd_stream g"
  by (simp add: Asteroid_new_def case_prod_unfold Let_def split: option.splits)

lemma Asteroid_new_fields:
  "ast_position (fst (Asteroid_new options g)) = ao_position options"
  "ast_velocity (fst (Asteroid_new options g)) = ao_velocity options"
  "ast_size (fst (Asteroid_new options g)) = ao_size options"
  "ast_isActive (fst (Asteroid_new options g))"
  "ast_id (fst (Asteroid_new options g)) = None"
  by (simp_all add: Asteroid_new_def case_prod_unfold Let_def)

lemma setupSizeProperties_splitCount_eq:
  "snd (snd (fst (Asteroid_setupSizeProperties sz g))) =
     (if sz = Small then 0 else 2 + \<lfloor>fst (Math_random (snd (Math_random g))) * 2\<rfloor>)"
  by (cases sz) (simp_all add: Asteroid_setupSizeProperties_def case_prod_unfold Let_def)

lemma floor_double_unit:
  fixes r :: real
  assumes "0 \<le> r" "r < 1"
  shows "\<lfloor>r * 2\<rfloor> = 0 \<or> \<lfloor>r * 2\<rfloor> = 1"
proof -
  have "0 \<le> \<lfloor>r * 2\<rfloor>"
    using assms(1) by (simp add: zero_le_floor)
  moreover have "\<lfloor>r * 2\<rfloor> < 2"
    using assms(2) by (simp add: floor_less_iff)
  ultimately show ?thesis
    by arith
qed

lemma setupSizeProperties_splitCount:
  assumes "validRandom g"
  shows "snd (snd (fst (Asteroid_setupSizeProperties sz g)))
           \<in> (if sz = Small then {0} else {2, 3})"
proof -
  let ?r = "fst (Math_random (snd (Math_random g)))"
  have "validRandom (snd (Math_random g))"
    using assms by (rule validRandom_stream) simp
  then have "0 \<le> ?r" "?r < 1"
    using Math_random_range [of "snd (Math_random g)"] by simp_all
  then have "\<lfloor>?r * 2\<rfloor> = 0 \<or> \<lfloor>?r * 2\<rfloor> = 1"
    by (rule floor_double_unit)
  then show ?thesis
    unfolding setupSizeProperties_splitCount_eq by auto
qed

text \<open>The constructor gives a large or medium asteroid a split count of 2 or 3, a small one 0.\<close>

lemma Asteroid_new_splitCount:
  assumes "validRandom g"
  shows "ast_splitCount (fst (Asteroid_new options g))
           \<in> (if ao_size options = Small then {0} else {2, 3})"
proof -
  define g1 where "g1 = snd (case ao_angularVelocity options of
               Some v \<Rightarrow> if v \<noteq> 0 then (v, g)
                         else (let (r, g') = Math_random g in ((r - 0.5) * 2, g'))
             | None \<Rightarrow> (let (r, g') = Math_random g in ((r - 0.5) * 2, g')))"
  have "rnd_stream g1 = rnd_stream g"
    by (simp add: g1_def case_prod_unfold Let_def split: option.splits)
  with assms have "validRandom g1"
    by (rule validRandom_stream)
  then have "snd (snd (fst (Asteroid_setupSizeProperties (ao_size options) g1)))
           \<in> (if ao_size options = Small then {0} else {2, 3})"
    by (rule setupSizeProperties_splitCount)
  moreover have "ast_splitCount (fst (Asteroid_new options g))
      = snd (snd (fst (Asteroid_setupSizeProperties (ao_size options) g1)))"
    by (simp add: Asteroid_new_def g1_def case_prod_unfold Let_def)
  ultimately show ?thesis
    by simp
qed

lemma Asteroid_fragment_stream [simp]:
  "rnd_stream (snd (Asteroid_fragment a nextSize i g)) = rnd_stream g"
  by (simp add: Asteroid_fragment_def case_prod_unfold Let_def)

lemma Asteroid_fragment_fragmentOf:
  assumes "validRandom g"
  shows "fragmentOf a (fst (Asteroid_fragment a (if ast_size a = Large then Medium_size else Small) i g))"
proof -
  let ?f = "fst (Asteroid_fragment a (if ast_size a = Large then Medium_size else Small) i g)"
  let ?g1 = "snd (Math_random g)"
  define angle where "angle = (real i / of_int (ast_splitCount a)) * pi * 2 + fst (Math_random g) * 0.5"
  define speed where "speed = 50 + fst (Math_random ?g1) * 100"
  have "validRandom ?g1"
    using assms by (rule validRandom_stream) simp
  then have "0 \<le> fst (Math_random ?g1)" "fst (Math_random ?g1) < 1"
    using Math_random_range [of ?g1] by simp_all
  then have speed: "50 \<le> speed" "speed < 150"
    by (simp_all add: speed_def)
  have sz: "ast_size ?f = (if ast_size a = Large then Medium_size else Small)"
    and act: "ast_isActive ?f"
    and vel: "ast_velocity ?f = Vector2D_add (Vector2D_fromAngle angle speed)
                                  (Vector2D_multiply (ast_velocity a) 0.3)"
    and pos: "ast_position ?f = Vector2D_add (ast_position a)
                                  (Vector2D_fromAngle angle (ast_radius a * 0.3))"
    by (simp_all add: Asteroid_fragment_def case_prod_unfold Let_def Asteroid_new_fields
        angle_def speed_def)
  show ?thesis
    unfolding fragmentOf_def
    using sz act vel pos speed by blast
qed

lemma foldl_fragments:
  assumes "validRandom g" and "list_all (fragmentOf a) acc"
  shows "list_all (fragmentOf a)
           (fst (foldl (\<lambda>(fragments, gi) i.
                    (let (fragment, gj) =
                           Asteroid_fragment a (if ast_size a = Large then Medium_size else Small) i gi
                     in (fragments @ [fragment], gj)))
                  (acc, g) is))
         \<and> length (fst (foldl (\<lambda>(fragments, gi) i.
                    (let (fragment, gj) =
                           Asteroid_fragment a (if ast_size a = Large then Medium_size else Small) i gi
                     in (fragments @ [fragment], gj)))
                  (acc, g) is)) = length acc + length is"
  using assms
proof (induction "is" arbitrary: acc g)
  case Nil
  then show ?case by simp
next
  case (Cons i "is")
  let ?fr = "Asteroid_fragment a (if ast_size a = Large then Medium_size else Small) i g"
  have v: "validRandom (snd ?fr)"
    using Cons.prems(1) by (rule validRandom_stream) simp
  have acc: "list_all (fragmentOf a) (acc @ [fst ?fr])"
    using Cons.prems Asteroid_fragment_fragmentOf [of g a i] by simp
  from Cons.IH [OF v acc] show ?case
    by (simp add: case_prod_unfold Let_def)
qed

text \<open>
  For an asteroid with a non-zero split count \<^verbatim>\<open>split\<close> does what its description says.
\<close>

lemma Asteroid_split_nonzero:
  assumes "validRandom g" and "ast_splitCount a \<noteq> 0"
  shows "length (fst (Asteroid_split a g)) = nat (ast_splitCount a)"
    and "list_all (fragmentOf a) (fst (Asteroid_split a g))"
    and "fst (snd (Asteroid_split a g)) = a\<lparr>ast_isActive := False\<rparr>"
  using assms foldl_fragments [of g a "[]" "[0 ..< nat (ast_splitCount a)]"]
  by (simp_all add: Asteroid_split_def case_prod_unfold Let_def)

text \<open>
  C2, the small asteroid. The constructor gives a small asteroid the split count 0, and
  \<^verbatim>\<open>split\<close> returns at its first statement: the list of fragments is empty, and the parent
  is still active.
\<close>

theorem split_small_leaves_parent_active:
  "ast_size (fst (Asteroid_new smallOptions exampleRandom)) = Small
   \<and> ast_splitCount (fst (Asteroid_new smallOptions exampleRandom)) = 0
   \<and> ast_isActive (fst (Asteroid_new smallOptions exampleRandom))
   \<and> fst (Asteroid_split (fst (Asteroid_new smallOptions exampleRandom)) exampleRandom) = []
   \<and> ast_isActive (fst (snd (Asteroid_split (fst (Asteroid_new smallOptions exampleRandom)) exampleRandom)))"
proof -
  have v: "validRandom exampleRandom"
    by (simp add: validRandom_def exampleRandom_def)
  have sz: "ast_size (fst (Asteroid_new smallOptions exampleRandom)) = Small"
    by (simp add: Asteroid_new_fields smallOptions_def)
  have sc: "ast_splitCount (fst (Asteroid_new smallOptions exampleRandom)) = 0"
    using Asteroid_new_splitCount [OF v, of smallOptions] by (simp add: smallOptions_def)
  have act: "ast_isActive (fst (Asteroid_new smallOptions exampleRandom))"
    by (simp add: Asteroid_new_fields)
  from sz sc act show ?thesis
    by (simp add: Asteroid_split_def)
qed

section \<open>Game: the ship hits an asteroid\<close>

lemma loseLife_lives: "lives (snd (GameState_loseLife now s)) = lives s - 1"
  by (simp add: GameState_loseLife_def GameState_endGame_def Let_def)

lemma handleCollision_ship_vulnerable:
  assumes "game_ship game = Some ship"
    and "(e_ref (entityA c) = ShipRef \<and> isAsteroid (e_ref (entityB c)))
         \<or> (e_ref (entityB c) = ShipRef \<and> isAsteroid (e_ref (entityA c)))"
    and "\<not> ship_isInvulnerable ship"
  shows "gameState (Game_handleCollision now game c) = snd (GameState_loseLife now (gameState game))"
    and "game_ship (Game_handleCollision now game c) = Some (Ship_respawn ship)"
proof -
  have hit: "Ship_onCollision (if e_ref (entityA c) = ShipRef then e_ref (entityB c) else e_ref (entityA c)) ship
               = (True, Ship_respawn ship)"
    using assms(2,3) by (auto simp: Ship_onCollision_def Ship_destroy_def)
  show "gameState (Game_handleCollision now game c) = snd (GameState_loseLife now (gameState game))"
    using assms(1,2) hit by (simp add: Game_handleCollision_def Let_def case_prod_unfold)
  show "game_ship (Game_handleCollision now game c) = Some (Ship_respawn ship)"
    using assms(1,2) hit by (simp add: Game_handleCollision_def Let_def case_prod_unfold)
qed

lemma handleCollision_ship_invulnerable:
  assumes "game_ship game = Some ship"
    and "(e_ref (entityA c) = ShipRef \<and> isAsteroid (e_ref (entityB c)))
         \<or> (e_ref (entityB c) = ShipRef \<and> isAsteroid (e_ref (entityA c)))"
    and "ship_isInvulnerable ship"
  shows "Game_handleCollision now game c = game"
proof -
  have miss: "Ship_onCollision (if e_ref (entityA c) = ShipRef then e_ref (entityB c) else e_ref (entityA c)) ship
               = (False, ship)"
    using assms(3) by (simp add: Ship_onCollision_def)
  have same: "game\<lparr>game_ship := Some ship\<rparr> = game"
    using assms(1) [symmetric] by simp
  show ?thesis
    using assms(1,2) miss same by (simp add: Game_handleCollision_def Let_def case_prod_unfold)
qed

text \<open>
  A pass of \<^verbatim>\<open>handleCollisions\<close> over records that are all collisions of the ship with an
  asteroid. While the ship is invulnerable the pass changes nothing. Otherwise the first
  record costs exactly one life and respawns the ship, which is invulnerable from then on,
  so that the other records of the pass are ignored: the ship ends at the centre of its
  screen, with zero velocity, facing up, with \<^verbatim>\<open>invulnerabilityDuration\<close> on its timer.
\<close>

lemma handleCollisions_ship_invulnerable:
  assumes "game_ship game = Some ship" "ship_isInvulnerable ship"
    and "\<forall>c \<in> set cs. (e_ref (entityA c) = ShipRef \<and> isAsteroid (e_ref (entityB c)))
                       \<or> (e_ref (entityB c) = ShipRef \<and> isAsteroid (e_ref (entityA c)))"
  shows "Game_handleCollisions now cs game = game"
  using assms(3) unfolding Game_handleCollisions_def
  by (induction cs) (simp_all add: handleCollision_ship_invulnerable [OF assms(1) _ assms(2)])

lemma handleCollisions_ship_vulnerable:
  assumes "game_ship game = Some ship" "\<not> ship_isInvulnerable ship" "cs \<noteq> []"
    and "\<forall>c \<in> set cs. (e_ref (entityA c) = ShipRef \<and> isAsteroid (e_ref (entityB c)))
                       \<or> (e_ref (entityB c) = ShipRef \<and> isAsteroid (e_ref (entityA c)))"
  shows "lives (gameState (Game_handleCollisions now cs game)) = lives (gameState game) - 1"
    and "game_ship (Game_handleCollisions now cs game) = Some (Ship_respawn ship)"
proof -
  from assms(3) obtain c cs' where cs: "cs = c # cs'"
    by (cases cs) simp_all
  have c: "(e_ref (entityA c) = ShipRef \<and> isAsteroid (e_ref (entityB c)))
           \<or> (e_ref (entityB c) = ShipRef \<and> isAsteroid (e_ref (entityA c)))"
    and rest: "\<forall>c \<in> set cs'. (e_ref (entityA c) = ShipRef \<and> isAsteroid (e_ref (entityB c)))
                       \<or> (e_ref (entityB c) = ShipRef \<and> isAsteroid (e_ref (entityA c)))"
    using assms(4) by (simp_all add: cs)
  note h = handleCollision_ship_vulnerable [OF assms(1) c assms(2), of now]
  have "ship_isInvulnerable (Ship_respawn ship)"
    by (simp add: Ship_respawn_def)
  with h(2) have "Game_handleCollisions now cs' (Game_handleCollision now game c)
                    = Game_handleCollision now game c"
    using rest by (rule handleCollisions_ship_invulnerable)
  then have "Game_handleCollisions now cs game = Game_handleCollision now game c"
    by (simp add: cs Game_handleCollisions_def)
  then show "lives (gameState (Game_handleCollisions now cs game)) = lives (gameState game) - 1"
    and "game_ship (Game_handleCollisions now cs game) = Some (Ship_respawn ship)"
    by (simp_all add: h loseLife_lives)
qed

lemma Ship_respawn_fields:
  "ship_position (Ship_respawn ship) = \<lparr>vx = ship_screenWidth ship / 2, vy = ship_screenHeight ship / 2\<rparr>"
  "ship_velocity (Ship_respawn ship) = \<lparr>vx = 0, vy = 0\<rparr>"
  "ship_rotation (Ship_respawn ship) = - pi / 2"
  "ship_isInvulnerable (Ship_respawn ship)"
  "ship_invulnerabilityTimer (Ship_respawn ship) = ship_invulnerabilityDuration ship"
  "ship_invulnerabilityDuration (Ship_new px py color w h) = 2000"
  by (simp_all add: Ship_respawn_def Ship_new_def Vector2D_new_def Vector2D_zero_def)

section \<open>Collision detection: brute force against the spatial grid\<close>

lemma collidingPairs_simps [simp]:
  "collidingPairs [] = {}"
  "collidingPairs (cs @ [c]) = insert {e_ref (entityA c), e_ref (entityB c)} (collidingPairs cs)"
  by (auto simp: collidingPairs_def)

lemma wide_bruteForce:
  "detectCollisionsBruteForce [wideA, wideB] = [collisionRecord wideA wideB]"
  by (simp add: detectCollisionsBruteForce_def checkCircleCollision_def wideA_def wideB_def
      Let_def upt_rec)

lemma wide_keys: "gridKey wideA = (0, 0)" "gridKey wideB = (2, 0)"
  by (simp_all add: gridKey_def gridCellSize_def wideA_def wideB_def)

lemma wide_grid:
  "populateSpatialGrid [wideA, wideB] = [(0, 0) \<mapsto> [wideA], (2, 0) \<mapsto> [wideB]]"
  by (simp add: populateSpatialGrid_def gridInsert_def wide_keys)

lemma wide_nearby:
  "getNearbyEntities (populateSpatialGrid [wideA, wideB]) wideA = [wideA]"
  "getNearbyEntities (populateSpatialGrid [wideA, wideB]) wideB = [wideB]"
  by (simp_all add: getNearbyEntities_def wide_grid wide_keys)

lemma wide_spatial: "detectCollisionsSpatial [wideA, wideB] = []"
  by (simp add: detectCollisionsSpatial_def Let_def wide_nearby checkCandidate_def)

theorem spatial_misses_wide_pair:
  "checkCircleCollision wideA wideB
   \<and> collidingPairs (detectCollisionsBruteForce [wideA, wideB]) = {{AsteroidRef 1, AsteroidRef 2}}
   \<and> collidingPairs (detectCollisionsSpatial [wideA, wideB]) = {}
   \<and> collidingPairs (detectCollisionsBruteForce [wideA, wideB])
       \<noteq> collidingPairs (detectCollisionsSpatial [wideA, wideB])"
proof -
  have c: "checkCircleCollision wideA wideB"
    by (simp add: checkCircleCollision_def wideA_def wideB_def Let_def)
  have b: "collidingPairs (detectCollisionsBruteForce [wideA, wideB]) = {{AsteroidRef 1, AsteroidRef 2}}"
    unfolding wide_bruteForce
    by (simp add: collidingPairs_def collisionRecord_def wideA_def wideB_def)
  have s: "collidingPairs (detectCollisionsSpatial [wideA, wideB]) = {}"
    unfolding wide_spatial by simp
  from c b s show ?thesis
    by simp
qed

subsection \<open>What brute force reports\<close>

lemma bruteForce_set:
  "set (detectCollisionsBruteForce es) =
     {collisionRecord (es ! i) (es ! j) | i j.
        i < j \<and> j < length es \<and> checkCircleCollision (es ! i) (es ! j)}"
    (is "?L = ?R")
proof (rule set_eqI, rule iffI)
  fix c assume "c \<in> ?L"
  then obtain i j where "Suc i \<le> j" "j < length es" "checkCircleCollision (es ! i) (es ! j)"
    "c = collisionRecord (es ! i) (es ! j)"
    unfolding detectCollisionsBruteForce_def by (auto split: if_splits)
  moreover from this have "i < j"
    by simp
  ultimately show "c \<in> ?R"
    by blast
next
  fix c assume "c \<in> ?R"
  then obtain i j where ij: "i < j" "j < length es" "checkCircleCollision (es ! i) (es ! j)"
    and c: "c = collisionRecord (es ! i) (es ! j)"
    by blast
  define inner where "inner = (\<lambda>i. concat (map (\<lambda>j.
        if checkCircleCollision (es ! i) (es ! j)
        then [collisionRecord (es ! i) (es ! j)] else [])
       [i + 1 ..< length es]))"
  have "j \<in> set [i + 1 ..< length es]"
    using ij(1,2) by simp
  moreover have "c \<in> set (if checkCircleCollision (es ! i) (es ! j)
        then [collisionRecord (es ! i) (es ! j)] else [])"
    using ij(3) c by simp
  ultimately have "c \<in> set (inner i)"
    unfolding inner_def set_concat set_map by blast
  moreover have "i \<in> set [0 ..< length es]"
    using ij(1,2) by simp
  ultimately have "c \<in> set (concat (map inner [0 ..< length es]))"
    unfolding set_concat set_map by blast
  then show "c \<in> ?L"
    by (simp add: detectCollisionsBruteForce_def inner_def)
qed

lemma collisionRecord_pair [simp]:
  "e_ref (entityA (collisionRecord a b)) = e_ref a"
  "e_ref (entityB (collisionRecord a b)) = e_ref b"
  by (simp_all add: collisionRecord_def)

lemma bruteForce_pairs:
  "collidingPairs (detectCollisionsBruteForce es) =
     {{e_ref (es ! i), e_ref (es ! j)} | i j.
        i < j \<and> j < length es \<and> checkCircleCollision (es ! i) (es ! j)}"
    (is "?L = ?R")
proof (rule set_eqI, rule iffI)
  fix P assume "P \<in> ?L"
  then obtain c where "c \<in> set (detectCollisionsBruteForce es)"
    and P: "P = {e_ref (entityA c), e_ref (entityB c)}"
    unfolding collidingPairs_def by blast
  then obtain i j where "c = collisionRecord (es ! i) (es ! j)"
    "i < j" "j < length es" "checkCircleCollision (es ! i) (es ! j)"
    unfolding bruteForce_set by blast
  with P show "P \<in> ?R"
    by auto
next
  fix P assume "P \<in> ?R"
  then obtain i j where ij: "i < j" "j < length es" "checkCircleCollision (es ! i) (es ! j)"
    and P: "P = {e_ref (es ! i), e_ref (es ! j)}"
    by blast
  from ij have "collisionRecord (es ! i) (es ! j) \<in> set (detectCollisionsBruteForce es)"
    unfolding bruteForce_set by blast
  then have "{e_ref (entityA (collisionRecord (es ! i) (es ! j))),
              e_ref (entityB (collisionRecord (es ! i) (es ! j)))} \<in> ?L"
    unfolding collidingPairs_def by (rule imageI [where f = "\<lambda>c. {e_ref (entityA c), e_ref (entityB c)}"])
  with P show "P \<in> ?L"
    by simp
qed

lemma checkCircleCollision_sym: "checkCircleCollision a b = checkCircleCollision b a"
proof -
  have "(bounds_x (e_bounds b) - bounds_x (e_bounds a)) * (bounds_x (e_bounds b) - bounds_x (e_bounds a))
        = (bounds_x (e_bounds a) - bounds_x (e_bounds b)) * (bounds_x (e_bounds a) - bounds_x (e_bounds b))"
    and "(bounds_y (e_bounds b) - bounds_y (e_bounds a)) * (bounds_y (e_bounds b) - bounds_y (e_bounds a))
        = (bounds_y (e_bounds a) - bounds_y (e_bounds b)) * (bounds_y (e_bounds a) - bounds_y (e_bounds b))"
    by (simp_all add: algebra_simps)
  then show ?thesis
    by (simp add: checkCircleCollision_def Let_def add.commute)
qed

text \<open>For pairwise distinct objects, brute force reports every colliding pair of the list.\<close>

lemma bruteForce_pairs_distinct:
  assumes "distinct (map e_ref es)"
  shows "collidingPairs (detectCollisionsBruteForce es) =
     {{e_ref a, e_ref b} | a b.
        a \<in> set es \<and> b \<in> set es \<and> e_ref a \<noteq> e_ref b \<and> checkCircleCollision a b}"
    (is "?L = ?R")
proof (rule set_eqI, rule iffI)
  fix P assume "P \<in> ?L"
  then obtain i j where ij: "i < j" "j < length es" "checkCircleCollision (es ! i) (es ! j)"
    and P: "P = {e_ref (es ! i), e_ref (es ! j)}"
    unfolding bruteForce_pairs by blast
  have "e_ref (es ! i) \<noteq> e_ref (es ! j)"
    using assms ij(1,2) by (auto simp: distinct_conv_nth)
  moreover have "es ! i \<in> set es" "es ! j \<in> set es"
    using ij(1,2) by simp_all
  ultimately show "P \<in> ?R"
    using ij(3) P by blast
next
  fix P assume "P \<in> ?R"
  then obtain a b where ab: "a \<in> set es" "b \<in> set es" "e_ref a \<noteq> e_ref b"
    "checkCircleCollision a b" and P: "P = {e_ref a, e_ref b}"
    by blast
  from ab(1,2) obtain i j where i: "i < length es" "es ! i = a" and j: "j < length es" "es ! j = b"
    by (auto simp: in_set_conv_nth)
  have "i \<noteq> j"
    using ab(3) i(2) j(2) by auto
  then consider "i < j" | "j < i"
    by linarith
  then show "P \<in> ?L"
  proof cases
    case 1
    then show ?thesis
      unfolding bruteForce_pairs using i j ab(4) P by blast
  next
    case 2
    have "checkCircleCollision (es ! j) (es ! i)"
      using ab(4) i(2) j(2) by (simp add: checkCircleCollision_sym)
    moreover have "P = {e_ref (es ! j), e_ref (es ! i)}"
      using P i(2) j(2) by auto
    ultimately show ?thesis
      unfolding bruteForce_pairs using 2 i(1) by blast
  qed
qed

subsection \<open>The grid\<close>

lemma populateSpatialGrid_snoc:
  "populateSpatialGrid (es @ [e]) = gridInsert (populateSpatialGrid es) e"
  by (simp add: populateSpatialGrid_def)

lemma populateSpatialGrid_lookup:
  "populateSpatialGrid es k =
     (if filter (\<lambda>e. gridKey e = k) es = [] then None else Some (filter (\<lambda>e. gridKey e = k) es))"
proof (induction es rule: rev_induct)
  case Nil
  show ?case by (simp add: populateSpatialGrid_def)
next
  case (snoc e es)
  show ?case
    unfolding populateSpatialGrid_snoc gridInsert_def
    using snoc.IH by (auto split: option.splits if_splits)
qed

lemma cell_set:
  "set (case populateSpatialGrid es k of None \<Rightarrow> [] | Some cellEntities \<Rightarrow> cellEntities)
     = {e \<in> set es. gridKey e = k}"
  by (auto simp: populateSpatialGrid_lookup filter_empty_conv)

lemma getNearbyEntities_mem:
  "c \<in> set (getNearbyEntities grid e) \<longleftrightarrow>
     (\<exists>dx \<in> {-1, 0, 1}. \<exists>dy \<in> {-1, 0, 1}.
        c \<in> set (case grid (fst (gridKey e) + dx, snd (gridKey e) + dy) of
                    None \<Rightarrow> [] | Some cellEntities \<Rightarrow> cellEntities))"
  by (simp add: getNearbyEntities_def)

lemma getNearbyEntities_set:
  "set (getNearbyEntities (populateSpatialGrid es) e) =
     {c \<in> set es. \<bar>fst (gridKey c) - fst (gridKey e)\<bar> \<le> 1 \<and> \<bar>snd (gridKey c) - snd (gridKey e)\<bar> \<le> 1}"
    (is "?L = ?R")
proof (rule set_eqI, rule iffI)
  fix c assume "c \<in> ?L"
  then obtain dx dy where d: "dx \<in> {-1, 0, 1}" "dy \<in> {-1, 0, 1}"
    and "c \<in> set (case populateSpatialGrid es (fst (gridKey e) + dx, snd (gridKey e) + dy) of
                    None \<Rightarrow> [] | Some cellEntities \<Rightarrow> cellEntities)"
    unfolding getNearbyEntities_mem by blast
  then have "c \<in> set es" "gridKey c = (fst (gridKey e) + dx, snd (gridKey e) + dy)"
    unfolding cell_set by simp_all
  with d show "c \<in> ?R"
    by auto
next
  fix c assume c: "c \<in> ?R"
  define dx where "dx = fst (gridKey c) - fst (gridKey e)"
  define dy where "dy = snd (gridKey c) - snd (gridKey e)"
  have d: "dx \<in> {-1, 0, 1}" "dy \<in> {-1, 0, 1}"
    using c by (auto simp: dx_def dy_def)
  have "gridKey c = (fst (gridKey e) + dx, snd (gridKey e) + dy)"
    by (simp add: dx_def dy_def prod_eq_iff)
  with c have "c \<in> set (case populateSpatialGrid es (fst (gridKey e) + dx, snd (gridKey e) + dy) of
                    None \<Rightarrow> [] | Some cellEntities \<Rightarrow> cellEntities)"
    unfolding cell_set by simp
  with d show "c \<in> ?L"
    unfolding getNearbyEntities_mem by blast
qed

subsection \<open>Colliding entities of bounded radius are in neighbouring cells\<close>

lemma floor_close:
  fixes u v :: real
  assumes "\<bar>u - v\<bar> < 1"
  shows "\<bar>\<lfloor>u\<rfloor> - \<lfloor>v\<rfloor>\<bar> \<le> 1"
proof -
  have "of_int \<lfloor>u\<rfloor> \<le> u" "u < of_int \<lfloor>u\<rfloor> + 1" "of_int \<lfloor>v\<rfloor> \<le> v" "v < of_int \<lfloor>v\<rfloor> + 1"
    by linarith+
  with assms have "(of_int \<lfloor>u\<rfloor> :: real) < of_int \<lfloor>v\<rfloor> + 2" "(of_int \<lfloor>v\<rfloor> :: real) < of_int \<lfloor>u\<rfloor> + 2"
    by linarith+
  then have "\<lfloor>u\<rfloor> < \<lfloor>v\<rfloor> + 2" "\<lfloor>v\<rfloor> < \<lfloor>u\<rfloor> + 2"
    by linarith+
  then show ?thesis
    by linarith
qed

lemma square_bound:
  fixes d s :: real
  assumes "d * d < s * s" "\<bar>s\<bar> \<le> c"
  shows "\<bar>d\<bar> < c"
proof (rule ccontr)
  assume "\<not> \<bar>d\<bar> < c"
  then have "\<bar>s\<bar> \<le> \<bar>d\<bar>"
    using assms(2) by linarith
  then have "\<bar>s\<bar> * \<bar>s\<bar> \<le> \<bar>d\<bar> * \<bar>d\<bar>"
    by (intro mult_mono) simp_all
  then have "s * s \<le> d * d"
    by (simp add: abs_mult_self_eq)
  with assms(1) show False
    by linarith
qed

lemma colliding_neighbours:
  assumes "checkCircleCollision a b"
    and "\<bar>bounds_radius (e_bounds a) + bounds_radius (e_bounds b)\<bar> \<le> gridCellSize"
  shows "\<bar>fst (gridKey b) - fst (gridKey a)\<bar> \<le> 1 \<and> \<bar>snd (gridKey b) - snd (gridKey a)\<bar> \<le> 1"
proof -
  let ?dx = "bounds_x (e_bounds b) - bounds_x (e_bounds a)"
  let ?dy = "bounds_y (e_bounds b) - bounds_y (e_bounds a)"
  let ?s = "bounds_radius (e_bounds a) + bounds_radius (e_bounds b)"
  have lt: "?dx * ?dx + ?dy * ?dy < ?s * ?s"
    using assms(1) by (simp add: checkCircleCollision_def Let_def)
  have "0 \<le> ?dx * ?dx" "0 \<le> ?dy * ?dy"
    by simp_all
  with lt have "?dx * ?dx < ?s * ?s" "?dy * ?dy < ?s * ?s"
    by linarith+
  then have "\<bar>?dx\<bar> < 100" "\<bar>?dy\<bar> < 100"
    using assms(2) square_bound [of _ ?s 100] by (simp_all add: gridCellSize_def)
  then have "\<bar>bounds_x (e_bounds b) / 100 - bounds_x (e_bounds a) / 100\<bar> < 1"
    "\<bar>bounds_y (e_bounds b) / 100 - bounds_y (e_bounds a) / 100\<bar> < 1"
    by linarith+
  then show ?thesis
    unfolding gridKey_def gridCellSize_def fst_conv snd_conv
    by (intro conjI floor_close)
qed

subsection \<open>What the spatial scan reports\<close>

lemma pairId_cases: "pairId a b = (e_id a, e_id b) \<or> pairId a b = (e_id b, e_id a)"
  by (simp add: pairId_def)

lemma pairId_inj:
  assumes "inj_on e_id U" "a \<in> U" "b \<in> U" "e \<in> U" "c \<in> U" "pairId a b = pairId e c"
  shows "(a = e \<and> b = c) \<or> (a = c \<and> b = e)"
proof -
  have "(e_id a = e_id e \<and> e_id b = e_id c) \<or> (e_id a = e_id c \<and> e_id b = e_id e)"
    using pairId_cases [of a b] pairId_cases [of e c] assms(6) by auto
  then show ?thesis
    using assms(1-5) by (auto dest: inj_onD)
qed

lemma keysOf_insert:
  "keysOf (insert (e, c) S) = (if e_ref e \<noteq> e_ref c then insert (pairId e c) (keysOf S) else keysOf S)"
  unfolding keysOf_def by auto

lemma pairsOf_insert:
  "pairsOf (insert (e, c) S) =
     (if e_ref e \<noteq> e_ref c \<and> checkCircleCollision e c
      then insert {e_ref e, e_ref c} (pairsOf S) else pairsOf S)"
  unfolding pairsOf_def by auto

lemma pairsOf_known:
  assumes "inj_on e_id U" "S \<subseteq> U \<times> U" "e \<in> U" "c \<in> U"
    and "pairId e c \<in> keysOf S" "checkCircleCollision e c"
  shows "{e_ref e, e_ref c} \<in> pairsOf S"
proof -
  from assms(5) obtain a b where ab: "(a, b) \<in> S" "e_ref a \<noteq> e_ref b" "pairId a b = pairId e c"
    unfolding keysOf_def by auto
  then have "a \<in> U" "b \<in> U"
    using assms(2) by auto
  then consider "a = e \<and> b = c" | "a = c \<and> b = e"
    using pairId_inj [OF assms(1) _ _ assms(3,4) ab(3)] by blast
  then show ?thesis
  proof cases
    case 1
    then show ?thesis
      unfolding pairsOf_def using ab(1,2) assms(6) by blast
  next
    case 2
    then have "(c, e) \<in> S" "e_ref c \<noteq> e_ref e" "checkCircleCollision c e"
      using ab(1,2) assms(6) by (simp_all add: checkCircleCollision_sym)
    moreover have "{e_ref e, e_ref c} = {e_ref c, e_ref e}"
      by auto
    ultimately show ?thesis
      unfolding pairsOf_def by blast
  qed
qed

lemma checkCandidate_scanned:
  assumes "scanned U S st" "inj_on e_id U" "e \<in> U" "c \<in> U"
  shows "scanned U (insert (e, c) S) (checkCandidate e st c)"
proof -
  from assms(1) have S: "S \<subseteq> U \<times> U" and k: "fst st = keysOf S"
    and p: "collidingPairs (snd st) = pairsOf S"
    by (simp_all add: scanned_def)
  have sub: "insert (e, c) S \<subseteq> U \<times> U"
    using S assms(3,4) by simp
  consider (same) "e_ref e = e_ref c"
    | (seen) "e_ref e \<noteq> e_ref c" "pairId e c \<in> keysOf S"
    | (new) "e_ref e \<noteq> e_ref c" "pairId e c \<notin> keysOf S"
    by blast
  then show ?thesis
  proof cases
    case same
    then show ?thesis
      using sub k p by (simp add: scanned_def checkCandidate_def keysOf_insert pairsOf_insert)
  next
    case seen
    have "checkCircleCollision e c \<Longrightarrow> {e_ref e, e_ref c} \<in> pairsOf S"
      using pairsOf_known [OF assms(2) S assms(3,4) seen(2)] .
    then have "pairsOf (insert (e, c) S) = pairsOf S"
      by (auto simp: pairsOf_insert)
    moreover have "keysOf (insert (e, c) S) = keysOf S"
      using seen by (auto simp: keysOf_insert)
    ultimately show ?thesis
      using sub k p seen by (simp add: scanned_def checkCandidate_def)
  next
    case new
    then show ?thesis
      using sub k p by (simp add: scanned_def checkCandidate_def keysOf_insert pairsOf_insert)
  qed
qed

lemma foldl_checkCandidate_scanned:
  assumes "inj_on e_id U" "e \<in> U"
  shows "scanned U S st \<Longrightarrow> set cs \<subseteq> U \<Longrightarrow>
         scanned U (S \<union> Pair e ` set cs) (foldl (checkCandidate e) st cs)"
proof (induction cs arbitrary: S st)
  case Nil
  then show ?case by simp
next
  case (Cons c cs)
  have "scanned U (insert (e, c) S) (checkCandidate e st c)"
    using Cons.prems assms by (intro checkCandidate_scanned) simp_all
  then have "scanned U (insert (e, c) S \<union> Pair e ` set cs)
               (foldl (checkCandidate e) (checkCandidate e st c) cs)"
    using Cons.prems(2) by (intro Cons.IH) simp_all
  then show ?case
    by simp
qed

lemma foldl_entities_scanned:
  assumes "inj_on e_id U" "\<And>e. e \<in> U \<Longrightarrow> set (f e) \<subseteq> U"
  shows "scanned U S st \<Longrightarrow> set es \<subseteq> U \<Longrightarrow>
         scanned U (S \<union> (\<Union>e \<in> set es. Pair e ` set (f e)))
           (foldl (\<lambda>st entity. foldl (checkCandidate entity) st (f entity)) st es)"
proof (induction es arbitrary: S st)
  case Nil
  then show ?case by simp
next
  case (Cons e es)
  have e: "e \<in> U"
    using Cons.prems(2) by simp
  have "scanned U (S \<union> Pair e ` set (f e)) (foldl (checkCandidate e) st (f e))"
    using Cons.prems(1) assms(2) [OF e] by (intro foldl_checkCandidate_scanned assms(1) e)
  then have "scanned U (S \<union> Pair e ` set (f e) \<union> (\<Union>e \<in> set es. Pair e ` set (f e)))
               (foldl (\<lambda>st entity. foldl (checkCandidate entity) st (f entity))
                  (foldl (checkCandidate e) st (f e)) es)"
    using Cons.prems(2) by (intro Cons.IH) simp_all
  then show ?case
    by (simp add: Un_assoc)
qed

lemma spatial_pairs:
  assumes "distinct (map e_id es)"
  shows "collidingPairs (detectCollisionsSpatial es) =
     {{e_ref a, e_ref b} | a b.
        a \<in> set es \<and> b \<in> set (getNearbyEntities (populateSpatialGrid es) a)
        \<and> e_ref a \<noteq> e_ref b \<and> checkCircleCollision a b}"
proof -
  let ?f = "getNearbyEntities (populateSpatialGrid es)"
  have inj: "inj_on e_id (set es)"
    using assms by (simp add: distinct_map)
  have near: "\<And>e. e \<in> set es \<Longrightarrow> set (?f e) \<subseteq> set es"
    by (auto simp: getNearbyEntities_set)
  have "scanned (set es) {} ({}, [])"
    by (simp add: scanned_def keysOf_def pairsOf_def)
  then have "scanned (set es) ({} \<union> (\<Union>e \<in> set es. Pair e ` set (?f e)))
           (foldl (\<lambda>st entity. foldl (checkCandidate entity) st (?f entity)) ({}, []) es)"
    using inj near by (intro foldl_entities_scanned) simp_all
  then have "collidingPairs (detectCollisionsSpatial es) = pairsOf (\<Union>e \<in> set es. Pair e ` set (?f e))"
    by (simp add: scanned_def detectCollisionsSpatial_def Let_def)
  also have "\<dots> = {{e_ref a, e_ref b} | a b.
        a \<in> set es \<and> b \<in> set (?f a) \<and> e_ref a \<noteq> e_ref b \<and> checkCircleCollision a b}"
    unfolding pairsOf_def by auto
  finally show ?thesis .
qed

subsection \<open>The two strategies agree on entities of bounded radius\<close>

lemma spatial_pairs_bounded:
  assumes "distinct (map e_id es)"
    and "\<forall>a \<in> set es. \<forall>b \<in> set es. e_ref a \<noteq> e_ref b \<longrightarrow>
           \<bar>bounds_radius (e_bounds a) + bounds_radius (e_bounds b)\<bar> \<le> gridCellSize"
  shows "collidingPairs (detectCollisionsSpatial es) =
     {{e_ref a, e_ref b} | a b.
        a \<in> set es \<and> b \<in> set es \<and> e_ref a \<noteq> e_ref b \<and> checkCircleCollision a b}"
    (is "_ = ?R")
proof -
  have "{{e_ref a, e_ref b} | a b.
        a \<in> set es \<and> b \<in> set (getNearbyEntities (populateSpatialGrid es) a)
        \<and> e_ref a \<noteq> e_ref b \<and> checkCircleCollision a b} = ?R"
    (is "?L = _")
  proof (rule set_eqI, rule iffI)
    fix P assume "P \<in> ?L"
    then show "P \<in> ?R"
      unfolding getNearbyEntities_set by blast
  next
    fix P assume "P \<in> ?R"
    then obtain a b where ab: "a \<in> set es" "b \<in> set es" "e_ref a \<noteq> e_ref b"
      "checkCircleCollision a b" and P: "P = {e_ref a, e_ref b}"
      by blast
    have "\<bar>bounds_radius (e_bounds a) + bounds_radius (e_bounds b)\<bar> \<le> gridCellSize"
      using assms(2) ab(1-3) by blast
    with ab(4) have "\<bar>fst (gridKey b) - fst (gridKey a)\<bar> \<le> 1 \<and> \<bar>snd (gridKey b) - snd (gridKey a)\<bar> \<le> 1"
      by (rule colliding_neighbours)
    with ab(2) have "b \<in> set (getNearbyEntities (populateSpatialGrid es) a)"
      unfolding getNearbyEntities_set by simp
    with ab P show "P \<in> ?L"
      by blast
  qed
  with spatial_pairs [OF assms(1)] show ?thesis
    by simp
qed

text \<open>
  C1, as amended. Let the entities of a list be pairwise different objects with pairwise
  different ids (at most one of them without an id), and let the radii of any two of them
  sum up to at most the cell size 100 in absolute value. Then the spatial-grid strategy
  and the brute-force strategy report the same set of unordered colliding pairs, and so
  \<^verbatim>\<open>detectCollisions\<close> reports the set that brute force reports for the active entities,
  whichever strategy it dispatches to.
\<close>

theorem spatial_agrees_with_bruteForce:
  assumes "distinct (map e_ref es)"
    and "distinct (map e_id es)"
    and "\<forall>a \<in> set es. \<forall>b \<in> set es. e_ref a \<noteq> e_ref b \<longrightarrow>
           \<bar>bounds_radius (e_bounds a) + bounds_radius (e_bounds b)\<bar> \<le> gridCellSize"
  shows "collidingPairs (detectCollisionsSpatial es) = collidingPairs (detectCollisionsBruteForce es)
       \<and> collidingPairs (detectCollisions es)
           = collidingPairs (detectCollisionsBruteForce (filter (\<lambda>entity. e_isActive entity \<noteq> Some False) es))"
proof
  show "collidingPairs (detectCollisionsSpatial es) = collidingPairs (detectCollisionsBruteForce es)"
    using spatial_pairs_bounded [OF assms(2,3)] bruteForce_pairs_distinct [OF assms(1)] by simp
next
  let ?act = "filter (\<lambda>entity. e_isActive entity \<noteq> Some False) es"
  have 1: "distinct (map e_ref ?act)" and 2: "distinct (map e_id ?act)"
    using assms(1,2) by (simp_all add: distinct_map_filter)
  have 3: "\<forall>a \<in> set ?act. \<forall>b \<in> set ?act. e_ref a \<noteq> e_ref b \<longrightarrow>
           \<bar>bounds_radius (e_bounds a) + bounds_radius (e_bounds b)\<bar> \<le> gridCellSize"
    using assms(3) by simp
  have "collidingPairs (detectCollisionsSpatial ?act) = collidingPairs (detectCollisionsBruteForce ?act)"
    using spatial_pairs_bounded [OF 2 3] bruteForce_pairs_distinct [OF 1] by simp
  then show "collidingPairs (detectCollisions es) = collidingPairs (detectCollisionsBruteForce ?act)"
    by (simp add: detectCollisions_def Let_def)
qed

theorem spatial_agrees_with_bruteForce_witness:
  "distinct (map e_ref [exampleA, exampleB, exampleShipEntity])
   \<and> distinct (map e_id [exampleA, exampleB, exampleShipEntity])
   \<and> list_all (\<lambda>a. list_all (\<lambda>b. e_ref a = e_ref b
          \<or> \<bar>bounds_radius (e_bounds a) + bounds_radius (e_bounds b)\<bar> \<le> gridCellSize)
        [exampleA, exampleB, exampleShipEntity]) [exampleA, exampleB, exampleShipEntity]
   \<and> collidingPairs (detectCollisionsBruteForce [exampleA, exampleB, exampleShipEntity])
       = {{AsteroidRef 1, ProjectileRef 2}}
   \<and> collidingPairs (detectCollisionsSpatial [exampleA, exampleB, exampleShipEntity])
       = {{AsteroidRef 1, ProjectileRef 2}}"
proof -
  let ?es = "[exampleA, exampleB, exampleShipEntity]"
  have h1: "distinct (map e_ref ?es)" and h2: "distinct (map e_id ?es)"
    by (simp_all add: exampleA_def exampleB_def exampleShipEntity_def)
  have h3: "list_all (\<lambda>a. list_all (\<lambda>b. e_ref a = e_ref b
          \<or> \<bar>bounds_radius (e_bounds a) + bounds_radius (e_bounds b)\<bar> \<le> gridCellSize) ?es) ?es"
    by (simp add: exampleA_def exampleB_def exampleShipEntity_def gridCellSize_def
        Ship_getBounds_def exampleShip_def Ship_new_def)
  then have h3': "\<forall>a \<in> set ?es. \<forall>b \<in> set ?es. e_ref a \<noteq> e_ref b \<longrightarrow>
           \<bar>bounds_radius (e_bounds a) + bounds_radius (e_bounds b)\<bar> \<le> gridCellSize"
    by (simp add: list_all_iff) blast
  have b: "collidingPairs (detectCollisionsBruteForce ?es) = {{AsteroidRef 1, ProjectileRef 2}}"
    by (simp add: detectCollisionsBruteForce_def checkCircleCollision_def collidingPairs_def
        collisionRecord_def exampleA_def exampleB_def exampleShipEntity_def Let_def upt_rec
        Ship_getBounds_def exampleShip_def Ship_new_def Vector2D_new_def orElse_def)
  from spatial_agrees_with_bruteForce [OF h1 h2 h3'] b
  have "collidingPairs (detectCollisionsSpatial ?es) = {{AsteroidRef 1, ProjectileRef 2}}"
    by simp
  with h1 h2 h3 b show ?thesis
    by (intro conjI)
qed

section \<open>Level completion\<close>

subsection \<open>Where an asteroid is placed\<close>

lemma candidate_shift: "candidate stream (n + 2) w h k = candidate stream n w h (Suc k)"
  by (simp add: candidate_def)

lemma spawnPosition_unfold:
  "spawnPosition playerPosition w h safeDistance attempts g =
     (if Vector2D_distanceTo (candidate (rnd_stream g) (rnd_index g) w h 0) playerPosition < safeDistance
         \<and> attempts + 1 < 50
      then spawnPosition playerPosition w h safeDistance (attempts + 1) (g\<lparr>rnd_index := rnd_index g + 2\<rparr>)
      else (candidate (rnd_stream g) (rnd_index g) w h 0, g\<lparr>rnd_index := rnd_index g + 2\<rparr>))"
  by (subst spawnPosition.simps) (simp add: candidate_def Math_random_def Let_def)

lemma spawnPosition_result:
  "attempts \<le> 49 \<Longrightarrow>
   rnd_stream (snd (spawnPosition playerPosition w h safeDistance attempts g)) = rnd_stream g
   \<and> (\<exists>k \<le> 49 - attempts.
         fst (spawnPosition playerPosition w h safeDistance attempts g)
           = candidate (rnd_stream g) (rnd_index g) w h k
         \<and> (safeDistance \<le> Vector2D_distanceTo
                (fst (spawnPosition playerPosition w h safeDistance attempts g)) playerPosition
            \<or> (k = 49 - attempts
               \<and> (\<forall>j \<le> k. Vector2D_distanceTo (candidate (rnd_stream g) (rnd_index g) w h j)
                               playerPosition < safeDistance))))"
proof (induction "49 - attempts" arbitrary: attempts g)
  case 0
  then have a: "attempts = 49"
    by simp
  show ?case
    unfolding a by (subst (1 2 3) spawnPosition_unfold) auto
next
  case (Suc m)
  let ?c0 = "candidate (rnd_stream g) (rnd_index g) w h 0"
  let ?g2 = "g\<lparr>rnd_index := rnd_index g + 2\<rparr>"
  have lt: "attempts + 1 < 50" and m: "m = 49 - (attempts + 1)" and le: "attempts + 1 \<le> 49"
    using Suc.hyps(2) by simp_all
  show ?case
  proof (cases "Vector2D_distanceTo ?c0 playerPosition < safeDistance")
    case False
    then have "spawnPosition playerPosition w h safeDistance attempts g = (?c0, ?g2)"
      by (subst spawnPosition_unfold) simp
    with False show ?thesis
      by auto
  next
    case True
    then have eq: "spawnPosition playerPosition w h safeDistance attempts g
                 = spawnPosition playerPosition w h safeDistance (attempts + 1) ?g2"
      using lt by (subst spawnPosition_unfold) simp
    from Suc.hyps(1) [OF m le, of ?g2]
    obtain k where k: "k \<le> 49 - (attempts + 1)"
      and st: "rnd_stream (snd (spawnPosition playerPosition w h safeDistance (attempts + 1) ?g2)) = rnd_stream g"
      and pos: "fst (spawnPosition playerPosition w h safeDistance (attempts + 1) ?g2)
                  = candidate (rnd_stream g) (rnd_index g + 2) w h k"
      and alt: "safeDistance \<le> Vector2D_distanceTo
                (fst (spawnPosition playerPosition w h safeDistance (attempts + 1) ?g2)) playerPosition
            \<or> (k = 49 - (attempts + 1)
               \<and> (\<forall>j \<le> k. Vector2D_distanceTo (candidate (rnd_stream g) (rnd_index g + 2) w h j)
                               playerPosition < safeDistance))"
      by auto
    have all: "\<forall>j \<le> k. Vector2D_distanceTo (candidate (rnd_stream g) (rnd_index g + 2) w h j)
                               playerPosition < safeDistance
               \<Longrightarrow> \<forall>j \<le> Suc k. Vector2D_distanceTo (candidate (rnd_stream g) (rnd_index g) w h j)
                               playerPosition < safeDistance"
    proof (intro allI impI)
      fix j
      assume h: "\<forall>j \<le> k. Vector2D_distanceTo (candidate (rnd_stream g) (rnd_index g + 2) w h j)
                               playerPosition < safeDistance" and j: "j \<le> Suc k"
      show "Vector2D_distanceTo (candidate (rnd_stream g) (rnd_index g) w h j) playerPosition < safeDistance"
      proof (cases j)
        case 0
        with True show ?thesis by simp
      next
        case (Suc i)
        with h j have "Vector2D_distanceTo (candidate (rnd_stream g) (rnd_index g + 2) w h i)
                               playerPosition < safeDistance"
          by auto
        then show ?thesis
          unfolding Suc candidate_shift .
      qed
    qed
    have "Suc k \<le> 49 - attempts"
      using k lt by simp
    moreover have "fst (spawnPosition playerPosition w h safeDistance attempts g)
                     = candidate (rnd_stream g) (rnd_index g) w h (Suc k)"
      unfolding eq pos by (rule candidate_shift)
    moreover have "safeDistance \<le> Vector2D_distanceTo
                (fst (spawnPosition playerPosition w h safeDistance attempts g)) playerPosition
            \<or> (Suc k = 49 - attempts
               \<and> (\<forall>j \<le> Suc k. Vector2D_distanceTo (candidate (rnd_stream g) (rnd_index g) w h j)
                               playerPosition < safeDistance))"
      using alt all lt unfolding eq by auto
    ultimately show ?thesis
      using st unfolding eq by blast
  qed
qed

lemma spawnPosition_stream:
  "rnd_stream (snd (spawnPosition playerPosition w h safeDistance 0 g)) = rnd_stream g"
proof -
  have "(0::nat) \<le> 49" by simp
  from spawnPosition_result [OF this] show ?thesis
    by (rule conjunct1)
qed

lemma spawnPosition_first:
  obtains k where "k \<le> 49"
    and "fst (spawnPosition playerPosition w h safeDistance 0 g)
           = candidate (rnd_stream g) (rnd_index g) w h k"
    and "safeDistance \<le> Vector2D_distanceTo
                (fst (spawnPosition playerPosition w h safeDistance 0 g)) playerPosition
         \<or> (k = 49
            \<and> (\<forall>j < 50. Vector2D_distanceTo (candidate (rnd_stream g) (rnd_index g) w h j)
                               playerPosition < safeDistance))"
proof -
  have "(0::nat) \<le> 49" by simp
  from spawnPosition_result [OF this, of playerPosition w h safeDistance g, THEN conjunct2]
  obtain k where k: "k \<le> 49 - 0"
    and p: "fst (spawnPosition playerPosition w h safeDistance 0 g)
           = candidate (rnd_stream g) (rnd_index g) w h k"
    and alt: "safeDistance \<le> Vector2D_distanceTo
                (fst (spawnPosition playerPosition w h safeDistance 0 g)) playerPosition
         \<or> (k = 49 - 0
            \<and> (\<forall>j \<le> k. Vector2D_distanceTo (candidate (rnd_stream g) (rnd_index g) w h j)
                               playerPosition < safeDistance))"
    by blast
  have "k = 49 - 0 \<Longrightarrow> \<forall>j \<le> k. Vector2D_distanceTo (candidate (rnd_stream g) (rnd_index g) w h j)
                               playerPosition < safeDistance
        \<Longrightarrow> \<forall>j < 50. Vector2D_distanceTo (candidate (rnd_stream g) (rnd_index g) w h j)
                               playerPosition < safeDistance"
    by simp
  with alt have "safeDistance \<le> Vector2D_distanceTo
                (fst (spawnPosition playerPosition w h safeDistance 0 g)) playerPosition
         \<or> (k = 49
            \<and> (\<forall>j < 50. Vector2D_distanceTo (candidate (rnd_stream g) (rnd_index g) w h j)
                               playerPosition < safeDistance))"
    by auto
  with k p show ?thesis
    by (intro that [of k]) simp_all
qed

lemma createRandom_stream [simp]:
  "rnd_stream (snd (Asteroid_createRandom playerPosition sz w h safeDistance g)) = rnd_stream g"
  by (simp add: Asteroid_createRandom_def case_prod_unfold Let_def spawnPosition_stream)

lemma createRandom_position:
  "ast_position (fst (Asteroid_createRandom playerPosition sz w h safeDistance g))
     = fst (spawnPosition playerPosition w h safeDistance 0 g)"
  by (simp add: Asteroid_createRandom_def case_prod_unfold Let_def Asteroid_new_fields)

lemma createRandom_candidate:
  "\<exists>k \<le> 49. ast_position (fst (Asteroid_createRandom playerPosition sz w h safeDistance g))
              = candidate (rnd_stream g) (rnd_index g) w h k"
  unfolding createRandom_position
  by (rule spawnPosition_first [of playerPosition w h safeDistance g]) blast

lemma createRandom_safelyPlaced:
  "safelyPlaced (rnd_stream g) playerPosition w h safeDistance
     (fst (Asteroid_createRandom playerPosition sz w h safeDistance g))"
proof (rule spawnPosition_first [of playerPosition w h safeDistance g])
  fix k
  assume k: "k \<le> 49"
    and p: "fst (spawnPosition playerPosition w h safeDistance 0 g)
           = candidate (rnd_stream g) (rnd_index g) w h k"
    and alt: "safeDistance \<le> Vector2D_distanceTo
                (fst (spawnPosition playerPosition w h safeDistance 0 g)) playerPosition
         \<or> (k = 49
            \<and> (\<forall>j < 50. Vector2D_distanceTo (candidate (rnd_stream g) (rnd_index g) w h j)
                               playerPosition < safeDistance))"
  from k have "k < 50"
    by simp
  with p alt show ?thesis
    unfolding safelyPlaced_def createRandom_position by blast
qed

lemma safelyPlaced_stream:
  "stream' = stream \<Longrightarrow> safelyPlaced stream' pp w h d a = safelyPlaced stream pp w h d a"
  by simp

lemma foldl_createRandom:
  assumes "list_all (safelyPlaced (rnd_stream g) pp w h d) acc"
  shows "list_all (safelyPlaced (rnd_stream g) pp w h d)
           (fst (foldl (\<lambda>(asteroids, gi) i.
                   (let sz = sizes ! (i mod length sizes);
                        (asteroid, gj) = Asteroid_createRandom pp sz w h d gi
                    in (asteroids @ [asteroid], gj)))
                 (acc, g) js))
         \<and> length (fst (foldl (\<lambda>(asteroids, gi) i.
                   (let sz = sizes ! (i mod length sizes);
                        (asteroid, gj) = Asteroid_createRandom pp sz w h d gi
                    in (asteroids @ [asteroid], gj)))
                 (acc, g) js)) = length acc + length js
         \<and> rnd_stream (snd (foldl (\<lambda>(asteroids, gi) i.
                   (let sz = sizes ! (i mod length sizes);
                        (asteroid, gj) = Asteroid_createRandom pp sz w h d gi
                    in (asteroids @ [asteroid], gj)))
                 (acc, g) js)) = rnd_stream g"
  using assms
proof (induction js arbitrary: acc g)
  case Nil
  then show ?case by simp
next
  case (Cons i js)
  let ?cr = "Asteroid_createRandom pp (sizes ! (i mod length sizes)) w h d g"
  have st: "rnd_stream (snd ?cr) = rnd_stream g"
    by simp
  have "list_all (safelyPlaced (rnd_stream g) pp w h d) (acc @ [fst ?cr])"
    using Cons.prems createRandom_safelyPlaced [of g pp w h d] by simp
  then have acc: "list_all (safelyPlaced (rnd_stream (snd ?cr)) pp w h d) (acc @ [fst ?cr])"
    unfolding st .
  from Cons.IH [OF acc] show ?case
    unfolding st by (simp add: case_prod_unfold Let_def)
qed

lemma createField_placed:
  "list_all (safelyPlaced (rnd_stream g) playerPosition w h 120)
     (fst (Asteroid_createField count playerPosition d w h g))"
  "length (fst (Asteroid_createField count playerPosition d w h g)) = nat count"
  "rnd_stream (snd (Asteroid_createField count playerPosition d w h g)) = rnd_stream g"
  using foldl_createRandom [where g = g and pp = playerPosition and w = w and h = h and d = 120
      and acc = "[]" and sizes = "sizeDistribution d" and js = "[0 ..< nat count]"]
  by (simp_all add: Asteroid_createField_def Let_def)

subsection \<open>Registering the field\<close>

lemma registerAsteroid_fields:
  "asteroids (registerAsteroid em a) = asteroids em @ [nextRef em]"
  "nextRef (registerAsteroid em a) = nextRef em + 1"
  "asteroidObj (registerAsteroid em a) = (asteroidObj em)(nextRef em := a\<lparr>ast_id := Some (nextEntityId em)\<rparr>)"
  "random (registerAsteroid em a) = random em"
  "em_screenWidth (registerAsteroid em a) = em_screenWidth em"
  "em_screenHeight (registerAsteroid em a) = em_screenHeight em"
  by (simp_all add: registerAsteroid_def)

lemma foldl_registerAsteroid:
  "asteroids (foldl registerAsteroid em as) = asteroids em @ [nextRef em ..< nextRef em + length as]
   \<and> nextRef (foldl registerAsteroid em as) = nextRef em + length as
   \<and> (\<forall>r < nextRef em. asteroidObj (foldl registerAsteroid em as) r = asteroidObj em r)
   \<and> (\<forall>i < length as. ast_position (asteroidObj (foldl registerAsteroid em as) (nextRef em + i))
                          = ast_position (as ! i))"
proof (induction as arbitrary: em)
  case Nil
  show ?case by simp
next
  case (Cons a as)
  let ?em1 = "registerAsteroid em a"
  let ?em' = "foldl registerAsteroid ?em1 as"
  from Cons.IH [of ?em1]
  have IH1: "asteroids ?em' = asteroids ?em1 @ [nextRef ?em1 ..< nextRef ?em1 + length as]"
    and IH2: "nextRef ?em' = nextRef ?em1 + length as"
    and IH3: "\<forall>r < nextRef ?em1. asteroidObj ?em' r = asteroidObj ?em1 r"
    and IH4: "\<forall>i < length as. ast_position (asteroidObj ?em' (nextRef ?em1 + i)) = ast_position (as ! i)"
    by blast+
  have "[nextRef em ..< nextRef em + length (a # as)]
          = nextRef em # [Suc (nextRef em) ..< nextRef em + length (a # as)]"
    by (rule upt_conv_Cons) simp
  then have l: "asteroids ?em' = asteroids em @ [nextRef em ..< nextRef em + length (a # as)]"
    unfolding IH1 registerAsteroid_fields by (simp del: upt_Suc)
  have n: "nextRef ?em' = nextRef em + length (a # as)"
    unfolding IH2 registerAsteroid_fields by simp
  have old: "\<forall>r < nextRef em. asteroidObj ?em' r = asteroidObj em r"
    using IH3 by (simp add: registerAsteroid_fields)
  have new: "\<forall>i < length (a # as). ast_position (asteroidObj ?em' (nextRef em + i))
                          = ast_position ((a # as) ! i)"
  proof (intro allI impI)
    fix i assume i: "i < length (a # as)"
    show "ast_position (asteroidObj ?em' (nextRef em + i)) = ast_position ((a # as) ! i)"
    proof (cases i)
      case 0
      have "asteroidObj ?em' (nextRef em) = asteroidObj ?em1 (nextRef em)"
        using IH3 by (simp add: registerAsteroid_fields)
      then show ?thesis
        using 0 by (simp add: registerAsteroid_fields)
    next
      case (Suc j)
      then have "j < length as"
        using i by simp
      then have "ast_position (asteroidObj ?em' (nextRef ?em1 + j)) = ast_position (as ! j)"
        using IH4 by blast
      then show ?thesis
        using Suc by (simp add: registerAsteroid_fields)
    qed
  qed
  from l n old new show ?case
    by simp
qed

lemma createAsteroidField_result:
  "asteroids (EntityManager_createAsteroidField count playerPosition d em)
     = asteroids em @ [nextRef em ..< nextRef em + nat count]"
  "\<forall>r \<in> set [nextRef em ..< nextRef em + nat count].
     safelyPlaced (rnd_stream (random em)) playerPosition (em_screenWidth em) (em_screenHeight em) 120
       (asteroidObj (EntityManager_createAsteroidField count playerPosition d em) r)"
proof -
  let ?cf = "Asteroid_createField count playerPosition d (em_screenWidth em) (em_screenHeight em) (random em)"
  let ?em' = "foldl registerAsteroid (em\<lparr>random := snd ?cf\<rparr>) (fst ?cf)"
  have em': "EntityManager_createAsteroidField count playerPosition d em = ?em'"
    by (simp add: EntityManager_createAsteroidField_def case_prod_unfold Let_def)
  note f = foldl_registerAsteroid [of "em\<lparr>random := snd ?cf\<rparr>" "fst ?cf"]
  note p = createField_placed [where g = "random em" and playerPosition = playerPosition
      and w = "em_screenWidth em" and h = "em_screenHeight em" and count = count and d = d]
  show "asteroids (EntityManager_createAsteroidField count playerPosition d em)
     = asteroids em @ [nextRef em ..< nextRef em + nat count]"
    unfolding em' using f p(2) by simp
  show "\<forall>r \<in> set [nextRef em ..< nextRef em + nat count].
     safelyPlaced (rnd_stream (random em)) playerPosition (em_screenWidth em) (em_screenHeight em) 120
       (asteroidObj (EntityManager_createAsteroidField count playerPosition d em) r)"
  proof
    fix r assume "r \<in> set [nextRef em ..< nextRef em + nat count]"
    then have "r - nextRef em < nat count" "r = nextRef em + (r - nextRef em)"
      by auto
    then obtain i where i: "i < nat count" and r: "r = nextRef em + i"
      by blast
    then have "i < length (fst ?cf)"
      using p(2) by simp
    then have pos: "ast_position (asteroidObj ?em' r) = ast_position (fst ?cf ! i)"
      using f r by simp
    have "safelyPlaced (rnd_stream (random em)) playerPosition (em_screenWidth em) (em_screenHeight em) 120
            (fst ?cf ! i)"
      using p(1) \<open>i < length (fst ?cf)\<close> by (simp add: list_all_length)
    then show "safelyPlaced (rnd_stream (random em)) playerPosition (em_screenWidth em) (em_screenHeight em) 120
       (asteroidObj (EntityManager_createAsteroidField count playerPosition d em) r)"
      unfolding em' safelyPlaced_def pos .
  qed
qed

subsection \<open>A frame without asteroids\<close>

lemma checkCandidate_entities:
  assumes "list_all (\<lambda>r. entityA r \<in> U \<and> entityB r \<in> U) (snd st)" "e \<in> U" "c \<in> U"
  shows "list_all (\<lambda>r. entityA r \<in> U \<and> entityB r \<in> U) (snd (checkCandidate e st c))"
  using assms by (simp add: checkCandidate_def collisionRecord_def)

lemma foldl_checkCandidate_entities:
  assumes "e \<in> U"
  shows "list_all (\<lambda>r. entityA r \<in> U \<and> entityB r \<in> U) (snd st) \<Longrightarrow> set cs \<subseteq> U \<Longrightarrow>
         list_all (\<lambda>r. entityA r \<in> U \<and> entityB r \<in> U) (snd (foldl (checkCandidate e) st cs))"
proof (induction cs arbitrary: st)
  case Nil
  then show ?case by simp
next
  case (Cons c cs)
  have "list_all (\<lambda>r. entityA r \<in> U \<and> entityB r \<in> U) (snd (checkCandidate e st c))"
    using Cons.prems assms by (intro checkCandidate_entities) simp_all
  then show ?case
    using Cons.prems(2) Cons.IH by simp
qed

lemma foldl_entities_entities:
  assumes "\<And>e. e \<in> U \<Longrightarrow> set (f e) \<subseteq> U"
  shows "list_all (\<lambda>r. entityA r \<in> U \<and> entityB r \<in> U) (snd st) \<Longrightarrow> set es \<subseteq> U \<Longrightarrow>
         list_all (\<lambda>r. entityA r \<in> U \<and> entityB r \<in> U)
           (snd (foldl (\<lambda>st entity. foldl (checkCandidate entity) st (f entity)) st es))"
proof (induction es arbitrary: st)
  case Nil
  then show ?case by simp
next
  case (Cons e es)
  have e: "e \<in> U"
    using Cons.prems(2) by simp
  have "list_all (\<lambda>r. entityA r \<in> U \<and> entityB r \<in> U) (snd (foldl (checkCandidate e) st (f e)))"
    using Cons.prems(1) assms [OF e] by (intro foldl_checkCandidate_entities e)
  then show ?case
    using Cons.prems(2) Cons.IH by simp
qed

lemma spatial_entities:
  assumes "c \<in> set (detectCollisionsSpatial es)"
  shows "entityA c \<in> set es \<and> entityB c \<in> set es"
proof -
  have "\<And>e. e \<in> set es \<Longrightarrow> set (getNearbyEntities (populateSpatialGrid es) e) \<subseteq> set es"
    by (auto simp: getNearbyEntities_set)
  then have "list_all (\<lambda>r. entityA r \<in> set es \<and> entityB r \<in> set es) (detectCollisionsSpatial es)"
    unfolding detectCollisionsSpatial_def Let_def
    by (intro foldl_entities_entities) simp_all
  with assms show ?thesis
    by (simp add: list_all_iff)
qed

lemma bruteForce_entities:
  assumes "c \<in> set (detectCollisionsBruteForce es)"
  shows "entityA c \<in> set es \<and> entityB c \<in> set es"
proof -
  from assms obtain i j where "i < j" "j < length es" "c = collisionRecord (es ! i) (es ! j)"
    unfolding bruteForce_set by blast
  then show ?thesis
    by (simp add: collisionRecord_def)
qed

lemma detectCollisions_entities:
  assumes "c \<in> set (detectCollisions es)"
  shows "entityA c \<in> set es \<and> entityB c \<in> set es"
proof -
  let ?act = "filter (\<lambda>entity. e_isActive entity \<noteq> Some False) es"
  have "entityA c \<in> set ?act \<and> entityB c \<in> set ?act"
    using assms spatial_entities [of c ?act] bruteForce_entities [of c ?act]
    by (simp add: detectCollisions_def Let_def split: if_splits)
  then show ?thesis
    by simp
qed

lemma handleCollision_other:
  assumes "\<not> isAsteroid (e_ref (entityA c))" "\<not> isAsteroid (e_ref (entityB c))"
  shows "Game_handleCollision now game c = game"
  using assms by (simp add: Game_handleCollision_def Let_def)

lemma handleCollisions_other:
  assumes "\<forall>c \<in> set cs. \<not> isAsteroid (e_ref (entityA c)) \<and> \<not> isAsteroid (e_ref (entityB c))"
  shows "Game_handleCollisions now cs game = game"
  using assms unfolding Game_handleCollisions_def
  by (induction cs) (simp_all add: handleCollision_other)

lemma entityOf_ref: "entityOf game r = Some e \<Longrightarrow> e_ref e = r"
  by (cases r) (auto split: option.splits)

lemma map_filter_entityOf_refs:
  "e \<in> set (List.map_filter (entityOf game) refs) \<Longrightarrow> e_ref e \<in> set refs"
  by (auto simp: List.map_filter_def dest: entityOf_ref)

lemma handleInputActions_other:
  assumes "TogglePause \<notin> set actions" "Escape \<notin> set actions"
  shows "Game_handleInputActions actions gs = gs"
  using assms unfolding Game_handleInputActions_def
proof (induction actions)
  case Nil
  show ?case by simp
next
  case (Cons a actions)
  then have "Game_handleInputAction gs a = gs"
    by (cases a) simp_all
  with Cons show ?case
    by simp
qed

lemma processInput_result:
  assumes "\<not> in_pause input" "\<not> in_escape input"
    and "InputManager_processInput input ship gs deltaTime currentTime = (actions, newProjectile, ship1)"
  shows "TogglePause \<notin> set actions" "Escape \<notin> set actions" "(ship1 = None) = (ship = None)"
  using assms
  by (auto simp: InputManager_processInput_def Let_def case_prod_unfold
      split: if_splits option.splits)

lemma foldl_update_inactive:
  assumes "\<forall>r \<in> set rs. \<not> active (obj r)"
  shows "foldl (\<lambda>obj r. if active (obj r) then obj(r := upd (obj r)) else obj) obj rs = obj"
  using assms by (induction rs) simp_all

lemma cleanup_fields:
  "asteroids (EntityManager_cleanupInactiveEntities em)
     = filter (\<lambda>r. ast_isActive (asteroidObj em r)) (asteroids em)"
  "asteroidObj (EntityManager_cleanupInactiveEntities em) = asteroidObj em"
  "random (EntityManager_cleanupInactiveEntities em) = random em"
  "nextRef (EntityManager_cleanupInactiveEntities em) = nextRef em"
  "em_screenWidth (EntityManager_cleanupInactiveEntities em) = em_screenWidth em"
  "em_screenHeight (EntityManager_cleanupInactiveEntities em) = em_screenHeight em"
  by (simp_all add: EntityManager_cleanupInactiveEntities_def Let_def case_prod_unfold)

lemma update_without_asteroids:
  assumes "\<forall>r \<in> set (asteroids em). \<not> ast_isActive (asteroidObj em r)"
  shows "asteroids (EntityManager_update deltaTime em) = []"
    and "random (EntityManager_update deltaTime em) = random em"
    and "em_screenWidth (EntityManager_update deltaTime em) = em_screenWidth em"
    and "em_screenHeight (EntityManager_update deltaTime em) = em_screenHeight em"
proof -
  have obj: "foldl (\<lambda>obj r. if ast_isActive (obj r)
                                  then obj(r := Asteroid_update deltaTime (obj r)) else obj)
                    (asteroidObj em) (asteroids em) = asteroidObj em"
    using assms by (rule foldl_update_inactive)
  have "filter (\<lambda>r. ast_isActive (asteroidObj em r)) (asteroids em) = []"
    using assms by (simp add: filter_empty_conv)
  then show "asteroids (EntityManager_update deltaTime em) = []"
    by (simp add: EntityManager_update_def Let_def cleanup_fields obj)
  show "random (EntityManager_update deltaTime em) = random em"
    and "em_screenWidth (EntityManager_update deltaTime em) = em_screenWidth em"
    and "em_screenHeight (EntityManager_update deltaTime em) = em_screenHeight em"
    by (simp_all add: EntityManager_update_def Let_def cleanup_fields)
qed

lemma createProjectile_asteroids:
  "asteroids (snd (EntityManager_createProjectile options em)) = asteroids em"
  "asteroidObj (snd (EntityManager_createProjectile options em)) = asteroidObj em"
  "random (snd (EntityManager_createProjectile options em)) = random em"
  "em_screenWidth (snd (EntityManager_createProjectile options em)) = em_screenWidth em"
  "em_screenHeight (snd (EntityManager_createProjectile options em)) = em_screenHeight em"
  by (simp_all add: EntityManager_createProjectile_def Let_def)

lemma updateEntity_fields:
  assumes "\<not> isAsteroid r"
  shows "gameState (PhysicsEngine_updateEntity deltaTime game r) = gameState game"
    and "asteroids (entityManager (PhysicsEngine_updateEntity deltaTime game r))
           = asteroids (entityManager game)"
    and "random (entityManager (PhysicsEngine_updateEntity deltaTime game r))
           = random (entityManager game)"
    and "em_screenWidth (entityManager (PhysicsEngine_updateEntity deltaTime game r))
           = em_screenWidth (entityManager game)"
    and "em_screenHeight (entityManager (PhysicsEngine_updateEntity deltaTime game r))
           = em_screenHeight (entityManager game)"
    and "selectedDifficulty (PhysicsEngine_updateEntity deltaTime game r) = selectedDifficulty game"
    and "(game_ship (PhysicsEngine_updateEntity deltaTime game r) = None) = (game_ship game = None)"
  using assms by (cases r; simp add: Let_def split: option.splits)+

lemma updateEntities_fields:
  assumes "\<forall>r \<in> set refs. \<not> isAsteroid r"
  shows "gameState (PhysicsEngine_updateEntities refs deltaTime game) = gameState game
       \<and> asteroids (entityManager (PhysicsEngine_updateEntities refs deltaTime game))
           = asteroids (entityManager game)
       \<and> random (entityManager (PhysicsEngine_updateEntities refs deltaTime game))
           = random (entityManager game)
       \<and> em_screenWidth (entityManager (PhysicsEngine_updateEntities refs deltaTime game))
           = em_screenWidth (entityManager game)
       \<and> em_screenHeight (entityManager (PhysicsEngine_updateEntities refs deltaTime game))
           = em_screenHeight (entityManager game)
       \<and> selectedDifficulty (PhysicsEngine_updateEntities refs deltaTime game) = selectedDifficulty game
       \<and> (game_ship (PhysicsEngine_updateEntities refs deltaTime game) = None) = (game_ship game = None)"
  using assms unfolding PhysicsEngine_updateEntities_def
proof (induction refs arbitrary: game)
  case Nil
  show ?case by simp
next
  case (Cons r refs)
  have r: "\<not> isAsteroid r" and rest: "\<forall>r \<in> set refs. \<not> isAsteroid r"
    using Cons.prems by simp_all
  from Cons.IH [OF rest, of "PhysicsEngine_updateEntity deltaTime game r"]
  show ?case
    by (simp add: updateEntity_fields [OF r])
qed

lemma getAllActiveEntities_without_asteroids:
  assumes "asteroids em = []"
  shows "\<forall>r \<in> set (EntityManager_getAllActiveEntities em). \<not> isAsteroid r"
  using assms by (auto simp: EntityManager_getAllActiveEntities_def)

lemma count_asteroids_zero:
  "count_asteroids (EntityManager_getEntityCounts em) = 0
     \<longleftrightarrow> (\<forall>r \<in> set (asteroids em). \<not> ast_isActive (asteroidObj em r))"
  by (simp add: EntityManager_getEntityCounts_def filter_empty_conv)

lemma GameState_update_fields:
  "score (GameState_update deltaTime gs) = score gs"
  "level (GameState_update deltaTime gs) = level gs"
  "difficulty (GameState_update deltaTime gs) = difficulty gs"
  "gamePhase (GameState_update deltaTime gs) = gamePhase gs"
  "isPaused (GameState_update deltaTime gs) = isPaused gs"
  "isGameOver (GameState_update deltaTime gs) = isGameOver gs"
  by (simp_all add: GameState_update_def)

lemma completeLevel_fields:
  "score (GameState_completeLevel now gs) = score gs + 500"
  "level (GameState_completeLevel now gs) = level gs + 1"
  "difficulty (GameState_completeLevel now gs) = difficulty gs"
  by (simp_all add: GameState_completeLevel_def GameState_advanceLevel_def
      GameState_awardLevelBonus_def addScore_fields levelBonus_def)

text \<open>What \<^verbatim>\<open>handleLevelComplete\<close> does when there is a ship.\<close>

lemma handleLevelComplete_result:
  assumes "game_ship game = Some ship"
  shows "\<exists>game'. Game_handleLevelComplete now game = Inr game'
     \<and> game_ship game' = Some ship
     \<and> score (gameState game') = score (gameState game) + 500
     \<and> level (gameState game') = level (gameState game) + 1
     \<and> difficulty (gameState game') = difficulty (gameState game)
     \<and> asteroids (entityManager game')
         = asteroids (entityManager game)
           @ [nextRef (entityManager game) ..<
              nextRef (entityManager game)
                + nat (baseAsteroidCount (difficultySettings (difficulty (gameState game')))
                       + \<lfloor>(of_int (level (gameState game')) - 1) / (3 :: real)\<rfloor>)]
     \<and> (\<forall>r \<in> set [nextRef (entityManager game) ..<
              nextRef (entityManager game)
                + nat (baseAsteroidCount (difficultySettings (difficulty (gameState game')))
                       + \<lfloor>(of_int (level (gameState game')) - 1) / (3 :: real)\<rfloor>)].
          safelyPlaced (rnd_stream (random (entityManager game))) (ship_position ship)
            (em_screenWidth (entityManager game)) (em_screenHeight (entityManager game)) 120
            (asteroidObj (entityManager game') r))"
proof -
  let ?gs = "GameState_completeLevel now (gameState game)"
  let ?n = "GameState_getAsteroidCountForLevel ?gs"
  let ?em' = "EntityManager_createAsteroidField ?n (ship_position ship)
                (selectedDifficulty game) (entityManager game)"
  let ?game' = "game\<lparr>gameState := ?gs, entityManager := ?em'\<rparr>"
  have r: "Game_handleLevelComplete now game = Inr ?game'"
    using assms by (simp add: Game_handleLevelComplete_def Let_def)
  have n: "?n = baseAsteroidCount (difficultySettings (difficulty ?gs))
                  + \<lfloor>(of_int (level ?gs) - 1) / (3 :: real)\<rfloor>"
    by (simp add: GameState_getAsteroidCountForLevel_def Let_def)
  note f = createAsteroidField_result [where count = ?n and playerPosition = "ship_position ship"
      and d = "selectedDifficulty game" and em = "entityManager game"]
  show ?thesis
    apply (rule exI [where x = ?game'])
    apply (intro conjI)
          apply (rule r)
         apply (simp add: assms)
        apply (simp add: completeLevel_fields)
       apply (simp add: completeLevel_fields)
      apply (simp add: completeLevel_fields)
    using f(1) n apply simp
    using f(2) n apply simp
    done
qed

lemma recordShotFired_fields:
  "score (GameState_recordShotFired gs) = score gs"
  "level (GameState_recordShotFired gs) = level gs"
  "difficulty (GameState_recordShotFired gs) = difficulty gs"
  by (simp_all add: GameState_recordShotFired_def)

lemma updateEntities_projectiles_ship:
  "game_ship (PhysicsEngine_updateEntities (map ProjectileRef rs) deltaTime game) = game_ship game"
  unfolding PhysicsEngine_updateEntities_def
  by (induction rs arbitrary: game) (simp_all add: Let_def)

lemma updateEntities_snoc_ship:
  "game_ship (PhysicsEngine_updateEntities (refs @ [ShipRef]) deltaTime game)
     = map_option (Ship_update deltaTime) (game_ship (PhysicsEngine_updateEntities refs deltaTime game))"
  by (simp add: PhysicsEngine_updateEntities_def split: option.splits)

text \<open>
  A frame that starts without an active asteroid, is not skipped and has a ship: nothing
  collides with an asteroid, and the frame ends with \<^verbatim>\<open>handleLevelComplete\<close> on a game with an
  empty asteroid list, the score and level of the start and the ship updated twice.
\<close>

lemma frame_without_asteroids:
  assumes c0: "count_asteroids (EntityManager_getEntityCounts (entityManager game)) = 0"
    and ph: "gamePhase (gameState game) = Playing"
    and np: "\<not> isPaused (gameState game)"
    and ng: "\<not> isGameOver (gameState game)"
    and i1: "\<not> in_pause input"
    and i2: "\<not> in_escape input"
    and pi0: "InputManager_processInput input (game_ship game)
                (GameState_update deltaTime (gameState game)) deltaTime currentTime
              = (actions, newProjectile, Some ship1)"
  obtains game7 where
    "Game_update deltaTime currentTime now input game = Game_handleLevelComplete now game7"
    "game_ship game7 = Some (Ship_update deltaTime (Ship_update deltaTime ship1))"
    "score (gameState game7) = score (gameState game)"
    "level (gameState game7) = level (gameState game)"
    "difficulty (gameState game7) = difficulty (gameState game)"
    "asteroids (entityManager game7) = []"
    "random (entityManager game7) = random (entityManager game)"
    "em_screenWidth (entityManager game7) = em_screenWidth (entityManager game)"
    "em_screenHeight (entityManager game7) = em_screenHeight (entityManager game)"
proof -
  define game1 where "game1 = game\<lparr>gameState := GameState_update deltaTime (gameState game)\<rparr>"
  define gs1 where "gs1 = GameState_update deltaTime (gameState game)"
  have pi: "InputManager_processInput input (game_ship game1) (gameState game1) deltaTime currentTime
                 = (actions, newProjectile, Some ship1)"
    using pi0 by (simp add: game1_def)
  note a = processInput_result [OF i1 i2 pi]
  have gs1: "score gs1 = score (gameState game)" "level gs1 = level (gameState game)"
    "difficulty gs1 = difficulty (gameState game)"
    "gamePhase gs1 = Playing" "\<not> isPaused gs1" "\<not> isGameOver gs1"
    using ph np ng by (simp_all add: gs1_def GameState_update_fields)
  define game2 where "game2 = game1\<lparr>game_ship := Some ship1\<rparr>"
  define game3 where "game3 = game2\<lparr>gameState := Game_handleInputActions actions (gameState game2)\<rparr>"
  have hi: "Game_handleInputActions actions gs1 = gs1"
    using a(1,2) by (rule handleInputActions_other)
  have g3: "gameState game3 = gs1" "game_ship game3 = Some ship1" "entityManager game3 = entityManager game"
    "selectedDifficulty game3 = selectedDifficulty game"
    by (simp_all add: game3_def game2_def game1_def hi gs1_def [symmetric])
  define game4 where "game4 =
     (case newProjectile of
        None \<Rightarrow> game3
      | Some options \<Rightarrow>
          game3\<lparr>entityManager := snd (EntityManager_createProjectile options (entityManager game3)),
                gameState := GameState_recordShotFired (gameState game3)\<rparr>)"
  define game5 where "game5 =
     (case game_ship game4 of
        None \<Rightarrow> game4
      | Some s \<Rightarrow> game4\<lparr>game_ship := Some (Ship_update deltaTime s)\<rparr>)"
  define game6 where "game6 = game5\<lparr>entityManager := EntityManager_update deltaTime (entityManager game5)\<rparr>"
  define allEntities where "allEntities =
     EntityManager_getAllActiveEntities (entityManager game6)
       @ (case game_ship game6 of None \<Rightarrow> [] | Some s \<Rightarrow> [ShipRef])"
  define game7 where "game7 = PhysicsEngine_updateEntities allEntities deltaTime game6"
  define collisions where "collisions = detectCollisions (List.map_filter (entityOf game7) allEntities)"
  define game8 where "game8 = Game_handleCollisions now collisions game7"
  have "Game_update deltaTime currentTime now input game =
      (if isPaused (gameState game3) \<or> isGameOver (gameState game3) \<or> gamePhase (gameState game3) = Menu
       then Inr game3
       else if count_asteroids (EntityManager_getEntityCounts (entityManager game)) = 0
            then Game_handleLevelComplete now game8 else Inr game8)"
    unfolding Game_update_def Let_def
    unfolding game1_def [symmetric]
    unfolding pi prod.case
    unfolding game2_def [symmetric]
    unfolding game3_def [symmetric]
    unfolding game4_def [symmetric]
    unfolding game5_def [symmetric]
    unfolding game6_def [symmetric]
    unfolding allEntities_def [symmetric]
    unfolding game7_def [symmetric]
    unfolding collisions_def [symmetric]
    unfolding game8_def [symmetric]
    by (rule refl)
  then have upd: "Game_update deltaTime currentTime now input game = Game_handleLevelComplete now game8"
    using c0 gs1(4-6) by (simp add: g3)
  have em4: "asteroids (entityManager game4) = asteroids (entityManager game)"
    "asteroidObj (entityManager game4) = asteroidObj (entityManager game)"
    "random (entityManager game4) = random (entityManager game)"
    "em_screenWidth (entityManager game4) = em_screenWidth (entityManager game)"
    "em_screenHeight (entityManager game4) = em_screenHeight (entityManager game)"
    by (simp_all add: game4_def g3 createProjectile_asteroids split: option.splits)
  have gs4: "score (gameState game4) = score (gameState game)"
    "level (gameState game4) = level (gameState game)"
    "difficulty (gameState game4) = difficulty (gameState game)"
    using gs1(1-3) by (simp_all add: game4_def g3 recordShotFired_fields split: option.splits)
  have ship4: "game_ship game4 = Some ship1"
    and sd4: "selectedDifficulty game4 = selectedDifficulty game"
    by (simp_all add: game4_def g3 split: option.splits)
  have em5: "entityManager game5 = entityManager game4" and gs5: "gameState game5 = gameState game4"
    and ship5: "game_ship game5 = Some (Ship_update deltaTime ship1)"
    and sd5: "selectedDifficulty game5 = selectedDifficulty game"
    using ship4 sd4 by (simp_all add: game5_def)
  have inactive: "\<forall>r \<in> set (asteroids (entityManager game5)).
                    \<not> ast_isActive (asteroidObj (entityManager game5) r)"
    using c0 unfolding count_asteroids_zero em5 em4 .
  note u = update_without_asteroids [OF inactive, of deltaTime]
  have em6: "asteroids (entityManager game6) = []"
    "random (entityManager game6) = random (entityManager game)"
    "em_screenWidth (entityManager game6) = em_screenWidth (entityManager game)"
    "em_screenHeight (entityManager game6) = em_screenHeight (entityManager game)"
    using u by (simp_all add: game6_def em5 em4)
  have gs6: "gameState game6 = gameState game4"
    and ship6: "game_ship game6 = Some (Ship_update deltaTime ship1)"
    and sd6: "selectedDifficulty game6 = selectedDifficulty game"
    using gs5 ship5 sd5 by (simp_all add: game6_def)
  have all: "allEntities = map ProjectileRef
               (filter (\<lambda>r. proj_isActive (projectileObj (entityManager game6) r))
                  (projectiles (entityManager game6))) @ [ShipRef]"
    by (simp add: allEntities_def EntityManager_getAllActiveEntities_def em6(1) ship6)
  have refs: "\<forall>r \<in> set allEntities. \<not> isAsteroid r"
    unfolding all by auto
  note p = updateEntities_fields [OF refs, of deltaTime game6, folded game7_def]
  have em7: "asteroids (entityManager game7) = []"
    "random (entityManager game7) = random (entityManager game)"
    "em_screenWidth (entityManager game7) = em_screenWidth (entityManager game)"
    "em_screenHeight (entityManager game7) = em_screenHeight (entityManager game)"
    using p em6 by simp_all
  have gs7: "gameState game7 = gameState game4"
    and sd7: "selectedDifficulty game7 = selectedDifficulty game"
    using p gs6 sd6 by simp_all
  have ship7: "game_ship game7 = Some (Ship_update deltaTime (Ship_update deltaTime ship1))"
    unfolding game7_def all by (simp add: updateEntities_snoc_ship updateEntities_projectiles_ship ship6)
  have "\<forall>c \<in> set collisions. \<not> isAsteroid (e_ref (entityA c)) \<and> \<not> isAsteroid (e_ref (entityB c))"
  proof
    fix c assume "c \<in> set collisions"
    then have "entityA c \<in> set (List.map_filter (entityOf game7) allEntities)"
      "entityB c \<in> set (List.map_filter (entityOf game7) allEntities)"
      unfolding collisions_def by (simp_all add: detectCollisions_entities)
    then have "e_ref (entityA c) \<in> set allEntities" "e_ref (entityB c) \<in> set allEntities"
      by (simp_all add: map_filter_entityOf_refs)
    with refs show "\<not> isAsteroid (e_ref (entityA c)) \<and> \<not> isAsteroid (e_ref (entityB c))"
      by blast
  qed
  then have game8: "game8 = game7"
    unfolding game8_def by (rule handleCollisions_other)
  show ?thesis
    using upd em7 ship7 gs7 gs4 unfolding game8
    by (intro that [of game7]) simp_all
qed

text \<open>
  C3, as amended. Let a frame start with no active asteroid, in the phase \<^verbatim>\<open>playing\<close>,
  neither paused nor over, with a ship, and let neither the pause nor the escape key be
  pressed in it. Then \<^verbatim>\<open>Game.update\<close> completes the level: the score grows by exactly 500,
  the level by exactly one, the difficulty stays, and the asteroids of the manager afterwards are the new field,
  \<open>baseAsteroidCount + \<lfloor>(level - 1) / 3\<rfloor>\<close> of them for the new level. Each of them is at
  least 120 away from the position of the ship, or it is at the last of fifty consecutive
  candidate positions of the random source that are all closer to the ship than 120.
\<close>

theorem level_completion:
  assumes c0: "count_asteroids (EntityManager_getEntityCounts (entityManager game)) = 0"
    and ph: "gamePhase (gameState game) = Playing"
    and np: "\<not> isPaused (gameState game)"
    and ng: "\<not> isGameOver (gameState game)"
    and i1: "\<not> in_pause input"
    and i2: "\<not> in_escape input"
    and sh: "game_ship game \<noteq> None"
  shows "\<exists>game' ship'.
       Game_update deltaTime currentTime now input game = Inr game'
     \<and> game_ship game' = Some ship'
     \<and> score (gameState game') = score (gameState game) + 500
     \<and> level (gameState game') = level (gameState game) + 1
     \<and> difficulty (gameState game') = difficulty (gameState game)
     \<and> length (asteroids (entityManager game'))
         = nat (baseAsteroidCount (difficultySettings (difficulty (gameState game')))
                + \<lfloor>(of_int (level (gameState game')) - 1) / (3 :: real)\<rfloor>)
     \<and> (\<forall>r \<in> set (asteroids (entityManager game')).
          safelyPlaced (rnd_stream (random (entityManager game))) (ship_position ship')
            (em_screenWidth (entityManager game)) (em_screenHeight (entityManager game)) 120
            (asteroidObj (entityManager game') r))"
proof -
  from sh obtain ship where ship: "game_ship game = Some ship"
    by blast
  obtain actions newProjectile s1
    where pi: "InputManager_processInput input (game_ship game)
                (GameState_update deltaTime (gameState game)) deltaTime currentTime
              = (actions, newProjectile, s1)"
    by (metis prod_cases3)
  from processInput_result(3) [OF i1 i2 pi] sh obtain ship1 where s1: "s1 = Some ship1"
    by blast
  from frame_without_asteroids [OF c0 ph np ng i1 i2 pi [unfolded s1], of now]
  obtain game7 where upd: "Game_update deltaTime currentTime now input game = Game_handleLevelComplete now game7"
    and ship7: "game_ship game7 = Some (Ship_update deltaTime (Ship_update deltaTime ship1))"
    and gs7: "score (gameState game7) = score (gameState game)"
      "level (gameState game7) = level (gameState game)"
      "difficulty (gameState game7) = difficulty (gameState game)"
    and em7: "asteroids (entityManager game7) = []"
      "random (entityManager game7) = random (entityManager game)"
      "em_screenWidth (entityManager game7) = em_screenWidth (entityManager game)"
      "em_screenHeight (entityManager game7) = em_screenHeight (entityManager game)"
    by blast
  define ship' where "ship' = Ship_update deltaTime (Ship_update deltaTime ship1)"
  have ship': "game_ship game7 = Some ship'"
    using ship7 by (simp add: ship'_def)
  from handleLevelComplete_result [OF ship', of now]
  obtain game' where r: "Game_handleLevelComplete now game7 = Inr game'"
    and s': "game_ship game' = Some ship'"
    and sc: "score (gameState game') = score (gameState game7) + 500"
    and lv: "level (gameState game') = level (gameState game7) + 1"
    and df: "difficulty (gameState game') = difficulty (gameState game7)"
    and l: "asteroids (entityManager game')
         = asteroids (entityManager game7)
           @ [nextRef (entityManager game7) ..<
              nextRef (entityManager game7)
                + nat (baseAsteroidCount (difficultySettings (difficulty (gameState game')))
                       + \<lfloor>(of_int (level (gameState game')) - 1) / (3 :: real)\<rfloor>)]"
    and pl: "\<forall>r \<in> set [nextRef (entityManager game7) ..<
              nextRef (entityManager game7)
                + nat (baseAsteroidCount (difficultySettings (difficulty (gameState game')))
                       + \<lfloor>(of_int (level (gameState game')) - 1) / (3 :: real)\<rfloor>)].
          safelyPlaced (rnd_stream (random (entityManager game7))) (ship_position ship')
            (em_screenWidth (entityManager game7)) (em_screenHeight (entityManager game7)) 120
            (asteroidObj (entityManager game') r)"
    by blast
  have 1: "Game_update deltaTime currentTime now input game = Inr game'"
    unfolding upd by (rule r)
  have 2: "score (gameState game') = score (gameState game) + 500"
    and 3: "level (gameState game') = level (gameState game) + 1"
    and 6: "difficulty (gameState game') = difficulty (gameState game)"
    using sc lv df gs7 by simp_all
  have 4: "length (asteroids (entityManager game'))
         = nat (baseAsteroidCount (difficultySettings (difficulty (gameState game')))
                + \<lfloor>(of_int (level (gameState game')) - 1) / (3 :: real)\<rfloor>)"
    unfolding l em7 by simp
  have 5: "\<forall>r \<in> set (asteroids (entityManager game')).
          safelyPlaced (rnd_stream (random (entityManager game))) (ship_position ship')
            (em_screenWidth (entityManager game)) (em_screenHeight (entityManager game)) 120
            (asteroidObj (entityManager game') r)"
    using pl unfolding l em7 by simp
  from 1 s' 2 3 6 4 5 show ?thesis
    by blast
qed

subsection \<open>Instances\<close>

lemma exampleGame_facts:
  "count_asteroids (EntityManager_getEntityCounts (entityManager exampleGame)) = 0"
  "gamePhase (gameState exampleGame) = Playing"
  "\<not> isPaused (gameState exampleGame)"
  "\<not> isGameOver (gameState exampleGame)"
  "game_ship exampleGame = Some exampleShip"
  "level (gameState exampleGame) = 1"
  "score (gameState exampleGame) = 0"
  "difficulty (gameState exampleGame) = Medium"
  "rnd_stream (random (entityManager exampleGame)) = (\<lambda>n. 1 / 2)"
  "em_screenWidth (entityManager exampleGame) = 800"
  "em_screenHeight (entityManager exampleGame) = 600"
  by (simp_all add: exampleGame_def Game_new_def exampleManager_def EntityManager_new_def
      EntityManager_getEntityCounts_def GameState_startNewGame_def
      GameState_applyDifficultySettings_def exampleRandom_def)

lemma quietInput_facts:
  "\<not> in_pause quietInput" "\<not> in_escape quietInput"
  "InputManager_processInput quietInput (game_ship exampleGame)
     (GameState_update 16 (gameState exampleGame)) 16 1000
   = ([], None, Some (Ship_stopThrust exampleShip))"
  by (simp_all add: quietInput_def InputManager_processInput_def exampleGame_facts
      GameState_update_fields Let_def)

lemma restingShip_position:
  "ship_position (Ship_update 16 (Ship_update 16 (Ship_stopThrust exampleShip)))
     = \<lparr>vx = 400, vy = 300\<rparr>"
proof -
  have 1: "Ship_update 16 (Ship_stopThrust exampleShip) = Ship_stopThrust exampleShip"
    by (simp add: Ship_update_def Ship_stopThrust_def exampleShip_def Ship_new_def Let_def
        Vector2D_new_def Vector2D_add_def Vector2D_multiply_def Vector2D_limit_def
        Vector2D_magnitudeSquared_def Ship_wrapScreenEdges_def orElse_def)
  show ?thesis
    unfolding 1 by (simp add: Ship_stopThrust_def exampleShip_def Ship_new_def Vector2D_new_def orElse_def)
qed

text \<open>
  C3 as stated fails. In \<^term>\<open>exampleGame\<close> no asteroid is left, the phase is \<^verbatim>\<open>playing\<close>, the
  ship rests at the centre \<open>(400, 300)\<close> of the screen, and the random source returns \<open>1/2\<close>
  at every draw. Every spawn candidate is then \<open>(400, 300)\<close>; after fifty attempts
  \<^verbatim>\<open>Asteroid.createRandom\<close> keeps the last one, so the first asteroid of the new field of
  five lies on the ship, at distance 0.
\<close>

theorem fallback_spawn_on_ship:
  "count_asteroids (EntityManager_getEntityCounts (entityManager exampleGame)) = 0
   \<and> gamePhase (gameState exampleGame) = Playing
   \<and> game_ship (projr (Game_update 16 1000 0 quietInput exampleGame))
       = Some (Ship_update 16 (Ship_update 16 (Ship_stopThrust exampleShip)))
   \<and> ship_position (Ship_update 16 (Ship_update 16 (Ship_stopThrust exampleShip)))
       = \<lparr>vx = 400, vy = 300\<rparr>
   \<and> length (asteroids (entityManager (projr (Game_update 16 1000 0 quietInput exampleGame)))) = 5
   \<and> ast_position (asteroidObj (entityManager (projr (Game_update 16 1000 0 quietInput exampleGame)))
        (hd (asteroids (entityManager (projr (Game_update 16 1000 0 quietInput exampleGame))))))
       = \<lparr>vx = 400, vy = 300\<rparr>
   \<and> Vector2D_distanceTo
        (ast_position (asteroidObj (entityManager (projr (Game_update 16 1000 0 quietInput exampleGame)))
           (hd (asteroids (entityManager (projr (Game_update 16 1000 0 quietInput exampleGame)))))))
        (ship_position (Ship_update 16 (Ship_update 16 (Ship_stopThrust exampleShip))))
       < 120"
proof -
  let ?S = "Ship_update 16 (Ship_update 16 (Ship_stopThrust exampleShip))"
  from frame_without_asteroids [OF exampleGame_facts(1-4) quietInput_facts, where now = 0]
  obtain game7 where upd: "Game_update 16 1000 0 quietInput exampleGame = Game_handleLevelComplete 0 game7"
    and ship7: "game_ship game7 = Some ?S"
    and gs7: "level (gameState game7) = level (gameState exampleGame)"
      "difficulty (gameState game7) = difficulty (gameState exampleGame)"
    and em7: "asteroids (entityManager game7) = []"
      "random (entityManager game7) = random (entityManager exampleGame)"
      "em_screenWidth (entityManager game7) = em_screenWidth (entityManager exampleGame)"
      "em_screenHeight (entityManager game7) = em_screenHeight (entityManager exampleGame)"
    by blast
  from handleLevelComplete_result [OF ship7, where now = 0]
  obtain game' where r: "Game_handleLevelComplete 0 game7 = Inr game'"
    and s': "game_ship game' = Some ?S"
    and lv: "level (gameState game') = level (gameState game7) + 1"
    and df: "difficulty (gameState game') = difficulty (gameState game7)"
    and l: "asteroids (entityManager game')
         = asteroids (entityManager game7)
           @ [nextRef (entityManager game7) ..<
              nextRef (entityManager game7)
                + nat (baseAsteroidCount (difficultySettings (difficulty (gameState game')))
                       + \<lfloor>(of_int (level (gameState game')) - 1) / (3 :: real)\<rfloor>)]"
    and pl: "\<forall>r \<in> set [nextRef (entityManager game7) ..<
              nextRef (entityManager game7)
                + nat (baseAsteroidCount (difficultySettings (difficulty (gameState game')))
                       + \<lfloor>(of_int (level (gameState game')) - 1) / (3 :: real)\<rfloor>)].
          safelyPlaced (rnd_stream (random (entityManager game7))) (ship_position ?S)
            (em_screenWidth (entityManager game7)) (em_screenHeight (entityManager game7)) 120
            (asteroidObj (entityManager game') r)"
    by blast
  have G: "projr (Game_update 16 1000 0 quietInput exampleGame) = game'"
    unfolding upd r by simp
  have n: "nat (baseAsteroidCount (difficultySettings (difficulty (gameState game')))
                       + \<lfloor>(of_int (level (gameState game')) - 1) / (3 :: real)\<rfloor>) = 5"
    unfolding lv df gs7 exampleGame_facts by simp
  have l': "asteroids (entityManager game')
              = [nextRef (entityManager game7) ..< nextRef (entityManager game7) + 5]"
    using l unfolding n em7 by simp
  then have len: "length (asteroids (entityManager game')) = 5"
    by simp
  have "hd (asteroids (entityManager game')) = nextRef (entityManager game7)"
    unfolding l' by (simp add: upt_rec)
  then have "hd (asteroids (entityManager game'))
               \<in> set [nextRef (entityManager game7) ..< nextRef (entityManager game7) + 5]"
    by simp
  with pl have "safelyPlaced (\<lambda>n. 1 / 2) (ship_position ?S) 800 600 120
                  (asteroidObj (entityManager game') (hd (asteroids (entityManager game'))))"
    unfolding n em7 exampleGame_facts by blast
  then obtain m k where "ast_position (asteroidObj (entityManager game') (hd (asteroids (entityManager game'))))
                          = candidate (\<lambda>n. 1 / 2) m 800 600 k"
    unfolding safelyPlaced_def by blast
  then have pos: "ast_position (asteroidObj (entityManager game') (hd (asteroids (entityManager game'))))
                    = \<lparr>vx = 400, vy = 300\<rparr>"
    by (simp add: candidate_def Vector2D_new_def)
  have d: "Vector2D_distanceTo
        (ast_position (asteroidObj (entityManager game') (hd (asteroids (entityManager game')))))
        (ship_position ?S) < 120"
    unfolding pos restingShip_position by (simp add: Vector2D_distanceTo_def)
  from exampleGame_facts(1,2) s' restingShip_position len pos d show ?thesis
    unfolding G by (intro conjI)
qed

text \<open>
  The hypotheses of the theorem hold for \<^term>\<open>exampleGame\<close> and a frame without input: the
  frame ends at level 2 with score 500 and a field of five asteroids.
\<close>

theorem level_completion_witness:
  "count_asteroids (EntityManager_getEntityCounts (entityManager exampleGame)) = 0
   \<and> gamePhase (gameState exampleGame) = Playing
   \<and> \<not> isPaused (gameState exampleGame)
   \<and> \<not> isGameOver (gameState exampleGame)
   \<and> \<not> in_pause quietInput
   \<and> \<not> in_escape quietInput
   \<and> game_ship exampleGame \<noteq> None
   \<and> (\<exists>game' ship'.
       Game_update 16 1000 0 quietInput exampleGame = Inr game'
     \<and> game_ship game' = Some ship'
     \<and> score (gameState game') = 500
     \<and> level (gameState game') = 2
     \<and> length (asteroids (entityManager game')) = 5)"
proof -
  have sh: "game_ship exampleGame \<noteq> None"
    by (simp add: exampleGame_facts)
  from level_completion [OF exampleGame_facts(1-4) quietInput_facts(1,2) sh, where deltaTime = 16 and currentTime = 1000 and now = 0]
  obtain game' ship' where "Game_update 16 1000 0 quietInput exampleGame = Inr game'"
    "game_ship game' = Some ship'"
    "score (gameState game') = score (gameState exampleGame) + 500"
    "level (gameState game') = level (gameState exampleGame) + 1"
    "difficulty (gameState game') = difficulty (gameState exampleGame)"
    "length (asteroids (entityManager game'))
         = nat (baseAsteroidCount (difficultySettings (difficulty (gameState game')))
                + \<lfloor>(of_int (level (gameState game')) - 1) / (3 :: real)\<rfloor>)"
    by blast
  then have "\<exists>game' ship'.
       Game_update 16 1000 0 quietInput exampleGame = Inr game'
     \<and> game_ship game' = Some ship'
     \<and> score (gameState game') = 500
     \<and> level (gameState game') = 2
     \<and> length (asteroids (entityManager game')) = 5"
    by (simp add: exampleGame_facts)
  with exampleGame_facts(1-4) quietInput_facts(1,2) sh show ?thesis
    by (intro conjI)
qed

section \<open>Game: a second collision inside the invulnerability window\<close>

lemma quiet_processInput:
  assumes "\<not> isPaused gs"
  shows "InputManager_processInput quietInput (Some s) gs deltaTime currentTime
           = ([], None, Some (Ship_stopThrust s))"
  using assms by (simp add: InputManager_processInput_def quietInput_def Let_def)

lemma Ship_update_resting:
  assumes "restingShip iv t s" "\<not> ship_isThrusting s"
  shows "restingShip (fst (tick deltaTime (iv, t))) (snd (tick deltaTime (iv, t))) (Ship_update deltaTime s)"
    and "\<not> ship_isThrusting (Ship_update deltaTime s)"
  using assms
  by (simp_all add: restingShip_def tick_def Ship_update_def Let_def Ship_wrapScreenEdges_def
      Vector2D_add_def Vector2D_multiply_def Vector2D_limit_def Vector2D_magnitudeSquared_def)

lemma Asteroid_update_resting:
  assumes "restingRock a"
  shows "restingRock (Asteroid_update deltaTime a)"
  using assms
  by (simp add: restingRock_def Asteroid_update_def Let_def Asteroid_wrapScreenEdges_def
      Vector2D_add_def Vector2D_multiply_def)

lemma Ship_respawn_resting:
  assumes "restingShip iv t s"
  shows "restingShip True 2000 (Ship_respawn s)"
  using assms by (simp add: restingShip_def Ship_respawn_def Vector2D_new_def Vector2D_zero_def)

lemma registerParticle_asteroids:
  "asteroids (registerParticle em p) = asteroids em"
  "asteroidObj (registerParticle em p) = asteroidObj em"
  by (simp_all add: registerParticle_def)

lemma foldl_registerParticle_asteroids:
  "asteroids (foldl registerParticle em ps) = asteroids em"
  "asteroidObj (foldl registerParticle em ps) = asteroidObj em"
  by (induction ps arbitrary: em) (simp_all add: registerParticle_asteroids)

lemma createParticleEffect_asteroids:
  "asteroids (EntityManager_createParticleEffect eff em) = asteroids em"
  "asteroidObj (EntityManager_createParticleEffect eff em) = asteroidObj em"
  by (cases eff; simp add: EntityManager_createExplosionParticles_def
      EntityManager_createDebrisParticles_def EntityManager_createSparkParticles_def
      foldl_registerParticle_asteroids split: prod.splits)+

lemma update_single_asteroid:
  assumes "asteroids em = [r]" "ast_isActive (asteroidObj em r)"
    and "ast_isActive (Asteroid_update deltaTime (asteroidObj em r))"
    and "projectiles em = []"
  shows "asteroids (EntityManager_update deltaTime em) = [r]"
    and "asteroidObj (EntityManager_update deltaTime em) r = Asteroid_update deltaTime (asteroidObj em r)"
    and "projectiles (EntityManager_update deltaTime em) = []"
  using assms
  by (simp_all add: EntityManager_update_def Let_def cleanup_fields cleanup_projectiles)

lemma detectCollisions_pair:
  assumes "e_isActive a \<noteq> Some False" "e_isActive b \<noteq> Some False" "checkCircleCollision a b"
  shows "detectCollisions [a, b] = [collisionRecord a b]"
  using assms
  by (simp add: detectCollisions_def detectCollisionsBruteForce_def Let_def upt_rec)

lemma loseLife_fields:
  assumes "1 < lives gs"
  shows "gamePhase (snd (GameState_loseLife now gs)) = gamePhase gs"
    and "isPaused (snd (GameState_loseLife now gs)) = isPaused gs"
    and "isGameOver (snd (GameState_loseLife now gs)) = isGameOver gs"
  using assms by (simp_all add: GameState_loseLife_def Let_def)

lemma handleCollision_ship_manager:
  assumes "game_ship game = Some ship"
    and "(e_ref (entityA c) = ShipRef \<and> isAsteroid (e_ref (entityB c)))
         \<or> (e_ref (entityB c) = ShipRef \<and> isAsteroid (e_ref (entityA c)))"
  shows "asteroids (entityManager (Game_handleCollision now game c)) = asteroids (entityManager game)"
    and "asteroidObj (entityManager (Game_handleCollision now game c)) = asteroidObj (entityManager game)"
    and "projectiles (entityManager (Game_handleCollision now game c)) = projectiles (entityManager game)"
  using assms
  by (simp_all add: Game_handleCollision_def Let_def case_prod_unfold
      createParticleEffect_asteroids createParticleEffect_pool del: EntityManager_createParticleEffect.simps)

text \<open>
  One frame without input of a game in which the ship rests on the asteroid: the ship is
  updated twice, so the flag and the timer are those after two calls of \<^verbatim>\<open>Ship.update\<close>;
  then the collision is handled. It is ignored if the ship is still invulnerable, and
  otherwise costs a life and respawns the ship.
\<close>

lemma frame_on_asteroid:
  assumes inv: "shipOnAsteroid n iv t game" and n: "1 < n"
  shows "\<exists>game'. Game_update deltaTime currentTime now quietInput game = Inr game'
          \<and> (if fst (tick deltaTime (tick deltaTime (iv, t)))
              then shipOnAsteroid n True (snd (tick deltaTime (tick deltaTime (iv, t)))) game'
              else shipOnAsteroid (n - 1) True 2000 game')"
proof -
  from inv obtain s r where ph: "gamePhase (gameState game) = Playing"
    and np: "\<not> isPaused (gameState game)" and ng: "\<not> isGameOver (gameState game)"
    and lv: "lives (gameState game) = n"
    and ship: "game_ship game = Some s" and rs: "restingShip iv t s"
    and ast: "asteroids (entityManager game) = [r]"
    and rr: "restingRock (asteroidObj (entityManager game) r)"
    and pr: "projectiles (entityManager game) = []"
    unfolding shipOnAsteroid_def
    by (auto split: option.splits list.splits)
  define game1 where "game1 = game\<lparr>gameState := GameState_update deltaTime (gameState game)\<rparr>"
  define gs1 where "gs1 = GameState_update deltaTime (gameState game)"
  have gs1: "gamePhase gs1 = Playing" "\<not> isPaused gs1" "\<not> isGameOver gs1" "lives gs1 = n"
    using ph np ng lv by (simp_all add: gs1_def GameState_update_def)
  define ship1 where "ship1 = Ship_stopThrust s"
  have pi: "InputManager_processInput quietInput (game_ship game1) (gameState game1) deltaTime currentTime
              = ([], None, Some ship1)"
    using gs1(2) by (simp add: game1_def ship gs1_def [symmetric] quiet_processInput ship1_def)
  have rs1: "restingShip iv t ship1" "\<not> ship_isThrusting ship1"
    using rs by (simp_all add: ship1_def Ship_stopThrust_def restingShip_def)
  define game2 where "game2 = game1\<lparr>game_ship := Some ship1\<rparr>"
  define game3 where "game3 = game2\<lparr>gameState := Game_handleInputActions [] (gameState game2)\<rparr>"
  have g3: "gameState game3 = gs1" "game_ship game3 = Some ship1" "entityManager game3 = entityManager game"
    by (simp_all add: game3_def game2_def game1_def Game_handleInputActions_def gs1_def [symmetric])
  define game4 where "game4 =
     (case None :: ProjectileData option of
        None \<Rightarrow> game3
      | Some options \<Rightarrow>
          game3\<lparr>entityManager := snd (EntityManager_createProjectile options (entityManager game3)),
                gameState := GameState_recordShotFired (gameState game3)\<rparr>)"
  define game5 where "game5 =
     (case game_ship game4 of
        None \<Rightarrow> game4
      | Some s \<Rightarrow> game4\<lparr>game_ship := Some (Ship_update deltaTime s)\<rparr>)"
  define game6 where "game6 = game5\<lparr>entityManager := EntityManager_update deltaTime (entityManager game5)\<rparr>"
  define allEntities where "allEntities =
     EntityManager_getAllActiveEntities (entityManager game6)
       @ (case game_ship game6 of None \<Rightarrow> [] | Some s \<Rightarrow> [ShipRef])"
  define game7 where "game7 = PhysicsEngine_updateEntities allEntities deltaTime game6"
  define collisions where "collisions = detectCollisions (List.map_filter (entityOf game7) allEntities)"
  define game8 where "game8 = Game_handleCollisions now collisions game7"
  have "Game_update deltaTime currentTime now quietInput game =
      (if isPaused (gameState game3) \<or> isGameOver (gameState game3) \<or> gamePhase (gameState game3) = Menu
       then Inr game3
       else if count_asteroids (EntityManager_getEntityCounts (entityManager game)) = 0
            then Game_handleLevelComplete now game8 else Inr game8)"
    unfolding Game_update_def Let_def
    unfolding game1_def [symmetric]
    unfolding pi prod.case
    unfolding game2_def [symmetric]
    unfolding game3_def [symmetric]
    unfolding game4_def [symmetric]
    unfolding game5_def [symmetric]
    unfolding game6_def [symmetric]
    unfolding allEntities_def [symmetric]
    unfolding game7_def [symmetric]
    unfolding collisions_def [symmetric]
    unfolding game8_def [symmetric]
    by (rule refl)
  moreover have "count_asteroids (EntityManager_getEntityCounts (entityManager game)) \<noteq> 0"
    using ast rr by (simp add: EntityManager_getEntityCounts_def restingRock_def)
  ultimately have upd: "Game_update deltaTime currentTime now quietInput game = Inr game8"
    using gs1 by (simp add: g3)
  have g4: "game4 = game3"
    by (simp add: game4_def)
  define ship2 where "ship2 = Ship_update deltaTime ship1"
  define ship3 where "ship3 = Ship_update deltaTime ship2"
  define st2 where "st2 = tick deltaTime (iv, t)"
  define st3 where "st3 = tick deltaTime st2"
  have rs2: "restingShip (fst st2) (snd st2) ship2" "\<not> ship_isThrusting ship2"
    unfolding ship2_def st2_def by (rule Ship_update_resting [OF rs1])+
  have rs3: "restingShip (fst st3) (snd st3) ship3"
    unfolding ship3_def st3_def using Ship_update_resting(1) [OF rs2, of deltaTime] by simp
  have g5: "game_ship game5 = Some ship2" "gameState game5 = gs1" "entityManager game5 = entityManager game"
    by (simp_all add: game5_def g4 g3 ship2_def)
  define a1 where "a1 = Asteroid_update deltaTime (asteroidObj (entityManager game) r)"
  define a2 where "a2 = Asteroid_update deltaTime a1"
  have rr1: "restingRock a1"
    unfolding a1_def using rr by (rule Asteroid_update_resting)
  have rr2: "restingRock a2"
    unfolding a2_def using rr1 by (rule Asteroid_update_resting)
  have act: "ast_isActive (asteroidObj (entityManager game) r)" "ast_isActive a1" "ast_isActive a2"
    using rr rr1 rr2 by (simp_all add: restingRock_def)
  note u = update_single_asteroid [OF ast act(1) act(2) [unfolded a1_def] pr]
  have g6: "game_ship game6 = Some ship2" "gameState game6 = gs1"
    "asteroids (entityManager game6) = [r]" "asteroidObj (entityManager game6) r = a1"
    "projectiles (entityManager game6) = []"
    using u by (simp_all add: game6_def g5 a1_def)
  have all: "allEntities = [AsteroidRef r, ShipRef]"
    using act(2) by (simp add: allEntities_def EntityManager_getAllActiveEntities_def g6)
  have g7: "game_ship game7 = Some ship3" "gameState game7 = gs1"
    "asteroids (entityManager game7) = [r]" "asteroidObj (entityManager game7) r = a2"
    "projectiles (entityManager game7) = []"
    using act(2)
    by (simp_all add: game7_def all PhysicsEngine_updateEntities_def Let_def g6 ship3_def a2_def)
  define ea where "ea = \<lparr>e_ref = AsteroidRef r, e_id = ast_id a2, e_isActive = Some (ast_isActive a2),
                          e_bounds = Asteroid_getBounds a2\<rparr>"
  define es where "es = \<lparr>e_ref = ShipRef, e_id = None, e_isActive = None, e_bounds = Ship_getBounds ship3\<rparr>"
  have ents: "List.map_filter (entityOf game7) allEntities = [ea, es]"
    by (simp add: all List.map_filter_def g7 ea_def es_def)
  have hit: "checkCircleCollision ea es"
    using rr2 rs3
    by (simp add: checkCircleCollision_def ea_def es_def Asteroid_getBounds_def Ship_getBounds_def
        restingRock_def restingShip_def Let_def)
  have coll: "collisions = [collisionRecord ea es]"
    unfolding collisions_def ents
    using act(3) hit by (intro detectCollisions_pair) (simp_all add: ea_def es_def)
  have g8: "game8 = Game_handleCollision now game7 (collisionRecord ea es)"
    by (simp add: game8_def coll Game_handleCollisions_def)
  have pair: "(e_ref (entityA (collisionRecord ea es)) = ShipRef
                 \<and> isAsteroid (e_ref (entityB (collisionRecord ea es))))
              \<or> (e_ref (entityB (collisionRecord ea es)) = ShipRef
                 \<and> isAsteroid (e_ref (entityA (collisionRecord ea es))))"
    by (simp add: collisionRecord_def ea_def es_def)
  show ?thesis
  proof (cases "fst st3")
    case True
    then have "ship_isInvulnerable ship3"
      using rs3 by (simp add: restingShip_def)
    with g7(1) pair have "game8 = game7"
      unfolding g8 by (rule handleCollision_ship_invulnerable)
    moreover have "shipOnAsteroid n True (snd st3) game7"
      using gs1 g7 rs3 rr2 True by (simp add: shipOnAsteroid_def)
    ultimately show ?thesis
      using upd True by (simp add: st3_def st2_def)
  next
    case False
    then have v: "\<not> ship_isInvulnerable ship3"
      using rs3 by (simp add: restingShip_def)
    note h = handleCollision_ship_vulnerable [OF g7(1) pair v, of now, folded g8]
    have l: "1 < lives gs1"
      using gs1(4) n by simp
    have gs8: "gamePhase (gameState game8) = Playing" "\<not> isPaused (gameState game8)"
      "\<not> isGameOver (gameState game8)" "lives (gameState game8) = n - 1"
      using gs1 by (simp_all add: h(1) g7(2) loseLife_fields [OF l] loseLife_lives)
    have em8: "asteroids (entityManager game8) = [r]" "asteroidObj (entityManager game8) r = a2"
      "projectiles (entityManager game8) = []"
      unfolding g8 by (simp_all add: handleCollision_ship_manager [OF g7(1) pair] g7)
    have "shipOnAsteroid (n - 1) True 2000 game8"
      using gs8 em8 rr2 Ship_respawn_resting [OF rs3]
      by (simp add: shipOnAsteroid_def h(2))
    then show ?thesis
      using upd False by (simp add: st3_def st2_def)
  qed
qed

lemma collisionGame_state: "shipOnAsteroid 3 False 0 collisionGame"
  by (simp add: shipOnAsteroid_def collisionGame_def exampleGame_def Game_new_def
      GameState_startNewGame_def GameState_applyDifficultySettings_def
      exampleShip_def Ship_new_def restingShip_def Vector2D_new_def orElse_def
      registerAsteroid_def exampleManager_def EntityManager_new_def
      restingRock_def restingAsteroid_def exampleAsteroid_def)

lemma frames_after_respawn:
  assumes "k \<le> 62"
  shows "\<exists>g. Game_frames (Suc k) 16 quietInput collisionGame = Inr g
           \<and> shipOnAsteroid 2 True (2000 - 32 * real k) g"
  using assms
proof (induction k)
  case 0
  from frame_on_asteroid [OF collisionGame_state, where deltaTime = 16 and currentTime = 16 and now = 16]
  show ?case
    by (simp add: tick_def)
next
  case (Suc k)
  then obtain g where g: "Game_frames (Suc k) 16 quietInput collisionGame = Inr g"
    and st: "shipOnAsteroid 2 True (2000 - 32 * real k) g"
    by auto
  have k: "real k \<le> 61"
    using Suc.prems by simp
  have t: "tick 16 (tick 16 (True, 2000 - 32 * real k)) = (True, 2000 - 32 * real (Suc k))"
    using k by (simp add: tick_def)
  from frame_on_asteroid [OF st, where deltaTime = 16 and currentTime = "16 * real (Suc (Suc k))"
      and now = "16 * real (Suc (Suc k))"]
  obtain g' where "Game_update 16 (16 * real (Suc (Suc k))) (16 * real (Suc (Suc k))) quietInput g = Inr g'"
    "shipOnAsteroid 2 True (2000 - 32 * real (Suc k)) g'"
    unfolding t by auto
  then show ?case
    using g by simp
qed

text \<open>
  C8, a second collision inside the window. The game starts with three lives and the ship
  resting on an asteroid, and runs frames of 16 ms without input. The first frame handles
  the collision: a life is lost and the ship respawns, invulnerable, with 2000 ms on the
  timer. The collisions of the next 62 frames are ignored. In frame 64, which is 1008 ms
  after the respawn, the timer has run out, because every frame calls \<^verbatim>\<open>Ship.update\<close> twice,
  and the collision costs a second life.
\<close>

theorem second_collision_in_window_costs_life:
  "lives (gameState collisionGame) = 3
   \<and> lives (gameState (projr (Game_frames 1 16 quietInput collisionGame))) = 2
   \<and> map_option ship_isInvulnerable (game_ship (projr (Game_frames 1 16 quietInput collisionGame)))
       = Some True
   \<and> map_option ship_invulnerabilityTimer (game_ship (projr (Game_frames 1 16 quietInput collisionGame)))
       = Some 2000
   \<and> map_option ship_invulnerabilityTimer (game_ship (projr (Game_frames 2 16 quietInput collisionGame)))
       = Some 1968
   \<and> lives (gameState (projr (Game_frames 63 16 quietInput collisionGame))) = 2
   \<and> map_option ship_invulnerabilityTimer (game_ship (projr (Game_frames 63 16 quietInput collisionGame)))
       = Some 16
   \<and> lives (gameState (projr (Game_frames 64 16 quietInput collisionGame))) = 1"
proof -
  have fields: "\<And>n iv t g. shipOnAsteroid n iv t g \<Longrightarrow>
      lives (gameState g) = n \<and> map_option ship_isInvulnerable (game_ship g) = Some iv
      \<and> map_option ship_invulnerabilityTimer (game_ship g) = Some t"
    by (auto simp: shipOnAsteroid_def restingShip_def split: option.splits)
  from frames_after_respawn [of 0] obtain g1
    where g1: "Game_frames 1 16 quietInput collisionGame = Inr g1" "shipOnAsteroid 2 True 2000 g1"
    by auto
  from frames_after_respawn [of 1] obtain g2
    where g2: "Game_frames 2 16 quietInput collisionGame = Inr g2" "shipOnAsteroid 2 True 1968 g2"
    by (auto simp: numeral_2_eq_2)
  from frames_after_respawn [of 62] obtain g63
    where g63: "Game_frames 63 16 quietInput collisionGame = Inr g63" "shipOnAsteroid 2 True 16 g63"
    by (auto simp: eval_nat_numeral)
  from frame_on_asteroid [OF g63(2), where deltaTime = 16 and currentTime = "16 * 64" and now = "16 * 64"]
  obtain g64 where u: "Game_update 16 (16 * 64) (16 * 64) quietInput g63 = Inr g64"
    and s64: "shipOnAsteroid 1 True 2000 g64"
    by (auto simp: tick_def)
  have "Game_frames 64 16 quietInput collisionGame = Game_frames (Suc 63) 16 quietInput collisionGame"
    by simp
  also have "\<dots> = Inr g64"
    unfolding Game_frames.simps g63(1) using u by simp
  finally have g64: "Game_frames 64 16 quietInput collisionGame = Inr g64" .
  have 0: "lives (gameState collisionGame) = 3"
    using fields [OF collisionGame_state] by simp
  show ?thesis
    unfolding g1(1) g2(1) g63(1) g64
    using 0 fields [OF g1(2)] fields [OF g2(2)] fields [OF g63(2)] fields [OF s64]
    by simp
qed

end
